theory Spec2Isabelle
  imports Complex_Main "HOL-Library.Word" "HOL-Library.Product_Lexorder"
begin

section \<open>Lightmap geometry baking (Source/Urho3D/Glow/LightmapGeometryBaker.cpp)\<close>

text \<open>
  The development embeds the three stages of \<^verbatim>\<open>LightmapGeometryBaker.cpp\<close>: seam
  detection (\<^verbatim>\<open>CollectModelSeams\<close>), scene assembly
  (\<^verbatim>\<open>GenerateLightmapGeometryBakingScene(s)\<close>) and geometry buffer baking
  (\<^verbatim>\<open>BakeLightmapGeometryBuffer(s)\<close>).

  Conventions of the embedding.
  \<^item> A \<^verbatim>\<open>float\<close> is the rational number it denotes; infinities and NaN are not
    modelled. Where the code branches on floats it has computed (the tests and the hash
    cells of the seam detector), the sum, difference, product and quotient of two floats
    are those of the machine, rounding included: they are the four operations of the
    record \<open>FloatArithmetic\<close>, about which nothing is assumed but what a theorem
    states. Comparison, maximum and floor of floats are exact. Where the code only
    stores the floats it computes (the shader parameters of a material, a transformed
    seam), the value stored is the exact one and its rounding is not modelled. One
    conversion is modelled with its rounding, because what is proved about geometry ids
    depends on it: \<^verbatim>\<open>static_cast<float>(geometryId)\<close>.
  \<^item> \<^verbatim>\<open>unsigned geometryId\<close> is a 32-bit word. Vertex indices, chart indices and
    texel dimensions are only copied and compared by this file, never computed with, and
    are natural numbers.
  \<^item> Undefined behaviour of the C++ (a null pointer dereferenced, an array or vector read
    or written out of range, a float converted to an unsigned it does not fit) is a value
    of the type \<open>error\<close>; every function that can reach it returns a sum.
  \<^item> The engine behind the file (resource cache, model import, renderer, log) is not part
    of the file. It is the record \<open>Engine\<close> of functions that every operation takes as
    its first argument; nothing is assumed about it but what a theorem states.
  \<^item> What a run leaves behind besides its results is a trace: the errors logged and the
    calls of \<^verbatim>\<open>CollectModelSeams\<close>. A function that logs, or that the seam detector is
    called from, takes the trace and returns it extended.
\<close>

subsection \<open>Math types\<close>

text \<open>\<^verbatim>\<open>Vector2\<close>, \<^verbatim>\<open>Vector3\<close>, \<^verbatim>\<open>Vector4\<close> and \<^verbatim>\<open>IntVector3\<close> with the
  fields \<^verbatim>\<open>x_\<close> to \<^verbatim>\<open>w_\<close>; the operators have their
  component-wise meaning. The first three operators below are those of scene assembly,
  whose results are only stored.\<close>

datatype Vector2 = Vector2 (v2_x: rat) (v2_y: rat)

datatype Vector3 = Vector3 (v3_x: rat) (v3_y: rat) (v3_z: rat)

datatype Vector4 = Vector4 (v4_x: rat) (v4_y: rat) (v4_z: rat) (v4_w: rat)

datatype IntVector3 = IntVector3 (iv3_x: int) (iv3_y: int) (iv3_z: int)

datatype Quaternion = Quaternion (q_w: rat) (q_x: rat) (q_y: rat) (q_z: rat)

definition Vector2_add :: "Vector2 \<Rightarrow> Vector2 \<Rightarrow> Vector2" where
  "Vector2_add a b = Vector2 (v2_x a + v2_x b) (v2_y a + v2_y b)"

definition Vector2_mul :: "Vector2 \<Rightarrow> Vector2 \<Rightarrow> Vector2" where
  "Vector2_mul a b = Vector2 (v2_x a * v2_x b) (v2_y a * v2_y b)"

definition Vector4_add :: "Vector4 \<Rightarrow> Vector4 \<Rightarrow> Vector4" where
  "Vector4_add a b =
     Vector4 (v4_x a + v4_x b) (v4_y a + v4_y b) (v4_z a + v4_z b) (v4_w a + v4_w b)"

definition IntVector3_add :: "IntVector3 \<Rightarrow> IntVector3 \<Rightarrow> IntVector3" where
  "IntVector3_add a b = IntVector3 (iv3_x a + iv3_x b) (iv3_y a + iv3_y b) (iv3_z a + iv3_z b)"

definition VectorMax :: "Vector3 \<Rightarrow> Vector3 \<Rightarrow> Vector3" where
  "VectorMax a b = Vector3 (max (v3_x a) (v3_x b)) (max (v3_y a) (v3_y b)) (max (v3_z a) (v3_z b))"

definition VectorFloorToInt :: "Vector3 \<Rightarrow> IntVector3" where
  "VectorFloorToInt a = IntVector3 \<lfloor>v3_x a\<rfloor> \<lfloor>v3_y a\<rfloor> \<lfloor>v3_z a\<rfloor>"

definition Vector3_ONE :: Vector3 where
  "Vector3_ONE = Vector3 1 1 1"

text \<open>\<^verbatim>\<open>static_cast<Vector3>\<close> and \<^verbatim>\<open>static_cast<Vector2>\<close> of a \<^verbatim>\<open>Vector4\<close>
  keep the leading components; \<^verbatim>\<open>Vector3{ v2, z }\<close> appends one.\<close>

definition ToVector3 :: "Vector4 \<Rightarrow> Vector3" where
  "ToVector3 v = Vector3 (v4_x v) (v4_y v) (v4_z v)"

definition ToVector2 :: "Vector4 \<Rightarrow> Vector2" where
  "ToVector2 v = Vector2 (v4_x v) (v4_y v)"

definition Vector3_of2 :: "Vector2 \<Rightarrow> rat \<Rightarrow> Vector3" where
  "Vector3_of2 v z = Vector3 (v2_x v) (v2_y v) z"

text \<open>The arithmetic of \<^verbatim>\<open>float\<close> as the machine performs it: the result of each of
  the four operations on two floats, after rounding. The operators below are those the
  seam detector computes with; each is written with these operations in the order of the
  C++ expression (\<^verbatim>\<open>x_ * x_ + y_ * y_ + z_ * z_\<close> adds from the left).\<close>

record FloatArithmetic =
  FloatAdd :: "rat \<Rightarrow> rat \<Rightarrow> rat"
  FloatSub :: "rat \<Rightarrow> rat \<Rightarrow> rat"
  FloatMul :: "rat \<Rightarrow> rat \<Rightarrow> rat"
  FloatDiv :: "rat \<Rightarrow> rat \<Rightarrow> rat"

definition Vector2_sub :: "'a FloatArithmetic_scheme \<Rightarrow> Vector2 \<Rightarrow> Vector2 \<Rightarrow> Vector2" where
  "Vector2_sub eng a b = Vector2 (FloatSub eng (v2_x a) (v2_x b)) (FloatSub eng (v2_y a) (v2_y b))"

definition Vector2_LengthSquared :: "'a FloatArithmetic_scheme \<Rightarrow> Vector2 \<Rightarrow> rat" where
  "Vector2_LengthSquared eng a =
     FloatAdd eng (FloatMul eng (v2_x a) (v2_x a)) (FloatMul eng (v2_y a) (v2_y a))"

definition Vector3_sub :: "'a FloatArithmetic_scheme \<Rightarrow> Vector3 \<Rightarrow> Vector3 \<Rightarrow> Vector3" where
  "Vector3_sub eng a b =
     Vector3 (FloatSub eng (v3_x a) (v3_x b)) (FloatSub eng (v3_y a) (v3_y b))
             (FloatSub eng (v3_z a) (v3_z b))"

definition Vector3_div :: "'a FloatArithmetic_scheme \<Rightarrow> Vector3 \<Rightarrow> Vector3 \<Rightarrow> Vector3" where
  "Vector3_div eng a b =
     Vector3 (FloatDiv eng (v3_x a) (v3_x b)) (FloatDiv eng (v3_y a) (v3_y b))
             (FloatDiv eng (v3_z a) (v3_z b))"

definition Vector3_divs :: "'a FloatArithmetic_scheme \<Rightarrow> Vector3 \<Rightarrow> rat \<Rightarrow> Vector3" where
  "Vector3_divs eng a s =
     Vector3 (FloatDiv eng (v3_x a) s) (FloatDiv eng (v3_y a) s) (FloatDiv eng (v3_z a) s)"

definition Vector3_muls :: "'a FloatArithmetic_scheme \<Rightarrow> Vector3 \<Rightarrow> rat \<Rightarrow> Vector3" where
  "Vector3_muls eng a s =
     Vector3 (FloatMul eng (v3_x a) s) (FloatMul eng (v3_y a) s) (FloatMul eng (v3_z a) s)"

definition Vector3_LengthSquared :: "'a FloatArithmetic_scheme \<Rightarrow> Vector3 \<Rightarrow> rat" where
  "Vector3_LengthSquared eng a =
     FloatAdd eng (FloatAdd eng (FloatMul eng (v3_x a) (v3_x a)) (FloatMul eng (v3_y a) (v3_y a)))
       (FloatMul eng (v3_z a) (v3_z a))"

definition Vector3_CrossProduct :: "'a FloatArithmetic_scheme \<Rightarrow> Vector3 \<Rightarrow> Vector3 \<Rightarrow> Vector3" where
  "Vector3_CrossProduct eng a b =
     Vector3 (FloatSub eng (FloatMul eng (v3_y a) (v3_z b)) (FloatMul eng (v3_z a) (v3_y b)))
             (FloatSub eng (FloatMul eng (v3_z a) (v3_x b)) (FloatMul eng (v3_x a) (v3_z b)))
             (FloatSub eng (FloatMul eng (v3_x a) (v3_y b)) (FloatMul eng (v3_y a) (v3_x b)))"

record BoundingBox =
  min' :: Vector3
  max' :: Vector3

definition BoundingBox_Size :: "'a FloatArithmetic_scheme \<Rightarrow> BoundingBox \<Rightarrow> Vector3" where
  "BoundingBox_Size eng b = Vector3_sub eng (max' b) (min' b)"

subsection \<open>Errors and the log\<close>

datatype error = NullDereference | OutOfBounds | FloatToUnsignedOutOfRange

text \<open>An entry of the error log: the format string of \<^verbatim>\<open>URHO3D_LOGERROR\<close> and its
  arguments, as the call site gives them (the macro is the engine's; the entry is not
  formatted here). A log below holds what this file logs; what the engine logs inside its
  own functions is not part of it.\<close>

datatype LogEntry = LogError string "string list"

subsection \<open>Meshes and seams\<close>

record ModelVertex =
  position' :: Vector4
  normal' :: Vector4
  uv' :: "Vector4 list"

record GeometryLODView =
  vertices' :: "ModelVertex list"
  indices' :: "nat list"

record GeometryView =
  lods' :: "GeometryLODView list"

record ModelView =
  geometries' :: "GeometryView list"

text \<open>\<^verbatim>\<open>LightmapSeam\<close>: the two arrays \<^verbatim>\<open>positions_[2]\<close> and
  \<^verbatim>\<open>otherPositions_[2]\<close> are pairs, read by \<open>at2\<close>.\<close>

record LightmapSeam =
  positions' :: "Vector2 \<times> Vector2"
  otherPositions' :: "Vector2 \<times> Vector2"

definition at2 :: "'a \<times> 'a \<Rightarrow> nat \<Rightarrow> 'a" where
  "at2 p i = (if i = 0 then fst p else snd p)"

type_synonym LightmapSeamVector = "LightmapSeam list"

type_synonym OrderedIndexPair = "nat \<times> nat"

type_synonym ModelPtr = nat

text \<open>The engine: the float arithmetic, and what the file calls and does not define.
  \<open>M_LARGE_EPSILON\<close> and
  \<open>M_LARGE_VALUE\<close> are the constants of \<^verbatim>\<open>Math/MathDefs.h\<close>;
  \<open>GetName\<close> and \<open>ImportModel\<close> stand for \<^verbatim>\<open>Model::GetName\<close> and
  \<^verbatim>\<open>ModelView::ImportModel\<close> (\<open>None\<close> when the import fails);
  \<open>CalculateBoundingBox\<close> for \<^verbatim>\<open>ModelView::CalculateBoundingBox\<close>.\<close>

record SeamEngine = FloatArithmetic +
  M_LARGE_EPSILON :: rat
  M_LARGE_VALUE :: rat
  GetName :: "ModelPtr \<Rightarrow> string"
  ImportModel :: "ModelPtr \<Rightarrow> ModelView option"
  CalculateBoundingBox :: "ModelView \<Rightarrow> BoundingBox"

text \<open>The trace of a run: the error log, and the models \<^verbatim>\<open>CollectModelSeams\<close> was
  entered with, one entry for every call in the order of the calls. The code keeps no
  such list; it is what makes the calls countable.\<close>

record RunTrace =
  traceLog :: "LogEntry list"
  traceCalls :: "ModelPtr option list"

definition emptyTrace :: RunTrace where
  "emptyTrace = \<lparr> traceLog = [], traceCalls = [] \<rparr>"

subsection \<open>Seam detection\<close>

definition MakeOrderedIndexPair :: "nat \<Rightarrow> nat \<Rightarrow> OrderedIndexPair" where
  "MakeOrderedIndexPair firstIndex secondIndex =
     (if firstIndex < secondIndex then (firstIndex, secondIndex) else (secondIndex, firstIndex))"

text \<open>The loop "Read all edges": one face per three indices, a trailing one or two
  indices are not read (\<^verbatim>\<open>faceIndex < indices_.size() / 3\<close>).\<close>

fun ReadEdges :: "nat list \<Rightarrow> OrderedIndexPair list" where
  "ReadEdges (indexA # indexB # indexC # rest) =
     MakeOrderedIndexPair indexA indexB # MakeOrderedIndexPair indexB indexC #
     MakeOrderedIndexPair indexC indexA # ReadEdges rest"
| "ReadEdges _ = []"

text \<open>\<^verbatim>\<open>ea::sort\<close> followed by \<^verbatim>\<open>erase(ea::unique(...))\<close>, on pairs in their
  lexicographic order.\<close>

definition SortUnique :: "OrderedIndexPair list \<Rightarrow> OrderedIndexPair list" where
  "SortUnique xs = remdups_adj (sort xs)"

definition hashStep :: "'a SeamEngine_scheme \<Rightarrow> BoundingBox \<Rightarrow> Vector3" where
  "hashStep eng boundingBox =
     VectorMax (Vector3_divs eng (BoundingBox_Size eng boundingBox) (M_LARGE_VALUE eng))
               (Vector3_muls eng Vector3_ONE (M_LARGE_EPSILON eng))"

text \<open>The lambda \<^verbatim>\<open>computeHash\<close>: the cell of a position, from the difference and
  the quotient as the machine rounds them. The components of an \<^verbatim>\<open>IntVector3\<close> are
  unbounded integers here.\<close>

definition computeHash :: "'a SeamEngine_scheme \<Rightarrow> BoundingBox \<Rightarrow> Vector3 \<Rightarrow> IntVector3" where
  "computeHash eng boundingBox position =
     VectorFloorToInt
       (Vector3_div eng (Vector3_sub eng position (min' boundingBox)) (hashStep eng boundingBox))"

definition vertexHash ::
  "'a SeamEngine_scheme \<Rightarrow> BoundingBox \<Rightarrow> ModelVertex list \<Rightarrow> nat \<Rightarrow> IntVector3" where
  "vertexHash eng boundingBox vertices index =
     computeHash eng boundingBox (ToVector3 (position' (vertices ! index)))"

text \<open>\<^verbatim>\<open>geometryEdgesHash[hashPosition].push_back(edge)\<close>: \<^verbatim>\<open>operator[]\<close> creates
  an empty bucket for a new key.\<close>

definition HashPushBack ::
  "IntVector3 \<Rightarrow> OrderedIndexPair \<Rightarrow> (IntVector3 \<rightharpoonup> OrderedIndexPair list) \<Rightarrow>
   (IntVector3 \<rightharpoonup> OrderedIndexPair list)" where
  "HashPushBack hashPosition edge m =
     m(hashPosition \<mapsto> (case m hashPosition of None \<Rightarrow> [] | Some bucket \<Rightarrow> bucket) @ [edge])"

definition MakeEdgesHash ::
  "(nat \<Rightarrow> IntVector3) \<Rightarrow> OrderedIndexPair list \<Rightarrow> (IntVector3 \<rightharpoonup> OrderedIndexPair list)" where
  "MakeEdgesHash hashOf geometryEdges =
     foldl (\<lambda>m edge. foldl (\<lambda>m index. HashPushBack (hashOf index) edge m) m [fst edge, snd edge])
       Map.empty geometryEdges"

text \<open>The three nested loops over \<^verbatim>\<open>hashOffset\<close>, x outermost.\<close>

definition hashOffsets :: "IntVector3 list" where
  "hashOffsets =
     concat (map (\<lambda>x. concat (map (\<lambda>y. map (\<lambda>z. IntVector3 x y z) [-1, 0, 1]) [-1, 0, 1])) [-1, 0, 1])"

text \<open>"Find candidates from spatial hash", then "Remove duplicates".
  \<^verbatim>\<open>candidatesBuffer.push_back(iter->second)\<close> has a bucket as its argument: it
  appends the bucket's edges.\<close>

definition FindCandidates ::
  "(nat \<Rightarrow> IntVector3) \<Rightarrow> (IntVector3 \<rightharpoonup> OrderedIndexPair list) \<Rightarrow> OrderedIndexPair \<Rightarrow>
   OrderedIndexPair list" where
  "FindCandidates hashOf geometryEdgesHash edge =
     SortUnique (concat (map (\<lambda>index.
        concat (map (\<lambda>hashOffset.
          (case geometryEdgesHash (IntVector3_add (hashOf index) hashOffset) of
             None \<Rightarrow> []
           | Some bucket \<Rightarrow> bucket)) hashOffsets)) [fst edge, snd edge]))"

text \<open>"Swap candidate vertices if needed".\<close>

definition OrientCandidate ::
  "'a FloatArithmetic_scheme \<Rightarrow> ModelVertex list \<Rightarrow> rat \<Rightarrow> OrderedIndexPair \<Rightarrow> OrderedIndexPair \<Rightarrow>
   OrderedIndexPair" where
  "OrientCandidate eng vertices positionEpsilonSquared edge candidate =
     (let candidatePos0 = ToVector3 (position' (vertices ! fst candidate));
          edgePos1 = ToVector3 (position' (vertices ! snd edge))
      in if Vector3_LengthSquared eng (Vector3_sub eng candidatePos0 edgePos1) < positionEpsilonSquared
         then (snd candidate, fst candidate) else candidate)"

text \<open>The tests of one oriented candidate against one edge, lines 252 to 280: \<open>True\<close>
  when the loop reaches "It's a seam!".\<close>

definition IsSeam ::
  "'a SeamEngine_scheme \<Rightarrow> ModelVertex list \<Rightarrow> nat \<Rightarrow> OrderedIndexPair \<Rightarrow> OrderedIndexPair \<Rightarrow> bool" where
  "IsSeam eng vertices uvChannel edge candidate =
     (let positionEpsilonSquared = FloatMul eng (M_LARGE_EPSILON eng) (M_LARGE_EPSILON eng);
          normalEpsilonSquared = FloatMul eng (M_LARGE_EPSILON eng) (M_LARGE_EPSILON eng);
          uvEpsilonSquared = FloatMul eng (M_LARGE_EPSILON eng) (M_LARGE_EPSILON eng);
          edgePos0 = ToVector3 (position' (vertices ! fst edge));
          edgePos1 = ToVector3 (position' (vertices ! snd edge));
          edgeNormal0 = ToVector3 (normal' (vertices ! fst edge));
          edgeNormal1 = ToVector3 (normal' (vertices ! snd edge));
          edgeUv0 = ToVector2 (uv' (vertices ! fst edge) ! uvChannel);
          edgeUv1 = ToVector2 (uv' (vertices ! snd edge) ! uvChannel);
          candidatePos0 = ToVector3 (position' (vertices ! fst candidate));
          candidatePos1 = ToVector3 (position' (vertices ! snd candidate));
          candidateNormal0 = ToVector3 (normal' (vertices ! fst candidate));
          candidateNormal1 = ToVector3 (normal' (vertices ! snd candidate));
          candidateUv0 = ToVector2 (uv' (vertices ! fst candidate) ! uvChannel);
          candidateUv1 = ToVector2 (uv' (vertices ! snd candidate) ! uvChannel);
          samePos0 = Vector3_LengthSquared eng (Vector3_sub eng edgePos0 candidatePos0) < positionEpsilonSquared;
          samePos1 = Vector3_LengthSquared eng (Vector3_sub eng edgePos1 candidatePos1) < positionEpsilonSquared;
          sameNormal0 = Vector3_LengthSquared eng (Vector3_sub eng edgeNormal0 candidateNormal0) < normalEpsilonSquared;
          sameNormal1 = Vector3_LengthSquared eng (Vector3_sub eng edgeNormal1 candidateNormal1) < normalEpsilonSquared
      in if \<not> samePos0 \<or> \<not> samePos1 \<or> \<not> sameNormal0 \<or> \<not> sameNormal1 then False
         else
           let sameUv0 = Vector2_LengthSquared eng (Vector2_sub eng edgeUv0 candidateUv0) < uvEpsilonSquared;
               sameUv1 = Vector2_LengthSquared eng (Vector2_sub eng edgeUv1 candidateUv1) < uvEpsilonSquared
           in if sameUv0 \<and> sameUv1 then False
              else
                let edgeUvDelta = Vector3_of2 (Vector2_sub eng edgeUv1 edgeUv0) 0;
                    delta00 = Vector3_of2 (Vector2_sub eng candidateUv0 edgeUv0) 0;
                    delta01 = Vector3_of2 (Vector2_sub eng candidateUv1 edgeUv0) 0;
                    collinear00 =
                      Vector3_LengthSquared eng (Vector3_CrossProduct eng edgeUvDelta delta00) < uvEpsilonSquared;
                    collinear01 =
                      Vector3_LengthSquared eng (Vector3_CrossProduct eng edgeUvDelta delta01) < uvEpsilonSquared
                in if collinear00 \<and> collinear01 then False else True)"

definition MakeSeam ::
  "ModelVertex list \<Rightarrow> nat \<Rightarrow> OrderedIndexPair \<Rightarrow> OrderedIndexPair \<Rightarrow> LightmapSeam" where
  "MakeSeam vertices uvChannel edge candidate =
     \<lparr> positions' = (ToVector2 (uv' (vertices ! fst edge) ! uvChannel),
                     ToVector2 (uv' (vertices ! snd edge) ! uvChannel)),
       otherPositions' = (ToVector2 (uv' (vertices ! fst candidate) ! uvChannel),
                          ToVector2 (uv' (vertices ! snd candidate) ! uvChannel)) \<rparr>"

text \<open>The loop "Check for seams" over the candidates of one edge: the pairs of the edge
  and a candidate (as it stands in the candidates buffer, before it is oriented) for which
  a seam is pushed, in the order the seams are pushed.\<close>

definition EdgeSeamPairs ::
  "'a SeamEngine_scheme \<Rightarrow> ModelVertex list \<Rightarrow> nat \<Rightarrow> OrderedIndexPair list \<Rightarrow> OrderedIndexPair \<Rightarrow>
   (OrderedIndexPair \<times> OrderedIndexPair) list" where
  "EdgeSeamPairs eng vertices uvChannel candidatesBuffer edge =
     concat (map (\<lambda>candidate.
        if candidate = edge then []
        else
          let oriented = OrientCandidate eng vertices (FloatMul eng (M_LARGE_EPSILON eng) (M_LARGE_EPSILON eng)) edge candidate
          in if IsSeam eng vertices uvChannel edge oriented then [(edge, candidate)] else [])
       candidatesBuffer)"

text \<open>The seam pushed for an edge and a candidate of the buffer.\<close>

definition PushedSeam ::
  "'a SeamEngine_scheme \<Rightarrow> ModelVertex list \<Rightarrow> nat \<Rightarrow> OrderedIndexPair \<times> OrderedIndexPair \<Rightarrow>
   LightmapSeam" where
  "PushedSeam eng vertices uvChannel pair =
     MakeSeam vertices uvChannel (fst pair)
       (OrientCandidate eng vertices (FloatMul eng (M_LARGE_EPSILON eng) (M_LARGE_EPSILON eng)) (fst pair) (snd pair))"

text \<open>What the loops read of the vertex array and of \<^verbatim>\<open>uv_\<close>: the vertices of every
  edge, and their UV in the channel. A read out of range is undefined behaviour.\<close>

definition EdgesInRange :: "ModelVertex list \<Rightarrow> nat \<Rightarrow> OrderedIndexPair list \<Rightarrow> bool" where
  "EdgesInRange vertices uvChannel geometryEdges =
     list_all (\<lambda>edge. list_all (\<lambda>index.
        index < length vertices \<and> uvChannel < length (uv' (vertices ! index))) [fst edge, snd edge])
       geometryEdges"

text \<open>The body of the loop over the LODs of a geometry, lines 165 to 291.\<close>

definition LodSeamPairs ::
  "'a SeamEngine_scheme \<Rightarrow> BoundingBox \<Rightarrow> nat \<Rightarrow> GeometryLODView \<Rightarrow>
   (OrderedIndexPair \<times> OrderedIndexPair) list" where
  "LodSeamPairs eng boundingBox uvChannel geometryLod =
     (let vertices = vertices' geometryLod;
          geometryEdges = SortUnique (ReadEdges (indices' geometryLod));
          hashOf = vertexHash eng boundingBox vertices;
          geometryEdgesHash = MakeEdgesHash hashOf geometryEdges
      in concat (map (\<lambda>edge.
           EdgeSeamPairs eng vertices uvChannel (FindCandidates hashOf geometryEdgesHash edge) edge)
           geometryEdges))"

definition CollectLodSeams ::
  "'a SeamEngine_scheme \<Rightarrow> BoundingBox \<Rightarrow> nat \<Rightarrow> GeometryLODView \<Rightarrow> error + LightmapSeamVector" where
  "CollectLodSeams eng boundingBox uvChannel geometryLod =
     (if \<not> EdgesInRange (vertices' geometryLod) uvChannel (SortUnique (ReadEdges (indices' geometryLod)))
      then Inl OutOfBounds
      else Inr (map (PushedSeam eng (vertices' geometryLod) uvChannel)
                  (LodSeamPairs eng boundingBox uvChannel geometryLod)))"

text \<open>The seams of a list of LODs, appended in order; undefined behaviour in one LOD is
  undefined behaviour of the whole.\<close>

fun CollectSeamsOfLods ::
  "'a SeamEngine_scheme \<Rightarrow> BoundingBox \<Rightarrow> nat \<Rightarrow> GeometryLODView list \<Rightarrow> error + LightmapSeamVector" where
  "CollectSeamsOfLods eng boundingBox uvChannel [] = Inr []"
| "CollectSeamsOfLods eng boundingBox uvChannel (geometryLod # rest) =
     (case CollectLodSeams eng boundingBox uvChannel geometryLod of
        Inl e \<Rightarrow> Inl e
      | Inr seams \<Rightarrow>
          (case CollectSeamsOfLods eng boundingBox uvChannel rest of
             Inl e \<Rightarrow> Inl e
           | Inr moreSeams \<Rightarrow> Inr (seams @ moreSeams)))"

text \<open>The seams of an imported model: every LOD of every geometry, in order. A geometry
  without LODs is skipped by the code and contributes nothing here.\<close>

definition CollectViewSeams ::
  "'a SeamEngine_scheme \<Rightarrow> ModelView \<Rightarrow> nat \<Rightarrow> error + LightmapSeamVector" where
  "CollectViewSeams eng modelView uvChannel =
     CollectSeamsOfLods eng (CalculateBoundingBox eng modelView) uvChannel
       (concat (map lods' (geometries' modelView)))"

text \<open>\<^verbatim>\<open>CollectModelSeams\<close>: the seams, and the trace with the call and with what the
  call logs. A null \<^verbatim>\<open>Model*\<close> is dereferenced by \<^verbatim>\<open>model->GetContext()\<close>.\<close>

definition CollectModelSeams ::
  "'a SeamEngine_scheme \<Rightarrow> RunTrace \<Rightarrow> ModelPtr option \<Rightarrow> nat \<Rightarrow>
   error + (LightmapSeamVector \<times> RunTrace)" where
  "CollectModelSeams eng trace model uvChannel =
     (case model of
        None \<Rightarrow> Inl NullDereference
      | Some m \<Rightarrow>
          (let entered = trace\<lparr> traceCalls := traceCalls trace @ [model] \<rparr>
           in case ImportModel eng m of
                None \<Rightarrow>
                  Inr ([], entered\<lparr> traceLog := traceLog entered @
                              [LogError (''Failed to import model '' @ [CHR 0x22] @ ''{}'' @ [CHR 0x22])
                                 [GetName eng m]] \<rparr>)
              | Some modelView \<Rightarrow>
                  (case CollectViewSeams eng modelView uvChannel of
                     Inl e \<Rightarrow> Inl e
                   | Inr seams \<Rightarrow> Inr (seams, entered))))"

subsection \<open>The seam condition as the specification words it\<close>

text \<open>Section 4.1 of the specification, step 6: the candidate's endpoints are swapped when
  its first endpoint is within the position tolerance of the edge's second endpoint.
  Distances are compared by their squares, as everywhere in the seam detector.\<close>

definition SpecOrientedCandidate ::
  "'a SeamEngine_scheme \<Rightarrow> ModelVertex list \<Rightarrow> OrderedIndexPair \<Rightarrow> OrderedIndexPair \<Rightarrow> OrderedIndexPair" where
  "SpecOrientedCandidate eng vertices edge candidate =
     (if Vector3_LengthSquared eng
           (Vector3_sub eng (ToVector3 (position' (vertices ! fst candidate)))
                        (ToVector3 (position' (vertices ! snd edge))))
         < FloatMul eng (M_LARGE_EPSILON eng) (M_LARGE_EPSILON eng)
      then (snd candidate, fst candidate) else candidate)"

text \<open>Step 7, first half: both endpoint positions and both endpoint normals of the edge
  and of the oriented candidate match within the squared tolerance.\<close>

definition SpecSameGeometry ::
  "'a SeamEngine_scheme \<Rightarrow> ModelVertex list \<Rightarrow> OrderedIndexPair \<Rightarrow> OrderedIndexPair \<Rightarrow> bool" where
  "SpecSameGeometry eng vertices edge candidate \<longleftrightarrow>
     (let eps2 = FloatMul eng (M_LARGE_EPSILON eng) (M_LARGE_EPSILON eng);
          pos = (\<lambda>index. ToVector3 (position' (vertices ! index)));
          nrm = (\<lambda>index. ToVector3 (normal' (vertices ! index)))
      in Vector3_LengthSquared eng (Vector3_sub eng (pos (fst edge)) (pos (fst candidate))) < eps2 \<and>
         Vector3_LengthSquared eng (Vector3_sub eng (pos (snd edge)) (pos (snd candidate))) < eps2 \<and>
         Vector3_LengthSquared eng (Vector3_sub eng (nrm (fst edge)) (nrm (fst candidate))) < eps2 \<and>
         Vector3_LengthSquared eng (Vector3_sub eng (nrm (snd edge)) (nrm (snd candidate))) < eps2)"

text \<open>Step 7, second half: the UV endpoint pairs do not both match, and the cross
  products of the edge's UV delta with the two deltas from the edge's UV origin to the
  candidate's UV endpoints do not both have a squared length below the squared
  tolerance.\<close>

definition SpecDifferentUv ::
  "'a SeamEngine_scheme \<Rightarrow> ModelVertex list \<Rightarrow> nat \<Rightarrow> OrderedIndexPair \<Rightarrow> OrderedIndexPair \<Rightarrow> bool" where
  "SpecDifferentUv eng vertices uvChannel edge candidate \<longleftrightarrow>
     (let eps2 = FloatMul eng (M_LARGE_EPSILON eng) (M_LARGE_EPSILON eng);
          uv = (\<lambda>index. ToVector2 (uv' (vertices ! index) ! uvChannel));
          edgeDelta = Vector3_of2 (Vector2_sub eng (uv (snd edge)) (uv (fst edge))) 0;
          cross = (\<lambda>index. Vector3_CrossProduct eng edgeDelta
                     (Vector3_of2 (Vector2_sub eng (uv index) (uv (fst edge))) 0))
      in \<not> (Vector2_LengthSquared eng (Vector2_sub eng (uv (fst edge)) (uv (fst candidate))) < eps2 \<and>
            Vector2_LengthSquared eng (Vector2_sub eng (uv (snd edge)) (uv (snd candidate))) < eps2) \<and>
         \<not> (Vector3_LengthSquared eng (cross (fst candidate)) < eps2 \<and>
            Vector3_LengthSquared eng (cross (snd candidate)) < eps2))"

definition SpecSeamCondition ::
  "'a SeamEngine_scheme \<Rightarrow> ModelVertex list \<Rightarrow> nat \<Rightarrow> OrderedIndexPair \<Rightarrow> OrderedIndexPair \<Rightarrow> bool" where
  "SpecSeamCondition eng vertices uvChannel edge candidate \<longleftrightarrow>
     SpecSameGeometry eng vertices edge candidate \<and>
     SpecDifferentUv eng vertices uvChannel edge candidate"

subsection \<open>Charts, materials and baking scenes\<close>

text \<open>Modelled from the spec: \<^verbatim>\<open>LightmapSeam::Transformed\<close> is declared in the header
  \<^verbatim>\<open>LightmapGeometryBaker.h\<close>, which is not among the sources. The specification
  (section 8) gives \<^verbatim>\<open>seam.Transformed(s,o).positions_[i] == seam.positions_[i]*s + o\<close>
  for both endpoints, and likewise for \<^verbatim>\<open>otherPositions_\<close>.\<close>

definition Transformed :: "LightmapSeam \<Rightarrow> Vector2 \<Rightarrow> Vector2 \<Rightarrow> LightmapSeam" where
  "Transformed seam scale offset =
     \<lparr> positions' = (Vector2_add (Vector2_mul (fst (positions' seam)) scale) offset,
                     Vector2_add (Vector2_mul (snd (positions' seam)) scale) offset),
       otherPositions' = (Vector2_add (Vector2_mul (fst (otherPositions' seam)) scale) offset,
                          Vector2_add (Vector2_mul (snd (otherPositions' seam)) scale) offset) \<rparr>"

text \<open>A scene node as the code reads it: the three getters of \<^verbatim>\<open>Node\<close>.\<close>

record Node =
  GetWorldPosition :: Vector3
  GetWorldRotation :: Quaternion
  GetWorldScale :: Vector3

text \<open>A \<^verbatim>\<open>StaticModel\<close> component as the code reads it: \<^verbatim>\<open>GetModel()\<close>, a
  pointer that may be null. Its world bounding box only feeds the camera, which no
  operation of this file reads back; the camera and the octree of a baking scene are not
  modelled.\<close>

record StaticModel =
  GetModel :: "ModelPtr option"

text \<open>\<^verbatim>\<open>LightmapChartRegion\<close>, \<^verbatim>\<open>LightmapChartElement\<close> and \<^verbatim>\<open>LightmapChart\<close>
  are declared in a header that is not among the sources; a getter the code calls is a
  field here, and nothing relates the getters to each other.\<close>

record LightmapChartRegion =
  GetScale :: Vector2
  GetOffset :: Vector2
  GetScaleOffset :: Vector4

record LightmapChartElement =
  node' :: "Node option"
  staticModel' :: "StaticModel option"
  region' :: LightmapChartRegion

record LightmapChart =
  index' :: nat
  width' :: nat
  height' :: nat
  size' :: "int \<times> int"
  elements' :: "LightmapChartElement list"
  GetTexelSize :: Vector2

record LightmapGeometryBakingSettings =
  materialName' :: string
  uvChannel' :: nat
  renderPathName' :: string

datatype Variant = VariantFloat rat | VariantVector4 Vector4

text \<open>A material is its shader parameters. Objects are values here, so the clone of a
  material is a new value equal to it, and every scene node holds the clone made for
  it.\<close>

record Material =
  shaderParameters :: "string \<rightharpoonup> Variant"

definition Clone :: "Material \<Rightarrow> Material" where
  "Clone material = material"

definition SetShaderParameter :: "string \<Rightarrow> Variant \<Rightarrow> Material \<Rightarrow> Material" where
  "SetShaderParameter name v material =
     material\<lparr> shaderParameters := (shaderParameters material)(name \<mapsto> v) \<rparr>"

text \<open>A child node of the baking scene with its \<^verbatim>\<open>StaticModel\<close> component: what
  \<^verbatim>\<open>SetPosition\<close>, \<^verbatim>\<open>SetRotation\<close>, \<^verbatim>\<open>SetScale\<close>, \<^verbatim>\<open>SetModel\<close> and
  \<^verbatim>\<open>SetMaterial\<close> stored.\<close>

record SceneNode =
  position'' :: Vector3
  rotation'' :: Quaternion
  scale'' :: Vector3
  model'' :: "ModelPtr option"
  material'' :: Material

type_synonym XMLFile = string

datatype RenderPath = RenderPath XMLFile

text \<open>\<^verbatim>\<open>LightmapGeometryBakingScene\<close>: the scene is the list of its child nodes in the
  order \<^verbatim>\<open>CreateChild\<close> made them.\<close>

record LightmapGeometryBakingScene =
  index' :: nat
  width' :: nat
  height' :: nat
  size' :: "int \<times> int"
  scene' :: "SceneNode list"
  renderPath' :: RenderPath
  seams' :: LightmapSeamVector

text \<open>A texture read back from the GPU: whether its dynamic type is \<^verbatim>\<open>Texture2D\<close>,
  and its texels as \<^verbatim>\<open>RGBA32\<close> float quadruples (\<^verbatim>\<open>GetDataSize(width, height) /
  sizeof(Vector4)\<close> of them).\<close>

record Texture =
  IsTexture2D :: bool
  GetData :: "Vector4 list"

text \<open>The whole engine. \<open>GetMaterial\<close> and \<open>GetXMLFile\<close> are
  \<^verbatim>\<open>GetResource<Material>\<close> and \<^verbatim>\<open>GetResource<XMLFile>\<close> of the resource cache
  (\<open>None\<close> for a null pointer); \<open>RenderPath_Load\<close> is \<^verbatim>\<open>RenderPath::Load\<close> on a
  file that exists. The renderer answers frame by frame: \<open>BeginFrame k\<close> is what
  \<^verbatim>\<open>Graphics::BeginFrame\<close> returns for the frame number \<open>k\<close> of a run, and
  \<open>GetExtraRenderTarget k bakingScene name\<close> is the render target the view of that frame
  holds under a name once the scene has been rendered through its render path. The screen
  buffer, the viewport and the view of a frame are the engine's and are taken to exist.\<close>

record Engine = SeamEngine +
  GetMaterial :: "string \<Rightarrow> Material option"
  GetXMLFile :: "string \<Rightarrow> XMLFile option"
  RenderPath_Load :: "XMLFile \<Rightarrow> bool"
  BeginFrame :: "nat \<Rightarrow> bool"
  GetExtraRenderTarget :: "nat \<Rightarrow> LightmapGeometryBakingScene \<Rightarrow> string \<Rightarrow> Texture option"

subsection \<open>Scene assembly\<close>

definition numMultiTapSamples :: nat where
  "numMultiTapSamples = 25"

definition multiTapOffsets :: "Vector2 list" where
  "multiTapOffsets =
     [Vector2 1 1, Vector2 1 (-1), Vector2 (-1) 1, Vector2 (-1) (-1),
      Vector2 1 (1/2), Vector2 1 (-1/2), Vector2 (-1) (1/2), Vector2 (-1) (-1/2),
      Vector2 (1/2) 1, Vector2 (1/2) (-1), Vector2 (-1/2) 1, Vector2 (-1/2) (-1),
      Vector2 1 0, Vector2 (-1) 0, Vector2 0 1, Vector2 0 (-1),
      Vector2 (1/2) (1/2), Vector2 (1/2) (-1/2), Vector2 (-1/2) (1/2), Vector2 (-1/2) (-1/2),
      Vector2 (1/2) 0, Vector2 (-1/2) 0, Vector2 0 (1/2), Vector2 0 (-1/2),
      Vector2 0 0]"

definition LoadRenderPath :: "'a Engine_scheme \<Rightarrow> string \<Rightarrow> RenderPath option" where
  "LoadRenderPath eng renderPathName =
     (case GetXMLFile eng renderPathName of
        None \<Rightarrow> None
      | Some renderPathXml \<Rightarrow>
          if \<not> RenderPath_Load eng renderPathXml then None else Some (RenderPath renderPathXml))"

text \<open>\<^verbatim>\<open>static_cast<float>(geometryId)\<close>: an unsigned of more than 24 significant bits
  is rounded to the nearest float, ties to even (the rounding of IEEE 754 that compilers
  use; the C++ standard leaves the direction to the implementation). \<open>e\<close> is the number
  of low bits that do not fit the 24-bit significand.\<close>

definition FloatFromUnsigned :: "32 word \<Rightarrow> rat" where
  "FloatFromUnsigned u =
     (let n = unat u;
          e = length (takeWhile (\<lambda>e. 2 ^ 24 \<le> n div 2 ^ e) [0..<9]);
          q = n div 2 ^ e;
          r = n mod 2 ^ e;
          rounded = (if 2 ^ e < 2 * r \<or> (2 * r = 2 ^ e \<and> odd q) then q + 1 else q)
      in of_nat (rounded * 2 ^ e))"

text \<open>The elements of a chart that carry a mesh, in chart order.\<close>

definition MeshElements :: "LightmapChart \<Rightarrow> LightmapChartElement list" where
  "MeshElements chart = filter (\<lambda>element. staticModel' element \<noteq> None) (elements' chart)"

text \<open>"Calculate bounding box and enumerate used models": the hash set of the models of
  the elements that carry a mesh, as the list the tasks are scheduled from. The order in
  which a hash set is traversed is not fixed by the code; nothing below depends on it but
  the order of the log.\<close>

definition UsedModels :: "LightmapChart \<Rightarrow> ModelPtr option list" where
  "UsedModels chart =
     remdups (concat (map (\<lambda>element.
        (case staticModel' element of None \<Rightarrow> [] | Some staticModel \<Rightarrow> [GetModel staticModel]))
       (elements' chart)))"

text \<open>"Schedule model seams collecting" and the \<^verbatim>\<open>task.get()\<close> of every task: the
  body of a task calls \<^verbatim>\<open>CollectModelSeams\<close> and pairs the model with its seams.
  The tasks of \<^verbatim>\<open>std::async\<close> may run concurrently; the trace has their calls and
  their log entries in the order of the tasks.\<close>

fun CollectSeamsTasks ::
  "'a SeamEngine_scheme \<Rightarrow> nat \<Rightarrow> ModelPtr option list \<Rightarrow> RunTrace \<Rightarrow>
   error + ((ModelPtr option \<times> LightmapSeamVector) list \<times> RunTrace)" where
  "CollectSeamsTasks eng uvChannel [] trace = Inr ([], trace)"
| "CollectSeamsTasks eng uvChannel (model # models) trace =
     (case CollectModelSeams eng trace model uvChannel of
        Inl e \<Rightarrow> Inl e
      | Inr (modelSeams, trace1) \<Rightarrow>
          (case CollectSeamsTasks eng uvChannel models trace1 of
             Inl e \<Rightarrow> Inl e
           | Inr (results, trace2) \<Rightarrow> Inr ((model, modelSeams) # results, trace2)))"

text \<open>"Cache model seams": \<^verbatim>\<open>emplace\<close> keeps the entry of a key that is present.\<close>

definition CacheModelSeams ::
  "(ModelPtr option \<times> LightmapSeamVector) list \<Rightarrow> (ModelPtr option \<rightharpoonup> LightmapSeamVector)" where
  "CacheModelSeams results =
     foldl (\<lambda>cache result.
        (case cache (fst result) of None \<Rightarrow> cache(fst result \<mapsto> snd result) | Some _ \<Rightarrow> cache))
       Map.empty results"

text \<open>\<^verbatim>\<open>modelSeamsCache[model]\<close>: \<^verbatim>\<open>operator[]\<close> answers an empty vector for a key
  that is not present.\<close>

definition CachedSeams ::
  "(ModelPtr option \<rightharpoonup> LightmapSeamVector) \<Rightarrow> ModelPtr option \<Rightarrow> LightmapSeamVector" where
  "CachedSeams modelSeamsCache model =
     (case modelSeamsCache model of None \<Rightarrow> [] | Some modelSeams \<Rightarrow> modelSeams)"

text \<open>The body of the loop "Add model for each tap": the node made for one tap.\<close>

definition TapNode ::
  "LightmapChart \<Rightarrow> Material \<Rightarrow> Node \<Rightarrow> ModelPtr option \<Rightarrow> Vector4 \<Rightarrow> 32 word \<Rightarrow> nat \<Rightarrow> SceneNode" where
  "TapNode chart bakingMaterial node model scaleOffset geometryId tap =
     (let tapOffset = Vector2_mul (multiTapOffsets ! tap) (GetTexelSize chart);
          tapOffset4 = Vector4 0 0 (v2_x tapOffset) (v2_y tapOffset);
          tapDepth = 1 - of_nat tap / of_nat (numMultiTapSamples - 1);
          material =
            SetShaderParameter ''LightmapGeometry'' (VariantFloat (FloatFromUnsigned geometryId))
              (SetShaderParameter ''LightmapLayer'' (VariantFloat tapDepth)
                (SetShaderParameter ''LMOffset'' (VariantVector4 (Vector4_add scaleOffset tapOffset4))
                  (Clone bakingMaterial)))
      in \<lparr> position'' = GetWorldPosition node,
           rotation'' = GetWorldRotation node,
           scale'' = GetWorldScale node,
           model'' = model,
           material'' = material \<rparr>)"

text \<open>The loop "Replicate all elements in the scene" with its three variables: the next
  geometry id, the seams and the nodes of the scene. The seams of an element are read
  from the cache: the loop neither logs nor calls \<^verbatim>\<open>CollectModelSeams\<close>, and the
  trace passes through it as it is. A null baking material is dereferenced by
  \<^verbatim>\<open>bakingMaterial->Clone()\<close> and a null \<^verbatim>\<open>node_\<close> by
  \<^verbatim>\<open>element.node_->GetWorldPosition()\<close>, both in the first tap of the first element
  that carries a mesh.\<close>

fun ReplicateElements ::
  "LightmapChart \<Rightarrow> Material option \<Rightarrow> (ModelPtr option \<rightharpoonup> LightmapSeamVector) \<Rightarrow>
   LightmapChartElement list \<Rightarrow> 32 word \<times> LightmapSeamVector \<times> SceneNode list \<Rightarrow> RunTrace \<Rightarrow>
   error + ((32 word \<times> LightmapSeamVector \<times> SceneNode list) \<times> RunTrace)" where
  "ReplicateElements chart bakingMaterial modelSeamsCache [] state trace = Inr (state, trace)"
| "ReplicateElements chart bakingMaterial modelSeamsCache (element # rest) (geometryId, seams, nodes) trace =
     (case staticModel' element of
        None \<Rightarrow>
          ReplicateElements chart bakingMaterial modelSeamsCache rest (geometryId, seams, nodes) trace
      | Some staticModel \<Rightarrow>
          (case bakingMaterial of
             None \<Rightarrow> Inl NullDereference
           | Some material \<Rightarrow>
               (case node' element of
                  None \<Rightarrow> Inl NullDereference
                | Some node \<Rightarrow>
                    (let model = GetModel staticModel;
                         scale = GetScale (region' element);
                         offset = GetOffset (region' element);
                         scaleOffset = GetScaleOffset (region' element);
                         modelSeams = CachedSeams modelSeamsCache model
                     in ReplicateElements chart bakingMaterial modelSeamsCache rest
                          (geometryId + 1,
                           seams @ map (\<lambda>seam. Transformed seam scale offset) modelSeams,
                           nodes @ map (TapNode chart material node model scaleOffset geometryId)
                                     [0..<numMultiTapSamples])
                          trace))))"

text \<open>What one call of \<^verbatim>\<open>GenerateLightmapGeometryBakingScene\<close> gives: the baking
  scene, and the trace of the call, which starts empty: what was logged, and the models
  \<^verbatim>\<open>CollectModelSeams\<close> was called for (one entry for every call).\<close>

record GeneratedScene =
  generatedScene :: LightmapGeometryBakingScene
  generatedLog :: "LogEntry list"
  generatedCalls :: "ModelPtr option list"

definition GenerateLightmapGeometryBakingScene ::
  "'a Engine_scheme \<Rightarrow> LightmapChart \<Rightarrow> LightmapGeometryBakingSettings \<Rightarrow> RenderPath \<Rightarrow>
   error + GeneratedScene" where
  "GenerateLightmapGeometryBakingScene eng chart settings renderPath =
     (let bakingMaterial = GetMaterial eng (materialName' settings);
          usedModels = UsedModels chart
      in case CollectSeamsTasks eng (uvChannel' settings) usedModels emptyTrace of
           Inl e \<Rightarrow> Inl e
         | Inr (results, trace1) \<Rightarrow>
             (case ReplicateElements chart bakingMaterial (CacheModelSeams results)
                     (elements' chart) (1, [], []) trace1 of
                Inl e \<Rightarrow> Inl e
              | Inr ((geometryId, seams, nodes), trace2) \<Rightarrow>
                  Inr \<lparr> generatedScene =
                          \<lparr> LightmapGeometryBakingScene.index' = LightmapChart.index' chart,
                            LightmapGeometryBakingScene.width' = LightmapChart.width' chart,
                            LightmapGeometryBakingScene.height' = LightmapChart.height' chart,
                            LightmapGeometryBakingScene.size' = LightmapChart.size' chart,
                            scene' = nodes,
                            renderPath' = renderPath,
                            seams' = seams \<rparr>,
                        generatedLog = traceLog trace2,
                        generatedCalls = traceCalls trace2 \<rparr>))"

text \<open>The loop of \<^verbatim>\<open>GenerateLightmapGeometryBakingScenes\<close> over the charts.\<close>

fun GenerateScenesLoop ::
  "'a Engine_scheme \<Rightarrow> LightmapGeometryBakingSettings \<Rightarrow> RenderPath \<Rightarrow> LightmapChart list \<Rightarrow>
   error + GeneratedScene list" where
  "GenerateScenesLoop eng settings renderPath [] = Inr []"
| "GenerateScenesLoop eng settings renderPath (chart # charts) =
     (case GenerateLightmapGeometryBakingScene eng chart settings renderPath of
        Inl e \<Rightarrow> Inl e
      | Inr generated \<Rightarrow>
          (case GenerateScenesLoop eng settings renderPath charts of
             Inl e \<Rightarrow> Inl e
           | Inr result \<Rightarrow> Inr (generated # result)))"

text \<open>What a batch gives: the scenes, the whole log and every call of
  \<^verbatim>\<open>CollectModelSeams\<close> of the batch.\<close>

record GeneratedScenes =
  batchScenes :: "LightmapGeometryBakingScene list"
  batchLog :: "LogEntry list"
  batchCalls :: "ModelPtr option list"

definition GenerateLightmapGeometryBakingScenes ::
  "'a Engine_scheme \<Rightarrow> LightmapChart list \<Rightarrow> LightmapGeometryBakingSettings \<Rightarrow>
   error + GeneratedScenes" where
  "GenerateLightmapGeometryBakingScenes eng charts settings =
     (case LoadRenderPath eng (renderPathName' settings) of
        None \<Rightarrow>
          Inr \<lparr> batchScenes = [],
                batchLog = [LogError (''Failed to load render path '' @ [CHR 0x22] @ ''{}'' @ [CHR 0x22])
                                 [renderPathName' settings]],
                batchCalls = [] \<rparr>
      | Some renderPath \<Rightarrow>
          (case GenerateScenesLoop eng settings renderPath charts of
             Inl e \<Rightarrow> Inl e
           | Inr result \<Rightarrow>
               Inr \<lparr> batchScenes = map generatedScene result,
                     batchLog = concat (map generatedLog result),
                     batchCalls = concat (map generatedCalls result) \<rparr>))"

subsection \<open>Geometry buffer baking\<close>

record LightmapChartGeometryBuffer =
  index' :: nat
  width' :: nat
  height' :: nat
  geometryPositions' :: "Vector3 list"
  smoothPositions' :: "Vector3 list"
  faceNormals' :: "Vector3 list"
  smoothNormals' :: "Vector3 list"
  geometryIds' :: "32 word list"

text \<open>Modelled from the spec: the constructors of \<^verbatim>\<open>LightmapChartGeometryBuffer\<close>
  are declared in a header that is not among the sources. The specification (section 3)
  gives a buffer a chart index, a width, a height, four per-texel arrays and a per-texel
  geometry id, "length of every array = width x height", the id 0 for "no geometry" and
  position and normal arrays "at their default (zero) value"; a failed frame yields "an
  empty/default buffer".\<close>

definition MakeGeometryBuffer :: "nat \<Rightarrow> nat \<Rightarrow> nat \<Rightarrow> LightmapChartGeometryBuffer" where
  "MakeGeometryBuffer index width height =
     \<lparr> index' = index, width' = width, height' = height,
       geometryPositions' = replicate (width * height) (Vector3 0 0 0),
       smoothPositions' = replicate (width * height) (Vector3 0 0 0),
       faceNormals' = replicate (width * height) (Vector3 0 0 0),
       smoothNormals' = replicate (width * height) (Vector3 0 0 0),
       geometryIds' = replicate (width * height) 0 \<rparr>"

definition DefaultGeometryBuffer :: LightmapChartGeometryBuffer where
  "DefaultGeometryBuffer =
     \<lparr> index' = 0, width' = 0, height' = 0,
       geometryPositions' = [], smoothPositions' = [], faceNormals' = [], smoothNormals' = [],
       geometryIds' = [] \<rparr>"

text \<open>\<^verbatim>\<open>ReadTextureRGBA32Float\<close>: \<^verbatim>\<open>texture->GetDataSize\<close> dereferences the
  texture and \<^verbatim>\<open>texture2D->GetData\<close> the result of the dynamic cast, which is null
  for a texture of another type. The result is the new content of the scratch
  \<^verbatim>\<open>buffer\<close>, which is resized to the texel count on every call.\<close>

definition ReadTextureRGBA32Float :: "Texture option \<Rightarrow> error + Vector4 list" where
  "ReadTextureRGBA32Float texture =
     (case texture of
        None \<Rightarrow> Inl NullDereference
      | Some t \<Rightarrow> if \<not> IsTexture2D t then Inl NullDereference else Inr (GetData t))"

definition ExtractVector3FromVector4 :: "Vector4 \<Rightarrow> Vector3" where
  "ExtractVector3FromVector4 data = Vector3 (v4_x data) (v4_y data) (v4_z data)"

text \<open>\<^verbatim>\<open>static_cast<unsigned>\<close> of a float truncates towards zero; the conversion is
  undefined when the truncated value is not an \<^verbatim>\<open>unsigned\<close>.\<close>

definition TruncateFloat :: "rat \<Rightarrow> int" where
  "TruncateFloat q = (if 0 \<le> q then \<lfloor>q\<rfloor> else \<lceil>q\<rceil>)"

definition ExtractUintFromVector4 :: "Vector4 \<Rightarrow> error + 32 word" where
  "ExtractUintFromVector4 data =
     (if 0 \<le> TruncateFloat (v4_w data) \<and> TruncateFloat (v4_w data) < 2 ^ 32
      then Inr (word_of_int (TruncateFloat (v4_w data)))
      else Inl FloatToUnsignedOutOfRange)"

text \<open>\<^verbatim>\<open>ea::transform(first, last, dest, op)\<close> into a vector that exists: one element
  is converted and stored after the other, and a store behind the end of the destination
  is undefined. The elements of the destination behind the last store keep their
  values.\<close>

fun transform :: "('a \<Rightarrow> error + 'b) \<Rightarrow> 'a list \<Rightarrow> 'b list \<Rightarrow> error + 'b list" where
  "transform op [] dest = Inr dest"
| "transform op (x # xs) dest =
     (case op x of
        Inl e \<Rightarrow> Inl e
      | Inr y \<Rightarrow>
          (case dest of
             [] \<Rightarrow> Inl OutOfBounds
           | d # ds \<Rightarrow>
               (case transform op xs ds of
                  Inl e \<Rightarrow> Inl e
                | Inr stored \<Rightarrow> Inr (y # stored))))"

text \<open>The state a run of the baker threads through its calls: the log, and the number of
  calls of \<^verbatim>\<open>Graphics::BeginFrame\<close> so far, which is the number of the next frame.\<close>

record BakerState =
  bakerLog :: "LogEntry list"
  frameNumber :: nat

definition BakeLightmapGeometryBuffer ::
  "'a Engine_scheme \<Rightarrow> BakerState \<Rightarrow> LightmapGeometryBakingScene \<Rightarrow>
   error + (LightmapChartGeometryBuffer \<times> BakerState)" where
  "BakeLightmapGeometryBuffer eng state bakingScene =
     (if \<not> BeginFrame eng (frameNumber state)
      then Inr (DefaultGeometryBuffer,
                state\<lparr> bakerLog := bakerLog state @
                          [LogError (''Failed to begin lightmap geometry buffer rendering '' @
                                     [CHR 0x22] @ ''{}'' @ [CHR 0x22]) []],
                       frameNumber := frameNumber state + 1 \<rparr>)
      else
        let geometryBuffer =
              MakeGeometryBuffer (LightmapGeometryBakingScene.index' bakingScene)
                (LightmapGeometryBakingScene.width' bakingScene)
                (LightmapGeometryBakingScene.height' bakingScene);
            target = GetExtraRenderTarget eng (frameNumber state) bakingScene
        in case ReadTextureRGBA32Float (target ''position'') of
             Inl e \<Rightarrow> Inl e
           | Inr positionData \<Rightarrow>
         (case transform (\<lambda>data. Inr (ExtractVector3FromVector4 data)) positionData
                 (geometryPositions' geometryBuffer) of
             Inl e \<Rightarrow> Inl e
           | Inr positions \<Rightarrow>
         (case transform ExtractUintFromVector4 positionData (geometryIds' geometryBuffer) of
             Inl e \<Rightarrow> Inl e
           | Inr ids \<Rightarrow>
         (case ReadTextureRGBA32Float (target ''smoothposition'') of
             Inl e \<Rightarrow> Inl e
           | Inr smoothPositionData \<Rightarrow>
         (case transform (\<lambda>data. Inr (ExtractVector3FromVector4 data)) smoothPositionData
                 (smoothPositions' geometryBuffer) of
             Inl e \<Rightarrow> Inl e
           | Inr smoothPositions \<Rightarrow>
         (case ReadTextureRGBA32Float (target ''facenormal'') of
             Inl e \<Rightarrow> Inl e
           | Inr faceNormalData \<Rightarrow>
         (case transform (\<lambda>data. Inr (ExtractVector3FromVector4 data)) faceNormalData
                 (faceNormals' geometryBuffer) of
             Inl e \<Rightarrow> Inl e
           | Inr faceNormals \<Rightarrow>
         (case ReadTextureRGBA32Float (target ''smoothnormal'') of
             Inl e \<Rightarrow> Inl e
           | Inr smoothNormalData \<Rightarrow>
         (case transform (\<lambda>data. Inr (ExtractVector3FromVector4 data)) smoothNormalData
                 (smoothNormals' geometryBuffer) of
             Inl e \<Rightarrow> Inl e
           | Inr smoothNormals \<Rightarrow>
               Inr (geometryBuffer\<lparr> geometryPositions' := positions,
                                    geometryIds' := ids,
                                    smoothPositions' := smoothPositions,
                                    faceNormals' := faceNormals,
                                    smoothNormals' := smoothNormals \<rparr>,
                    state\<lparr> frameNumber := frameNumber state + 1 \<rparr>))))))))))"

fun BakeLightmapGeometryBuffers ::
  "'a Engine_scheme \<Rightarrow> BakerState \<Rightarrow> LightmapGeometryBakingScene list \<Rightarrow>
   error + (LightmapChartGeometryBuffer list \<times> BakerState)" where
  "BakeLightmapGeometryBuffers eng state [] = Inr ([], state)"
| "BakeLightmapGeometryBuffers eng state (bakingScene # bakingScenes) =
     (case BakeLightmapGeometryBuffer eng state bakingScene of
        Inl e \<Rightarrow> Inl e
      | Inr (geometryBuffer, state1) \<Rightarrow>
          (case BakeLightmapGeometryBuffers eng state1 bakingScenes of
             Inl e \<Rightarrow> Inl e
           | Inr (geometryBuffers, state2) \<Rightarrow> Inr (geometryBuffer # geometryBuffers, state2)))"

subsection \<open>Auxiliary notions of the proofs\<close>

text \<open>The bucket of a cell of the spatial hash, empty for a cell without entry.\<close>

definition bucketOf :: "(IntVector3 \<rightharpoonup> OrderedIndexPair list) \<Rightarrow> IntVector3 \<Rightarrow> OrderedIndexPair list" where
  "bucketOf m k = (case m k of None \<Rightarrow> [] | Some b \<Rightarrow> b)"

text \<open>The edges of a LOD after "Remove duplicates", and the candidates buffer of an edge
  after its own "Remove duplicates", for the bounding box the cells are computed from.\<close>

definition GeometryEdges :: "GeometryLODView \<Rightarrow> OrderedIndexPair list" where
  "GeometryEdges geometryLod = SortUnique (ReadEdges (indices' geometryLod))"

definition CandidatesBuffer ::
  "'a SeamEngine_scheme \<Rightarrow> BoundingBox \<Rightarrow> GeometryLODView \<Rightarrow> OrderedIndexPair \<Rightarrow> OrderedIndexPair list" where
  "CandidatesBuffer eng boundingBox geometryLod edge =
     FindCandidates (vertexHash eng boundingBox (vertices' geometryLod))
       (MakeEdgesHash (vertexHash eng boundingBox (vertices' geometryLod)) (GeometryEdges geometryLod))
       edge"

text \<open>An arithmetic that does not round. With it the spatial hash loses no pair of edges
  whose endpoints coincide within the tolerance; with an arithmetic that rounds it can,
  and nothing below but the example engine relies on it.\<close>

definition ExactArithmetic :: "'a FloatArithmetic_scheme \<Rightarrow> bool" where
  "ExactArithmetic eng \<longleftrightarrow>
     FloatAdd eng = (\<lambda>a b. a + b) \<and> FloatSub eng = (\<lambda>a b. a - b) \<and>
     FloatMul eng = (\<lambda>a b. a * b) \<and> FloatDiv eng = (\<lambda>a b. a / b)"


definition VertexUv :: "ModelVertex list \<Rightarrow> nat \<Rightarrow> nat \<Rightarrow> Vector2" where
  "VertexUv vertices uvChannel index = ToVector2 (uv' (vertices ! index) ! uvChannel)"

text \<open>The seams and the log of one call of \<^verbatim>\<open>CollectModelSeams\<close> read off its
  result on the empty trace, and the model of a chart element.\<close>

definition ModelSeams :: "'a SeamEngine_scheme \<Rightarrow> nat \<Rightarrow> ModelPtr option \<Rightarrow> LightmapSeamVector" where
  "ModelSeams eng uvChannel model =
     (case CollectModelSeams eng emptyTrace model uvChannel of
        Inl e \<Rightarrow> [] | Inr (seams, trace) \<Rightarrow> seams)"

definition ModelLog :: "'a SeamEngine_scheme \<Rightarrow> nat \<Rightarrow> ModelPtr option \<Rightarrow> LogEntry list" where
  "ModelLog eng uvChannel model =
     (case CollectModelSeams eng emptyTrace model uvChannel of
        Inl e \<Rightarrow> [] | Inr (seams, trace) \<Rightarrow> traceLog trace)"

definition ElementModel :: "LightmapChartElement \<Rightarrow> ModelPtr option" where
  "ElementModel element =
     (case staticModel' element of None \<Rightarrow> None | Some staticModel \<Rightarrow> GetModel staticModel)"

text \<open>The inputs for which the assembly of a scene has no undefined behaviour: the baking
  material exists when an element carries a mesh, every element that carries a mesh has
  a node, and the seam collection of every used model is defined.\<close>

definition SceneInputsDefined ::
  "'a Engine_scheme \<Rightarrow> LightmapChart \<Rightarrow> LightmapGeometryBakingSettings \<Rightarrow> bool" where
  "SceneInputsDefined eng chart settings \<longleftrightarrow>
     (MeshElements chart = [] \<or> GetMaterial eng (materialName' settings) \<noteq> None) \<and>
     list_all (\<lambda>element. node' element \<noteq> None) (MeshElements chart) \<and>
     list_all (\<lambda>model. case CollectModelSeams eng emptyTrace model (uvChannel' settings) of
                         Inl e \<Rightarrow> False | Inr r \<Rightarrow> True) (UsedModels chart)"

text \<open>The nodes the loop over the taps adds for one element and one geometry id.\<close>

definition ElementTapNodes ::
  "LightmapChart \<Rightarrow> Material option \<Rightarrow> 32 word \<Rightarrow> LightmapChartElement \<Rightarrow> SceneNode list" where
  "ElementTapNodes chart bakingMaterial geometryId element =
     (case (bakingMaterial, node' element, staticModel' element) of
        (Some material, Some node, Some staticModel) \<Rightarrow>
          map (TapNode chart material node (GetModel staticModel) (GetScaleOffset (region' element))
                 geometryId) [0..<numMultiTapSamples]
      | _ \<Rightarrow> [])"

text \<open>The seams the loop adds for one element, from a cache.\<close>

definition ElementSeams ::
  "(ModelPtr option \<Rightarrow> LightmapSeamVector) \<Rightarrow> LightmapChartElement \<Rightarrow> LightmapSeamVector" where
  "ElementSeams seamsOf element =
     map (\<lambda>seam. Transformed seam (GetScale (region' element)) (GetOffset (region' element)))
       (seamsOf (ElementModel element))"

text \<open>The scene assembled for a chart, in closed form: what
  \<^verbatim>\<open>GenerateLightmapGeometryBakingScene\<close> returns when its inputs are defined.\<close>

definition AssembledScene ::
  "'a Engine_scheme \<Rightarrow> LightmapChart \<Rightarrow> LightmapGeometryBakingSettings \<Rightarrow> RenderPath \<Rightarrow> GeneratedScene" where
  "AssembledScene eng chart settings renderPath =
     \<lparr> generatedScene =
         \<lparr> LightmapGeometryBakingScene.index' = LightmapChart.index' chart,
           LightmapGeometryBakingScene.width' = LightmapChart.width' chart,
           LightmapGeometryBakingScene.height' = LightmapChart.height' chart,
           LightmapGeometryBakingScene.size' = LightmapChart.size' chart,
           scene' = concat (map (\<lambda>k. ElementTapNodes chart (GetMaterial eng (materialName' settings))
                                      (1 + of_nat k) (MeshElements chart ! k))
                             [0..<length (MeshElements chart)]),
           renderPath' = renderPath,
           seams' = concat (map (ElementSeams (ModelSeams eng (uvChannel' settings)))
                              (MeshElements chart)) \<rparr>,
       generatedLog = concat (map (ModelLog eng (uvChannel' settings)) (UsedModels chart)),
       generatedCalls = UsedModels chart \<rparr>"

text \<open>The four named render outputs, and the conditions on what the renderer holds under
  them in a frame: every output exists and is a 2-D texture; and no output has more
  texels than the buffer has entries and every W of the "position" output converts to an
  \<^verbatim>\<open>unsigned\<close>.\<close>

definition renderOutputNames :: "string list" where
  "renderOutputNames = [''position'', ''smoothposition'', ''facenormal'', ''smoothnormal'']"

definition RenderOutputsExist :: "'a Engine_scheme \<Rightarrow> nat \<Rightarrow> LightmapGeometryBakingScene \<Rightarrow> bool" where
  "RenderOutputsExist eng k bakingScene \<longleftrightarrow>
     list_all (\<lambda>name. case GetExtraRenderTarget eng k bakingScene name of
                        None \<Rightarrow> False | Some texture \<Rightarrow> IsTexture2D texture) renderOutputNames"

definition OutputData :: "'a Engine_scheme \<Rightarrow> nat \<Rightarrow> LightmapGeometryBakingScene \<Rightarrow> string \<Rightarrow> Vector4 list" where
  "OutputData eng k bakingScene name =
     (case GetExtraRenderTarget eng k bakingScene name of None \<Rightarrow> [] | Some texture \<Rightarrow> GetData texture)"

definition RenderOutputsFit :: "'a Engine_scheme \<Rightarrow> nat \<Rightarrow> LightmapGeometryBakingScene \<Rightarrow> bool" where
  "RenderOutputsFit eng k bakingScene \<longleftrightarrow>
     list_all (\<lambda>name. length (OutputData eng k bakingScene name) \<le>
                        LightmapGeometryBakingScene.width' bakingScene *
                        LightmapGeometryBakingScene.height' bakingScene) renderOutputNames \<and>
     list_all (\<lambda>data. 0 \<le> TruncateFloat (v4_w data) \<and> TruncateFloat (v4_w data) < 2 ^ 32)
       (OutputData eng k bakingScene ''position'')"

text \<open>The buffer baked in a frame that begins, in closed form: each array starts with the
  converted texels of its output and keeps its initial zeros behind them.\<close>

definition StoredOver :: "'b list \<Rightarrow> nat \<Rightarrow> 'b \<Rightarrow> 'b list" where
  "StoredOver stored n initial = stored @ replicate (n - length stored) initial"

definition BakedBuffer ::
  "'a Engine_scheme \<Rightarrow> nat \<Rightarrow> LightmapGeometryBakingScene \<Rightarrow> LightmapChartGeometryBuffer" where
  "BakedBuffer eng k bakingScene =
     (let n = LightmapGeometryBakingScene.width' bakingScene *
              LightmapGeometryBakingScene.height' bakingScene
      in \<lparr> index' = LightmapGeometryBakingScene.index' bakingScene,
           width' = LightmapGeometryBakingScene.width' bakingScene,
           height' = LightmapGeometryBakingScene.height' bakingScene,
           geometryPositions' =
             StoredOver (map ExtractVector3FromVector4 (OutputData eng k bakingScene ''position''))
               n (Vector3 0 0 0),
           smoothPositions' =
             StoredOver (map ExtractVector3FromVector4 (OutputData eng k bakingScene ''smoothposition''))
               n (Vector3 0 0 0),
           faceNormals' =
             StoredOver (map ExtractVector3FromVector4 (OutputData eng k bakingScene ''facenormal''))
               n (Vector3 0 0 0),
           smoothNormals' =
             StoredOver (map ExtractVector3FromVector4 (OutputData eng k bakingScene ''smoothnormal''))
               n (Vector3 0 0 0),
           geometryIds' =
             StoredOver (map (\<lambda>data. word_of_int (TruncateFloat (v4_w data)))
                          (OutputData eng k bakingScene ''position''))
               n 0 \<rparr>)"

text \<open>The log entry of a frame that cannot begin.\<close>

definition FrameFailedEntry :: LogEntry where
  "FrameFailedEntry =
     LogError (''Failed to begin lightmap geometry buffer rendering '' @ [CHR 0x22] @ ''{}'' @ [CHR 0x22]) []"

text \<open>Every per-texel array of a buffer has width times height entries.\<close>

definition ArraysSized :: "LightmapChartGeometryBuffer \<Rightarrow> bool" where
  "ArraysSized buffer \<longleftrightarrow>
     length (geometryPositions' buffer) = width' buffer * height' buffer \<and>
     length (smoothPositions' buffer) = width' buffer * height' buffer \<and>
     length (faceNormals' buffer) = width' buffer * height' buffer \<and>
     length (smoothNormals' buffer) = width' buffer * height' buffer \<and>
     length (geometryIds' buffer) = width' buffer * height' buffer"

text \<open>The shader parameter \<^verbatim>\<open>LightmapGeometry\<close> of the material of a scene node.\<close>

definition GeometryParameter :: "SceneNode \<Rightarrow> Variant option" where
  "GeometryParameter node = shaderParameters (material'' node) ''LightmapGeometry''"

subsection \<open>Example inputs\<close>

text \<open>A mesh of two triangles that share the edge from the origin to \<open>(1, 0, 0)\<close> in
  space, each with vertices of its own; the UV of the shared edge is the segment from
  \<open>(0, 0)\<close> to \<open>(1, 0)\<close> in the first triangle and from \<open>(0, 3)\<close> to \<open>(1, 3)\<close> in
  the second.\<close>

definition exampleVertex :: "rat \<Rightarrow> rat \<Rightarrow> rat \<Rightarrow> rat \<Rightarrow> rat \<Rightarrow> ModelVertex" where
  "exampleVertex x y z u v =
     \<lparr> position' = Vector4 x y z 1, normal' = Vector4 0 0 1 0,
       uv' = [Vector4 u v 0 0, Vector4 0 0 0 0, Vector4 0 0 0 0, Vector4 0 0 0 0] \<rparr>"

definition exampleLod :: GeometryLODView where
  "exampleLod =
     \<lparr> vertices' = [exampleVertex 0 0 0 0 0, exampleVertex 1 0 0 1 0, exampleVertex 0 1 0 0 1,
                    exampleVertex 0 0 0 0 3, exampleVertex 1 0 0 1 3, exampleVertex 0 (-1) 0 0 2],
       indices' = [0, 1, 2, 3, 5, 4] \<rparr>"

definition exampleView :: ModelView where
  "exampleView = \<lparr> geometries' = [\<lparr> lods' = [exampleLod] \<rparr>] \<rparr>"

definition exampleBox :: BoundingBox where
  "exampleBox = \<lparr> min' = Vector3 0 (-1) 0, max' = Vector3 1 1 0 \<rparr>"


text \<open>The render targets of the example renderer: in every frame and for every scene,
  each of the four named outputs is a 2-D texture of four texels; the W of the texels
  are the geometry ids 0, 1, 2 and 0.\<close>

definition exampleTexture :: Texture where
  "exampleTexture =
     \<lparr> IsTexture2D = True,
       GetData = [Vector4 0 0 0 0, Vector4 (1/2) 0 0 1, Vector4 1 (1/4) 0 2, Vector4 0 0 0 0] \<rparr>"

text \<open>An engine: an arithmetic that does not round, the constants of
  \<^verbatim>\<open>MathDefs.h\<close> (\<^verbatim>\<open>0.00005f\<close> is the float \<open>13743895 / 2^38\<close>), a model 0 that
  imports as the mesh above while every other model fails to import, one baking material
  and one render path file, and a renderer for which the frame number 1 cannot begin.\<close>

definition exampleEngine :: Engine where
  "exampleEngine =
     \<lparr> FloatAdd = (\<lambda>a b. a + b),
       FloatSub = (\<lambda>a b. a - b),
       FloatMul = (\<lambda>a b. a * b),
       FloatDiv = (\<lambda>a b. a / b),
       M_LARGE_EPSILON = 13743895 / 274877906944,
       M_LARGE_VALUE = 100000000,
       GetName = (\<lambda>model. ''Models/Box.mdl''),
       ImportModel = (\<lambda>model. if model = 0 then Some exampleView else None),
       CalculateBoundingBox = (\<lambda>modelView. exampleBox),
       GetMaterial = (\<lambda>name. if name = ''Materials/LightmapBaker.xml''
                              then Some \<lparr> shaderParameters = Map.empty \<rparr> else None),
       GetXMLFile = (\<lambda>name. if name = ''RenderPaths/LightmapGBuffer.xml''
                             then Some ''<renderpath/>'' else None),
       RenderPath_Load = (\<lambda>file. True),
       BeginFrame = (\<lambda>k. k \<noteq> 1),
       GetExtraRenderTarget = (\<lambda>k bakingScene name.
          if name \<in> {''position'', ''smoothposition'', ''facenormal'', ''smoothnormal''}
          then Some exampleTexture else None) \<rparr>"


text \<open>Settings, and a chart of three elements: one without a mesh, one with the model 0
  and one with the model 1.\<close>

definition exampleSettings :: LightmapGeometryBakingSettings where
  "exampleSettings =
     \<lparr> materialName' = ''Materials/LightmapBaker.xml'', uvChannel' = 0,
       renderPathName' = ''RenderPaths/LightmapGBuffer.xml'' \<rparr>"

definition exampleNode :: Node where
  "exampleNode =
     \<lparr> GetWorldPosition = Vector3 1 2 3, GetWorldRotation = Quaternion 1 0 0 0,
       GetWorldScale = Vector3 1 1 1 \<rparr>"

definition exampleElement :: "ModelPtr option \<Rightarrow> rat \<Rightarrow> LightmapChartElement" where
  "exampleElement model offset =
     \<lparr> node' = Some exampleNode,
       staticModel' = (case model of None \<Rightarrow> None | Some m \<Rightarrow> Some \<lparr> GetModel = Some m \<rparr>),
       region' = \<lparr> GetScale = Vector2 (1/2) (1/2), GetOffset = Vector2 offset 0,
                   GetScaleOffset = Vector4 (1/2) (1/2) offset 0 \<rparr> \<rparr>"

definition exampleChart :: LightmapChart where
  "exampleChart =
     \<lparr> LightmapChart.index' = 7, LightmapChart.width' = 2, LightmapChart.height' = 2,
       LightmapChart.size' = (2, 2),
       elements' = [exampleElement None 0, exampleElement (Some 0) (1/4), exampleElement (Some 1) (1/2)],
       GetTexelSize = Vector2 (1/2) (1/2) \<rparr>"

definition exampleRenderPath :: RenderPath where
  "exampleRenderPath = RenderPath ''<renderpath/>''"

text \<open>A baking scene of two by two texels, and the state of a baker that has begun no
  frame.\<close>

definition exampleBakingScene :: LightmapGeometryBakingScene where
  "exampleBakingScene =
     \<lparr> LightmapGeometryBakingScene.index' = 7, LightmapGeometryBakingScene.width' = 2,
       LightmapGeometryBakingScene.height' = 2, LightmapGeometryBakingScene.size' = (2, 2),
       scene' = [], renderPath' = exampleRenderPath, seams' = [] \<rparr>"

definition exampleState :: BakerState where
  "exampleState = \<lparr> bakerLog = [], frameNumber = 0 \<rparr>"

text \<open>A chart of \<open>2^24 + 1\<close> elements, every one with the model 0.\<close>

definition bigChart :: LightmapChart where
  "bigChart = exampleChart\<lparr> elements' := replicate 16777217 (exampleElement (Some 0) 0) \<rparr>"


text \<open>A chart in which two elements carry the model 0 and a third the model 1.\<close>

definition sharedChart :: LightmapChart where
  "sharedChart =
     exampleChart\<lparr> elements' := [exampleElement (Some 0) 0, exampleElement (Some 1) (1/4),
                                  exampleElement (Some 0) (1/2)] \<rparr>"

text \<open>A renderer whose "position" output has, in W, a number that is the geometry id of
  no instance, and a number that is no integer.\<close>

definition strayTexture :: Texture where
  "strayTexture =
     \<lparr> IsTexture2D = True,
       GetData = [Vector4 0 0 0 7, Vector4 (1/2) 0 0 (3/2), Vector4 1 (1/4) 0 0, Vector4 0 0 0 0] \<rparr>"

definition strayEngine :: Engine where
  "strayEngine = exampleEngine\<lparr> GetExtraRenderTarget := (\<lambda>k bakingScene name.
          if name \<in> {''position'', ''smoothposition'', ''facenormal'', ''smoothnormal''}
          then Some strayTexture else None) \<rparr>"
section \<open>Seam detection: the candidates and the seam condition\<close>

lemma sorted_remdups_adj_distinct:
  "sorted xs \<Longrightarrow> distinct (remdups_adj xs)"
proof (induction xs rule: remdups_adj.induct)
  case (3 x y xs)
  then show ?case by (auto simp: order.strict_iff_order)
qed simp_all

lemma sorted_remdups_adj_sorted:
  "sorted xs \<Longrightarrow> sorted (remdups_adj xs)"
  by (induction xs rule: remdups_adj.induct) auto

lemma SortUnique_set: "set (SortUnique xs) = set xs"
  by (simp add: SortUnique_def)

lemma SortUnique_distinct: "distinct (SortUnique xs)"
  by (simp add: SortUnique_def sorted_remdups_adj_distinct)

lemma SortUnique_sorted: "sorted (SortUnique xs)"
  by (simp add: SortUnique_def sorted_remdups_adj_sorted)

lemma bucketOf_HashPushBack:
  "bucketOf (HashPushBack h e m) k = (if k = h then bucketOf m k @ [e] else bucketOf m k)"
  by (simp add: bucketOf_def HashPushBack_def)

lemma bucketOf_fold:
  "set (bucketOf (foldl (\<lambda>m edge. foldl (\<lambda>m index. HashPushBack (hashOf index) edge m) m [fst edge, snd edge]) m0 es) k)
   = set (bucketOf m0 k) \<union> {e \<in> set es. hashOf (fst e) = k \<or> hashOf (snd e) = k}"
  by (induction es arbitrary: m0) (auto simp: bucketOf_HashPushBack)

lemma MakeEdgesHash_bucket:
  "set (bucketOf (MakeEdgesHash hashOf es) k) = {e \<in> set es. hashOf (fst e) = k \<or> hashOf (snd e) = k}"
  unfolding MakeEdgesHash_def bucketOf_fold by (simp add: bucketOf_def)

lemma FindCandidates_set:
  "set (FindCandidates hashOf (MakeEdgesHash hashOf es) edge) =
     {c \<in> set es. \<exists>i \<in> {fst edge, snd edge}. \<exists>j \<in> {fst c, snd c}. \<exists>off \<in> set hashOffsets.
        hashOf j = IntVector3_add (hashOf i) off}"
proof -
  have "set (FindCandidates hashOf (MakeEdgesHash hashOf es) edge) =
        (\<Union>i \<in> {fst edge, snd edge}. \<Union>off \<in> set hashOffsets.
           set (bucketOf (MakeEdgesHash hashOf es) (IntVector3_add (hashOf i) off)))"
    unfolding FindCandidates_def SortUnique_set bucketOf_def by simp
  also have "\<dots> = {c \<in> set es. \<exists>i \<in> {fst edge, snd edge}. \<exists>j \<in> {fst c, snd c}. \<exists>off \<in> set hashOffsets.
        hashOf j = IntVector3_add (hashOf i) off}"
    unfolding MakeEdgesHash_bucket by blast
  finally show ?thesis .
qed

lemma floor_near:
  fixes u v :: rat
  assumes "\<bar>u - v\<bar> < 1"
  shows "\<lfloor>v\<rfloor> - \<lfloor>u\<rfloor> \<in> {-1, 0, 1}"
  using assms by (simp) linarith

lemma offsets_product_mem:
  "IntVector3 x y z \<in> set (concat (map (\<lambda>a. concat (map (\<lambda>b. map (\<lambda>c. IntVector3 a b c) zs) ys)) xs))
     \<longleftrightarrow> x \<in> set xs \<and> y \<in> set ys \<and> z \<in> set zs"
  by auto

lemma hashOffsets_mem:
  "IntVector3 x y z \<in> set hashOffsets \<longleftrightarrow> x \<in> {-1,0,1} \<and> y \<in> {-1,0,1} \<and> z \<in> {-1,0,1}"
  unfolding hashOffsets_def offsets_product_mem by simp

lemma square_less_imp_abs_less:
  fixes d e :: rat
  assumes "d * d < e * e" "0 < e"
  shows "\<bar>d\<bar> < e"
  using assms power2_less_imp_less[of "\<bar>d\<bar>" e] by (simp add: power2_eq_square)

lemma component_near:
  fixes e :: rat
  assumes "Vector3_LengthSquared eng (Vector3_sub eng p q) < e * e" "0 < e" "ExactArithmetic eng"
  shows "\<bar>v3_x p - v3_x q\<bar> < e" "\<bar>v3_y p - v3_y q\<bar> < e" "\<bar>v3_z p - v3_z q\<bar> < e"
proof -
  let ?dx = "v3_x p - v3_x q" and ?dy = "v3_y p - v3_y q" and ?dz = "v3_z p - v3_z q"
  have sum: "?dx * ?dx + ?dy * ?dy + ?dz * ?dz < e * e"
    using assms(1,3) by (simp add: Vector3_LengthSquared_def Vector3_sub_def ExactArithmetic_def)
  have nonneg: "0 \<le> ?dx * ?dx" "0 \<le> ?dy * ?dy" "0 \<le> ?dz * ?dz"
    by simp_all
  from sum nonneg have "?dx * ?dx < e * e" "?dy * ?dy < e * e" "?dz * ?dz < e * e"
    by linarith+
  then show "\<bar>?dx\<bar> < e" "\<bar>?dy\<bar> < e" "\<bar>?dz\<bar> < e"
    using assms(2) by (simp_all add: square_less_imp_abs_less)
qed

lemma floor_div_near:
  fixes a b s e m :: rat
  assumes "\<bar>a - b\<bar> < e" "e \<le> s" "0 < e"
  shows "\<lfloor>(b - m) / s\<rfloor> - \<lfloor>(a - m) / s\<rfloor> \<in> {-1, 0, 1}"
proof -
  have s: "0 < s" using assms by linarith
  have "(a - m) / s - (b - m) / s = (a - b) / s"
    by (simp add: diff_divide_distrib)
  moreover have "\<bar>(a - b) / s\<bar> < 1"
    using assms s by (simp add: abs_divide)
  ultimately have "\<bar>(a - m) / s - (b - m) / s\<bar> < 1" by simp
  then show ?thesis by (rule floor_near)
qed

lemma hashStep_ge:
  assumes "ExactArithmetic eng"
  shows "M_LARGE_EPSILON eng \<le> v3_x (hashStep eng bb)" "M_LARGE_EPSILON eng \<le> v3_y (hashStep eng bb)"
        "M_LARGE_EPSILON eng \<le> v3_z (hashStep eng bb)"
  using assms
  by (simp_all add: hashStep_def VectorMax_def Vector3_muls_def Vector3_ONE_def ExactArithmetic_def)

lemma computeHash_near:
  assumes exact: "ExactArithmetic eng"
    and eps: "0 < M_LARGE_EPSILON eng"
    and near: "Vector3_LengthSquared eng (Vector3_sub eng p q) <
               FloatMul eng (M_LARGE_EPSILON eng) (M_LARGE_EPSILON eng)"
  shows "\<exists>off \<in> set hashOffsets. computeHash eng bb q = IntVector3_add (computeHash eng bb p) off"
proof -
  let ?dx = "iv3_x (computeHash eng bb q) - iv3_x (computeHash eng bb p)"
  let ?dy = "iv3_y (computeHash eng bb q) - iv3_y (computeHash eng bb p)"
  let ?dz = "iv3_z (computeHash eng bb q) - iv3_z (computeHash eng bb p)"
  have near': "Vector3_LengthSquared eng (Vector3_sub eng p q) < M_LARGE_EPSILON eng * M_LARGE_EPSILON eng"
    using near exact by (simp add: ExactArithmetic_def)
  have sub: "FloatSub eng = (\<lambda>a b. a - b)" and dv: "FloatDiv eng = (\<lambda>a b. a / b)"
    using exact by (simp_all add: ExactArithmetic_def)
  note c = component_near[OF near' eps exact]
  note st = hashStep_ge[OF exact, of bb]
  have "?dx \<in> {-1, 0, 1}"
    using floor_div_near[OF c(1) st(1) eps, of "v3_x (min' bb)"]
    by (simp add: computeHash_def VectorFloorToInt_def Vector3_div_def Vector3_sub_def sub dv)
  moreover have "?dy \<in> {-1, 0, 1}"
    using floor_div_near[OF c(2) st(2) eps, of "v3_y (min' bb)"]
    by (simp add: computeHash_def VectorFloorToInt_def Vector3_div_def Vector3_sub_def sub dv)
  moreover have "?dz \<in> {-1, 0, 1}"
    using floor_div_near[OF c(3) st(3) eps, of "v3_z (min' bb)"]
    by (simp add: computeHash_def VectorFloorToInt_def Vector3_div_def Vector3_sub_def sub dv)
  ultimately have "IntVector3 ?dx ?dy ?dz \<in> set hashOffsets"
    unfolding hashOffsets_mem by simp
  moreover have "computeHash eng bb q = IntVector3_add (computeHash eng bb p) (IntVector3 ?dx ?dy ?dz)"
    by (cases "computeHash eng bb q"; cases "computeHash eng bb p") (simp add: IntVector3_add_def)
  ultimately show ?thesis by blast
qed


lemma OrientCandidate_Spec:
  "OrientCandidate eng vertices (FloatMul eng (M_LARGE_EPSILON eng) (M_LARGE_EPSILON eng)) edge candidate =
   SpecOrientedCandidate eng vertices edge candidate"
  by (simp add: OrientCandidate_def SpecOrientedCandidate_def)

lemma IsSeam_Spec:
  "IsSeam eng vertices uvChannel edge candidate \<longleftrightarrow>
   SpecSeamCondition eng vertices uvChannel edge candidate"
  unfolding IsSeam_def SpecSeamCondition_def SpecSameGeometry_def SpecDifferentUv_def Let_def
  by auto

lemma SpecOriented_endpoints:
  "fst (SpecOrientedCandidate eng vertices edge c) \<in> {fst c, snd c}"
  "snd (SpecOrientedCandidate eng vertices edge c) \<in> {fst c, snd c}"
  by (simp_all add: SpecOrientedCandidate_def)

lemma EdgeSeamPairs_filter:
  "EdgeSeamPairs eng vertices uvChannel cands edge =
   map (Pair edge) (filter (\<lambda>c. c \<noteq> edge \<and>
      SpecSeamCondition eng vertices uvChannel edge (SpecOrientedCandidate eng vertices edge c)) cands)"
  unfolding EdgeSeamPairs_def Let_def OrientCandidate_Spec IsSeam_Spec
  by (induction cands) auto

lemma same_geometry_is_candidate:
  assumes exact: "ExactArithmetic eng"
    and eps: "0 < M_LARGE_EPSILON eng"
    and c: "c \<in> set es"
    and geo: "SpecSameGeometry eng vertices edge (SpecOrientedCandidate eng vertices edge c)"
  shows "c \<in> set (FindCandidates (vertexHash eng bb vertices)
                   (MakeEdgesHash (vertexHash eng bb vertices) es) edge)"
proof -
  let ?o = "SpecOrientedCandidate eng vertices edge c"
  have "Vector3_LengthSquared eng (Vector3_sub eng (ToVector3 (position' (vertices ! fst edge)))
           (ToVector3 (position' (vertices ! fst ?o)))) <
        FloatMul eng (M_LARGE_EPSILON eng) (M_LARGE_EPSILON eng)"
    using geo by (simp add: SpecSameGeometry_def Let_def)
  from computeHash_near[OF exact eps this, of bb]
  obtain off where off: "off \<in> set hashOffsets"
    "vertexHash eng bb vertices (fst ?o) = IntVector3_add (vertexHash eng bb vertices (fst edge)) off"
    by (auto simp: vertexHash_def)
  have "fst ?o \<in> {fst c, snd c}" by (rule SpecOriented_endpoints)
  with off c show ?thesis
    unfolding FindCandidates_set by blast
qed

lemma FindCandidates_subset:
  "set (FindCandidates hashOf (MakeEdgesHash hashOf es) edge) \<subseteq> set es"
  unfolding FindCandidates_set by blast

lemma FindCandidates_distinct: "distinct (FindCandidates hashOf m edge)"
  by (simp add: FindCandidates_def SortUnique_distinct)

lemma CandidatesBuffer_subset:
  "set (CandidatesBuffer eng bb lod edge) \<subseteq> set (GeometryEdges lod)"
  unfolding CandidatesBuffer_def by (rule FindCandidates_subset)

lemma CandidatesBuffer_distinct: "distinct (CandidatesBuffer eng bb lod edge)"
  unfolding CandidatesBuffer_def by (rule FindCandidates_distinct)

lemma GeometryEdges_sorted: "sorted (GeometryEdges lod)"
  unfolding GeometryEdges_def by (rule SortUnique_sorted)

lemma GeometryEdges_distinct: "distinct (GeometryEdges lod)"
  unfolding GeometryEdges_def by (rule SortUnique_distinct)

lemma LodSeamPairs_concat:
  "LodSeamPairs eng bb uvChannel lod =
     concat (map (\<lambda>edge. map (Pair edge) (filter (\<lambda>c. c \<noteq> edge \<and>
        SpecSeamCondition eng (vertices' lod) uvChannel edge
          (SpecOrientedCandidate eng (vertices' lod) edge c))
        (CandidatesBuffer eng bb lod edge)))
       (GeometryEdges lod))"
  by (simp add: LodSeamPairs_def Let_def EdgeSeamPairs_filter CandidatesBuffer_def GeometryEdges_def)

lemma distinct_concat_pairs:
  "distinct es \<Longrightarrow> (\<And>e. distinct (f e)) \<Longrightarrow> distinct (concat (map (\<lambda>e. map (Pair e) (f e)) es))"
  by (induction es) (auto simp: distinct_map inj_on_def)

lemma LodSeamPairs_distinct: "distinct (LodSeamPairs eng bb uvChannel lod)"
  unfolding LodSeamPairs_concat
  by (rule distinct_concat_pairs) (simp_all add: GeometryEdges_distinct CandidatesBuffer_distinct)

lemma LodSeamPairs_mem:
  "(edge, candidate) \<in> set (LodSeamPairs eng bb uvChannel lod) \<longleftrightarrow>
     edge \<in> set (GeometryEdges lod) \<and> candidate \<in> set (CandidatesBuffer eng bb lod edge) \<and>
     candidate \<noteq> edge \<and>
     SpecSeamCondition eng (vertices' lod) uvChannel edge
       (SpecOrientedCandidate eng (vertices' lod) edge candidate)"
  unfolding LodSeamPairs_concat by auto

lemma count_list_distinct:
  "distinct xs \<Longrightarrow> count_list xs x = (if x \<in> set xs then 1 else 0)"
  by (induction xs) auto

lemma distinct_subset_singleton:
  "distinct xs \<Longrightarrow> set xs \<subseteq> {x} \<Longrightarrow> xs = (if x \<in> set xs then [x] else [])"
  by (cases xs) (auto dest: subset_singletonD)

lemma concat_none:
  "\<forall>e \<in> set xs. f e = [] \<Longrightarrow> concat (map f xs) = []"
  by (induction xs) auto

lemma concat_second:
  "b \<in> set xs \<Longrightarrow> distinct xs \<Longrightarrow> \<forall>e \<in> set xs. e \<noteq> b \<longrightarrow> f e = [] \<Longrightarrow>
   concat (map f xs) = f b"
proof (induction xs)
  case Nil
  then show ?case by simp
next
  case (Cons x xs)
  show ?case
  proof (cases "x = b")
    case True
    with Cons.prems have "\<forall>e \<in> set xs. f e = []" by auto
    then show ?thesis using True by (simp add: concat_none)
  next
    case False
    with Cons show ?thesis by auto
  qed
qed

lemma concat_two_sorted:
  fixes a b :: "'a::linorder"
  assumes "sorted xs" "distinct xs" "a \<in> set xs" "b \<in> set xs" "a < b"
    and "\<forall>e \<in> set xs. e \<noteq> a \<longrightarrow> e \<noteq> b \<longrightarrow> f e = []"
  shows "concat (map f xs) = f a @ f b"
  using assms
proof (induction xs)
  case Nil
  then show ?case by simp
next
  case (Cons x xs)
  show ?case
  proof (cases "x = a")
    case True
    with Cons.prems have "b \<in> set xs" "distinct xs" "\<forall>e \<in> set xs. e \<noteq> b \<longrightarrow> f e = []" by auto
    then show ?thesis using True by (simp add: concat_second)
  next
    case False
    have "x \<noteq> b"
    proof
      assume "x = b"
      with Cons.prems False have "b \<le> a" by auto
      with Cons.prems show False by simp
    qed
    with False Cons show ?thesis by auto
  qed
qed

lemma nonempty_has_member: "xs \<noteq> [] \<Longrightarrow> \<exists>x. x \<in> set xs"
  by (cases xs) auto

text \<open>A LOD in which two edges are the only ones that can coincide: the pairs for which a
  seam is pushed are the pair of the first with the second and the pair of the second
  with the first, each when it passes the test of the loop.\<close>

lemma LodSeamPairs_two:
  assumes e1: "e1 \<in> set (GeometryEdges lod)"
    and e2: "e2 \<in> set (GeometryEdges lod)"
    and less: "e1 < e2"
    and unique: "\<forall>e \<in> set (GeometryEdges lod). \<forall>c \<in> set (GeometryEdges lod).
                   c \<noteq> e \<and> SpecSameGeometry eng (vertices' lod) e
                               (SpecOrientedCandidate eng (vertices' lod) e c) \<longrightarrow>
                   (e = e1 \<and> c = e2) \<or> (e = e2 \<and> c = e1)"
  shows "LodSeamPairs eng bb uvChannel lod =
           (if e2 \<in> set (CandidatesBuffer eng bb lod e1) \<and>
               SpecSeamCondition eng (vertices' lod) uvChannel e1
                 (SpecOrientedCandidate eng (vertices' lod) e1 e2)
            then [(e1, e2)] else []) @
           (if e1 \<in> set (CandidatesBuffer eng bb lod e2) \<and>
               SpecSeamCondition eng (vertices' lod) uvChannel e2
                 (SpecOrientedCandidate eng (vertices' lod) e2 e1)
            then [(e2, e1)] else [])"
proof -
  define E where "E = GeometryEdges lod"
  define V where "V = vertices' lod"
  define cands where "cands = CandidatesBuffer eng bb lod"
  define Q where
    "Q = (\<lambda>e c. c \<noteq> e \<and> SpecSeamCondition eng V uvChannel e (SpecOrientedCandidate eng V e c))"
  define g where "g = (\<lambda>e. filter (Q e) (cands e))"
  have ne: "e1 \<noteq> e2" using less by simp
  have e1E: "e1 \<in> set E" and e2E: "e2 \<in> set E" using e1 e2 by (simp_all add: E_def)
  have g_mem: "c \<in> set (g e) \<longleftrightarrow> c \<in> set (cands e) \<and> Q e c" for e c
    by (simp add: g_def)
  have cands_sub: "c \<in> set (cands e) \<Longrightarrow> c \<in> set E" for e c
    using CandidatesBuffer_subset[of eng bb lod e] by (auto simp: cands_def E_def)
  have Q_geo: "Q e c \<Longrightarrow> c \<noteq> e \<and> SpecSameGeometry eng V e (SpecOrientedCandidate eng V e c)" for e c
    by (simp add: Q_def SpecSeamCondition_def)
  have uniq: "e \<in> set E \<Longrightarrow> c \<in> set E \<Longrightarrow> c \<noteq> e \<Longrightarrow>
              SpecSameGeometry eng V e (SpecOrientedCandidate eng V e c) \<Longrightarrow>
              (e = e1 \<and> c = e2) \<or> (e = e2 \<and> c = e1)" for e c
    using unique unfolding E_def V_def by blast
  have only: "(e = e1 \<and> c = e2) \<or> (e = e2 \<and> c = e1)" if "c \<in> set (g e)" "e \<in> set E" for e c
  proof -
    from that(1) have "c \<in> set E" "Q e c" using cands_sub g_mem by blast+
    with Q_geo[of e c] uniq[OF that(2)] show ?thesis by blast
  qed
  have dist: "distinct (g e)" for e
    by (simp add: g_def cands_def CandidatesBuffer_distinct)
  have g1: "g e1 = (if e2 \<in> set (cands e1) \<and> Q e1 e2 then [e2] else [])"
  proof -
    have "set (g e1) \<subseteq> {e2}" using only[OF _ e1E] ne by blast
    from distinct_subset_singleton[OF dist this] show ?thesis by (simp add: g_mem)
  qed
  have g2: "g e2 = (if e1 \<in> set (cands e2) \<and> Q e2 e1 then [e1] else [])"
  proof -
    have "set (g e2) \<subseteq> {e1}" using only[OF _ e2E] ne by blast
    from distinct_subset_singleton[OF dist this] show ?thesis by (simp add: g_mem)
  qed
  have g0: "g e = []" if "e \<in> set E" "e \<noteq> e1" "e \<noteq> e2" for e
  proof (rule ccontr)
    assume "g e \<noteq> []"
    then obtain c where "c \<in> set (g e)" using nonempty_has_member by blast
    from only[OF this that(1)] that(2,3) show False by simp
  qed
  have "LodSeamPairs eng bb uvChannel lod = concat (map (\<lambda>e. map (Pair e) (g e)) E)"
    unfolding g_def Q_def cands_def E_def V_def by (rule LodSeamPairs_concat)
  also have "\<dots> = map (Pair e1) (g e1) @ map (Pair e2) (g e2)"
  proof (rule concat_two_sorted)
    show "sorted E" "distinct E" by (simp_all add: E_def GeometryEdges_sorted GeometryEdges_distinct)
    show "e1 \<in> set E" "e2 \<in> set E" "e1 < e2" by (fact e1E e2E less)+
    show "\<forall>e \<in> set E. e \<noteq> e1 \<longrightarrow> e \<noteq> e2 \<longrightarrow> map (Pair e) (g e) = []"
      using g0 by simp
  qed
  also have "\<dots> =
           (if e2 \<in> set (cands e1) \<and> Q e1 e2 then [(e1, e2)] else []) @
           (if e1 \<in> set (cands e2) \<and> Q e2 e1 then [(e2, e1)] else [])"
    by (simp add: g1 g2)
  finally show ?thesis
    using ne by (simp add: Q_def cands_def V_def)
qed

section \<open>The seams of a model in closed form\<close>

lemma CollectSeamsOfLods_closed:
  assumes "list_all (\<lambda>lod. EdgesInRange (vertices' lod) uvChannel (GeometryEdges lod)) lods"
  shows "CollectSeamsOfLods eng bb uvChannel lods =
           Inr (concat (map (\<lambda>lod. map (PushedSeam eng (vertices' lod) uvChannel)
                                    (LodSeamPairs eng bb uvChannel lod)) lods))"
  using assms by (induction lods) (simp_all add: CollectLodSeams_def GeometryEdges_def)

lemma CollectModelSeams_closed:
  assumes "ImportModel eng m = Some modelView"
    and "list_all (\<lambda>lod. EdgesInRange (vertices' lod) uvChannel (GeometryEdges lod))
           (concat (map lods' (geometries' modelView)))"
  shows "CollectModelSeams eng trace (Some m) uvChannel =
           Inr (concat (map (\<lambda>lod. map (PushedSeam eng (vertices' lod) uvChannel)
                                    (LodSeamPairs eng (CalculateBoundingBox eng modelView) uvChannel lod))
                          (concat (map lods' (geometries' modelView)))),
                trace\<lparr> traceCalls := traceCalls trace @ [Some m] \<rparr>)"
  using assms(1) CollectSeamsOfLods_closed[OF assms(2), of eng "CalculateBoundingBox eng modelView"]
  by (simp add: CollectModelSeams_def CollectViewSeams_def)

lemma CollectModelSeams_single_lod:
  assumes "ImportModel eng m = Some \<lparr> geometries' = [\<lparr> lods' = [lod] \<rparr>] \<rparr>"
    and "EdgesInRange (vertices' lod) uvChannel (GeometryEdges lod)"
  shows "CollectModelSeams eng trace (Some m) uvChannel =
         Inr (map (PushedSeam eng (vertices' lod) uvChannel)
                (LodSeamPairs eng (CalculateBoundingBox eng \<lparr> geometries' = [\<lparr> lods' = [lod] \<rparr>] \<rparr>)
                   uvChannel lod),
              trace\<lparr> traceCalls := traceCalls trace @ [Some m] \<rparr>)"
  using CollectModelSeams_closed[OF assms(1), of uvChannel trace] assms(2) by simp

lemma CollectModelSeams_failed_import:
  assumes "ImportModel eng m = None"
  shows "CollectModelSeams eng trace (Some m) uvChannel =
           Inr ([], trace\<lparr> traceLog := traceLog trace @
                              [LogError (''Failed to import model '' @ [CHR 0x22] @ ''{}'' @ [CHR 0x22])
                                 [GetName eng m]],
                           traceCalls := traceCalls trace @ [Some m] \<rparr>)"
  using assms by (simp add: CollectModelSeams_def)

text \<open>The call of \<^verbatim>\<open>CollectModelSeams\<close> on a trace does what it does on the empty
  trace, behind the trace.\<close>

lemma CollectModelSeams_trace:
  "CollectModelSeams eng trace model uvChannel =
     (case CollectModelSeams eng emptyTrace model uvChannel of
        Inl e \<Rightarrow> Inl e
      | Inr (seams, added) \<Rightarrow>
          Inr (seams, trace\<lparr> traceLog := traceLog trace @ traceLog added,
                             traceCalls := traceCalls trace @ traceCalls added \<rparr>))"
  by (simp add: CollectModelSeams_def emptyTrace_def Let_def split: option.splits sum.splits)

lemma CollectModelSeams_calls:
  assumes "CollectModelSeams eng emptyTrace model uvChannel = Inr (seams, added)"
  shows "traceCalls added = [model]"
  using assms
  by (auto simp: CollectModelSeams_def emptyTrace_def Let_def split: option.splits sum.splits)

lemma PushedSeam_fields:
  "PushedSeam eng vertices uvChannel (e, c) =
     \<lparr> positions' = (VertexUv vertices uvChannel (fst e), VertexUv vertices uvChannel (snd e)),
       otherPositions' =
         (VertexUv vertices uvChannel (fst (SpecOrientedCandidate eng vertices e c)),
          VertexUv vertices uvChannel (snd (SpecOrientedCandidate eng vertices e c))) \<rparr>"
  by (simp add: PushedSeam_def MakeSeam_def OrientCandidate_Spec VertexUv_def)

lemma map_filter_concat:
  "map f (filter P xs) = concat (map (\<lambda>x. if P x then [f x] else []) xs)"
  by (induction xs) auto

lemma PushedSeams_of_lod:
  "map (PushedSeam eng (vertices' lod) uvChannel) (LodSeamPairs eng bb uvChannel lod) =
     concat (map (\<lambda>edge.
       concat (map (\<lambda>candidate.
         if candidate \<noteq> edge \<and>
            SpecSeamCondition eng (vertices' lod) uvChannel edge
              (SpecOrientedCandidate eng (vertices' lod) edge candidate)
         then [\<lparr> positions' = (VertexUv (vertices' lod) uvChannel (fst edge),
                                VertexUv (vertices' lod) uvChannel (snd edge)),
                 otherPositions' =
                   (VertexUv (vertices' lod) uvChannel
                      (fst (SpecOrientedCandidate eng (vertices' lod) edge candidate)),
                    VertexUv (vertices' lod) uvChannel
                      (snd (SpecOrientedCandidate eng (vertices' lod) edge candidate))) \<rparr>]
         else [])
        (CandidatesBuffer eng bb lod edge)))
      (GeometryEdges lod))"
  unfolding LodSeamPairs_concat map_concat
  by (simp add: o_def) (simp add: map_filter_concat PushedSeam_fields)


section \<open>The example mesh\<close>

lemma exampleLod_edges:
  "GeometryEdges exampleLod = [(0, 1), (0, 2), (1, 2), (3, 4), (3, 5), (4, 5)]"
  by (simp add: GeometryEdges_def exampleLod_def SortUnique_def MakeOrderedIndexPair_def)

lemma example_positions:
  "ToVector3 (position' (vertices' exampleLod ! 0)) = Vector3 0 0 0"
  "ToVector3 (position' (vertices' exampleLod ! Suc 0)) = Vector3 1 0 0"
  "ToVector3 (position' (vertices' exampleLod ! 2)) = Vector3 0 1 0"
  "ToVector3 (position' (vertices' exampleLod ! 3)) = Vector3 0 0 0"
  "ToVector3 (position' (vertices' exampleLod ! 4)) = Vector3 1 0 0"
  "ToVector3 (position' (vertices' exampleLod ! 5)) = Vector3 0 (-1) 0"
  by (simp_all add: exampleLod_def exampleVertex_def ToVector3_def)

lemma example_normals:
  "ToVector3 (normal' (vertices' exampleLod ! 0)) = Vector3 0 0 1"
  "ToVector3 (normal' (vertices' exampleLod ! Suc 0)) = Vector3 0 0 1"
  "ToVector3 (normal' (vertices' exampleLod ! 2)) = Vector3 0 0 1"
  "ToVector3 (normal' (vertices' exampleLod ! 3)) = Vector3 0 0 1"
  "ToVector3 (normal' (vertices' exampleLod ! 4)) = Vector3 0 0 1"
  "ToVector3 (normal' (vertices' exampleLod ! 5)) = Vector3 0 0 1"
  by (simp_all add: exampleLod_def exampleVertex_def ToVector3_def)

lemma example_uvs:
  "ToVector2 (uv' (vertices' exampleLod ! 0) ! 0) = Vector2 0 0"
  "ToVector2 (uv' (vertices' exampleLod ! Suc 0) ! 0) = Vector2 1 0"
  "ToVector2 (uv' (vertices' exampleLod ! 2) ! 0) = Vector2 0 1"
  "ToVector2 (uv' (vertices' exampleLod ! 3) ! 0) = Vector2 0 3"
  "ToVector2 (uv' (vertices' exampleLod ! 4) ! 0) = Vector2 1 3"
  "ToVector2 (uv' (vertices' exampleLod ! 5) ! 0) = Vector2 0 2"
  by (simp_all add: exampleLod_def exampleVertex_def ToVector2_def)

lemma example_epsilon: "M_LARGE_EPSILON exampleEngine = 13743895 / 274877906944"
  by (simp add: exampleEngine_def)

lemma example_arithmetic:
  "FloatAdd exampleEngine a b = a + b"
  "FloatSub exampleEngine a b = a - b"
  "FloatMul exampleEngine a b = a * b"
  "FloatDiv exampleEngine a b = a / b"
  by (simp_all add: exampleEngine_def)

lemma example_exact: "ExactArithmetic exampleEngine"
  by (simp add: ExactArithmetic_def exampleEngine_def)

lemmas example_eval =
  example_positions example_normals example_uvs example_epsilon example_arithmetic
  Vector3_sub_def Vector2_sub_def Vector3_LengthSquared_def Vector2_LengthSquared_def Vector3_of2_def
  Vector3_CrossProduct_def

lemma example_01_34:
  "SpecSeamCondition exampleEngine (vertices' exampleLod) 0 (0, 1)
     (SpecOrientedCandidate exampleEngine (vertices' exampleLod) (0, 1) (3, 4))"
  by (simp add: SpecSeamCondition_def SpecSameGeometry_def SpecDifferentUv_def SpecOrientedCandidate_def
      example_eval)

lemma example_34_01:
  "SpecSeamCondition exampleEngine (vertices' exampleLod) 0 (3, 4)
     (SpecOrientedCandidate exampleEngine (vertices' exampleLod) (3, 4) (0, 1))"
  by (simp add: SpecSeamCondition_def SpecSameGeometry_def SpecDifferentUv_def SpecOrientedCandidate_def
      example_eval)

lemma example_unique:
  "\<forall>e \<in> set (GeometryEdges exampleLod).
   \<forall>c \<in> set (GeometryEdges exampleLod).
     c \<noteq> e \<and> SpecSameGeometry exampleEngine (vertices' exampleLod) e
                 (SpecOrientedCandidate exampleEngine (vertices' exampleLod) e c) \<longrightarrow>
     (e = (0, 1) \<and> c = (3, 4)) \<or> (e = (3, 4) \<and> c = (0, 1))"
  unfolding exampleLod_edges
  by (simp add: SpecSameGeometry_def SpecOrientedCandidate_def example_eval)

lemma example_range:
  "EdgesInRange (vertices' exampleLod) 0 (GeometryEdges exampleLod)"
  unfolding exampleLod_edges by (simp add: EdgesInRange_def exampleLod_def exampleVertex_def)

lemma example_import:
  "ImportModel exampleEngine 0 = Some \<lparr> geometries' = [\<lparr> lods' = [exampleLod] \<rparr>] \<rparr>"
  by (simp add: exampleEngine_def exampleView_def)

lemma example_eps: "0 < M_LARGE_EPSILON exampleEngine"
  by (simp add: exampleEngine_def)

lemma example_edges_mem:
  "(0, 1) \<in> set (GeometryEdges exampleLod)"
  "(3, 4) \<in> set (GeometryEdges exampleLod)"
  by (simp_all add: exampleLod_edges)

lemma example_candidates:
  "(3, 4) \<in> set (CandidatesBuffer exampleEngine bb exampleLod (0, 1))"
  "(0, 1) \<in> set (CandidatesBuffer exampleEngine bb exampleLod (3, 4))"
proof -
  have "SpecSameGeometry exampleEngine (vertices' exampleLod) (0, 1)
          (SpecOrientedCandidate exampleEngine (vertices' exampleLod) (0, 1) (3, 4))"
    using example_01_34 by (simp add: SpecSeamCondition_def)
  from same_geometry_is_candidate[OF example_exact example_eps example_edges_mem(2)[unfolded GeometryEdges_def] this]
  show "(3, 4) \<in> set (CandidatesBuffer exampleEngine bb exampleLod (0, 1))"
    by (simp add: CandidatesBuffer_def GeometryEdges_def)
  have "SpecSameGeometry exampleEngine (vertices' exampleLod) (3, 4)
          (SpecOrientedCandidate exampleEngine (vertices' exampleLod) (3, 4) (0, 1))"
    using example_34_01 by (simp add: SpecSeamCondition_def)
  from same_geometry_is_candidate[OF example_exact example_eps example_edges_mem(1)[unfolded GeometryEdges_def] this]
  show "(0, 1) \<in> set (CandidatesBuffer exampleEngine bb exampleLod (3, 4))"
    by (simp add: CandidatesBuffer_def GeometryEdges_def)
qed

lemma example_seams:
  "CollectModelSeams exampleEngine trace (Some 0) 0 =
     Inr ([\<lparr> positions' = (Vector2 0 0, Vector2 1 0), otherPositions' = (Vector2 0 3, Vector2 1 3) \<rparr>,
           \<lparr> positions' = (Vector2 0 3, Vector2 1 3), otherPositions' = (Vector2 0 0, Vector2 1 0) \<rparr>],
          trace\<lparr> traceCalls := traceCalls trace @ [Some 0] \<rparr>)"
proof -
  have less: "((0, 1) :: nat \<times> nat) < (3, 4)" by simp
  have "LodSeamPairs exampleEngine bb 0 exampleLod = [((0, 1), (3, 4)), ((3, 4), (0, 1))]" for bb
    unfolding LodSeamPairs_two[OF example_edges_mem less example_unique]
    using example_candidates[of bb] example_01_34 example_34_01 by simp
  then show ?thesis
    unfolding CollectModelSeams_single_lod[OF example_import example_range]
    by (simp add: PushedSeam_fields VertexUv_def SpecOrientedCandidate_def example_eval)
qed

section \<open>The mesh with a short and a long UV segment\<close>
















section \<open>Scene assembly in closed form\<close>

lemma CollectModelSeams_defined:
  assumes "case CollectModelSeams eng emptyTrace model uvChannel of Inl e \<Rightarrow> False | Inr r \<Rightarrow> True"
  shows "CollectModelSeams eng trace model uvChannel =
           Inr (ModelSeams eng uvChannel model,
                trace\<lparr> traceLog := traceLog trace @ ModelLog eng uvChannel model,
                       traceCalls := traceCalls trace @ [model] \<rparr>)"
proof -
  from assms obtain seams added where
    r: "CollectModelSeams eng emptyTrace model uvChannel = Inr (seams, added)"
    by (auto split: sum.splits)
  show ?thesis
    unfolding CollectModelSeams_trace[of eng trace]
    by (simp add: r ModelSeams_def ModelLog_def CollectModelSeams_calls[OF r])
qed

lemma CollectSeamsTasks_defined:
  assumes "list_all (\<lambda>model. case CollectModelSeams eng emptyTrace model uvChannel of
                         Inl e \<Rightarrow> False | Inr r \<Rightarrow> True) models"
  shows "CollectSeamsTasks eng uvChannel models trace =
           Inr (map (\<lambda>model. (model, ModelSeams eng uvChannel model)) models,
                trace\<lparr> traceLog := traceLog trace @ concat (map (ModelLog eng uvChannel) models),
                       traceCalls := traceCalls trace @ models \<rparr>)"
  using assms
proof (induction models arbitrary: trace)
  case Nil
  then show ?case by simp
next
  case (Cons model models)
  from Cons.prems have
    d: "case CollectModelSeams eng emptyTrace model uvChannel of Inl e \<Rightarrow> False | Inr r \<Rightarrow> True"
    and rest: "list_all (\<lambda>model. case CollectModelSeams eng emptyTrace model uvChannel of
                         Inl e \<Rightarrow> False | Inr r \<Rightarrow> True) models"
    by simp_all
  show ?case
    by (simp add: CollectModelSeams_defined[OF d] Cons.IH[OF rest])
qed

lemma emplace_fold:
  "foldl (\<lambda>cache result.
        (case cache (fst result) of None \<Rightarrow> cache(fst result \<mapsto> snd result) | Some _ \<Rightarrow> cache))
       cache0 results k =
   (case cache0 k of Some v \<Rightarrow> Some v | None \<Rightarrow> map_of results k)"
  by (induction results arbitrary: cache0) (auto split: option.splits)

lemma CacheModelSeams_map_of: "CacheModelSeams results = map_of results"
  by (rule ext) (simp add: CacheModelSeams_def emplace_fold)

lemma CachedSeams_tasks:
  assumes "model \<in> set models"
  shows "CachedSeams (CacheModelSeams (map (\<lambda>model. (model, f model)) models)) model = f model"
proof -
  have "map_of (map (\<lambda>model. (model, f model)) models) model = Some (f model)"
    using assms by (induction models) auto
  then show ?thesis by (simp add: CachedSeams_def CacheModelSeams_map_of)
qed

lemma used_models_map:
  "concat (map (\<lambda>element.
        (case staticModel' element of None \<Rightarrow> [] | Some staticModel \<Rightarrow> [GetModel staticModel])) elements)
   = map ElementModel (filter (\<lambda>element. staticModel' element \<noteq> None) elements)"
  by (induction elements) (auto simp: ElementModel_def)

lemma UsedModels_remdups: "UsedModels chart = remdups (map ElementModel (MeshElements chart))"
  by (simp add: UsedModels_def MeshElements_def used_models_map)

lemma UsedModels_set:
  "set (UsedModels chart) = ElementModel ` set (MeshElements chart)"
  by (simp add: UsedModels_remdups)

lemma UsedModels_distinct: "distinct (UsedModels chart)"
  by (simp add: UsedModels_remdups)

lemma concat_map_upt_Suc:
  "concat (map g [0..<Suc n]) = g 0 @ concat (map (\<lambda>k. g (Suc k)) [0..<n])"
proof -
  have "[0..<Suc n] = 0 # map Suc [0..<n]"
    by (simp add: upt_conv_Cons map_Suc_upt del: upt_Suc)
  then show ?thesis by (simp add: o_def del: upt_Suc)
qed

lemma ReplicateElements_closed:
  assumes "filter (\<lambda>element. staticModel' element \<noteq> None) elements = [] \<or> bakingMaterial \<noteq> None"
    and "list_all (\<lambda>element. node' element \<noteq> None) (filter (\<lambda>element. staticModel' element \<noteq> None) elements)"
  shows "ReplicateElements chart bakingMaterial modelSeamsCache elements (geometryId, seams, nodes) trace =
     Inr ((geometryId + of_nat (length (filter (\<lambda>element. staticModel' element \<noteq> None) elements)),
           seams @ concat (map (ElementSeams (CachedSeams modelSeamsCache))
                        (filter (\<lambda>element. staticModel' element \<noteq> None) elements)),
           nodes @ concat (map (\<lambda>k. ElementTapNodes chart bakingMaterial (geometryId + of_nat k)
                                   (filter (\<lambda>element. staticModel' element \<noteq> None) elements ! k))
                        [0..<length (filter (\<lambda>element. staticModel' element \<noteq> None) elements)])),
          trace)"
  using assms
proof (induction elements arbitrary: geometryId seams nodes)
  case Nil
  then show ?case by simp
next
  case (Cons element rest)
  let ?M = "filter (\<lambda>element. staticModel' element \<noteq> None) rest"
  show ?case
  proof (cases "staticModel' element")
    case None
    with Cons show ?thesis by simp
  next
    case (Some staticModel)
    with Cons.prems obtain material node where m: "bakingMaterial = Some material"
      and n: "node' element = Some node" by auto
    have rest1: "?M = [] \<or> bakingMaterial \<noteq> None"
      using m by simp
    have rest2: "list_all (\<lambda>element. node' element \<noteq> None) ?M"
      using Cons.prems(2) Some by simp
    have flt: "filter (\<lambda>element. staticModel' element \<noteq> None) (element # rest) = element # ?M"
      using Some by simp
    have step: "ReplicateElements chart bakingMaterial modelSeamsCache (element # rest)
                  (geometryId, seams, nodes) trace =
      ReplicateElements chart bakingMaterial modelSeamsCache rest
        (geometryId + 1,
         seams @ ElementSeams (CachedSeams modelSeamsCache) element,
         nodes @ ElementTapNodes chart bakingMaterial geometryId element) trace"
      using Some m n by (simp add: Let_def ElementSeams_def ElementModel_def ElementTapNodes_def)
    show ?thesis
      unfolding step Cons.IH[OF rest1 rest2] flt
      by (simp add: concat_map_upt_Suc add.assoc del: upt_Suc)
  qed
qed

lemma GenerateScene_closed:
  assumes "SceneInputsDefined eng chart settings"
  shows "GenerateLightmapGeometryBakingScene eng chart settings renderPath =
     Inr \<lparr> generatedScene =
             \<lparr> LightmapGeometryBakingScene.index' = LightmapChart.index' chart,
               LightmapGeometryBakingScene.width' = LightmapChart.width' chart,
               LightmapGeometryBakingScene.height' = LightmapChart.height' chart,
               LightmapGeometryBakingScene.size' = LightmapChart.size' chart,
               scene' = concat (map (\<lambda>k. ElementTapNodes chart (GetMaterial eng (materialName' settings))
                                          (1 + of_nat k) (MeshElements chart ! k))
                                 [0..<length (MeshElements chart)]),
               renderPath' = renderPath,
               seams' = concat (map (ElementSeams (ModelSeams eng (uvChannel' settings)))
                                  (MeshElements chart)) \<rparr>,
           generatedLog = concat (map (ModelLog eng (uvChannel' settings)) (UsedModels chart)),
           generatedCalls = UsedModels chart \<rparr>"
proof -
  from assms have mat: "MeshElements chart = [] \<or> GetMaterial eng (materialName' settings) \<noteq> None"
    and nodes: "list_all (\<lambda>element. node' element \<noteq> None) (MeshElements chart)"
    and tasks: "list_all (\<lambda>model. case CollectModelSeams eng emptyTrace model (uvChannel' settings) of
                         Inl e \<Rightarrow> False | Inr r \<Rightarrow> True) (UsedModels chart)"
    by (simp_all add: SceneInputsDefined_def)
  have seams: "map (ElementSeams (CachedSeams (CacheModelSeams
                  (map (\<lambda>model. (model, ModelSeams eng (uvChannel' settings) model)) (UsedModels chart)))))
                 (MeshElements chart) =
               map (ElementSeams (ModelSeams eng (uvChannel' settings))) (MeshElements chart)"
  proof (rule map_cong[OF refl])
    fix element assume "element \<in> set (MeshElements chart)"
    then have "ElementModel element \<in> set (UsedModels chart)" by (simp add: UsedModels_set)
    then show "ElementSeams (CachedSeams (CacheModelSeams
                  (map (\<lambda>model. (model, ModelSeams eng (uvChannel' settings) model)) (UsedModels chart)))) element =
               ElementSeams (ModelSeams eng (uvChannel' settings)) element"
      by (simp add: ElementSeams_def CachedSeams_tasks)
  qed
  note loop = ReplicateElements_closed[OF mat[unfolded MeshElements_def] nodes[unfolded MeshElements_def],
        of chart _ 1 "[]" "[]", folded MeshElements_def]
  show ?thesis
    unfolding GenerateLightmapGeometryBakingScene_def Let_def CollectSeamsTasks_defined[OF tasks]
    by (simp add: loop seams emptyTrace_def)
qed

lemma concat_blocks_length:
  "(\<And>k. k < n \<Longrightarrow> length (f k) = m) \<Longrightarrow> length (concat (map f [0..<n])) = n * m"
  by (induction n) simp_all

lemma concat_blocks_nth:
  assumes "\<And>k. k < n \<Longrightarrow> length (f k) = m" "k < n" "i < m"
  shows "concat (map f [0..<n]) ! (k * m + i) = f k ! i"
  using assms
proof (induction n)
  case 0
  then show ?case by simp
next
  case (Suc n)
  have len: "length (concat (map f [0..<n])) = n * m"
    using Suc.prems(1) by (simp add: concat_blocks_length)
  show ?case
  proof (cases "k < n")
    case True
    have "k * m + i < Suc k * m" using Suc.prems(3) by simp
    also have "\<dots> \<le> n * m" using True by (intro mult_le_mono1) simp
    finally have "k * m + i < n * m" .
    then show ?thesis using Suc True len by (simp add: nth_append)
  next
    case False
    with Suc.prems(2) have "k = n" by simp
    then show ?thesis using len by (simp add: nth_append)
  qed
qed

lemma ElementTapNodes_defined:
  assumes "bakingMaterial = Some material" "node' element = Some node"
    "staticModel' element = Some staticModel"
  shows "ElementTapNodes chart bakingMaterial geometryId element =
         map (TapNode chart material node (GetModel staticModel) (GetScaleOffset (region' element))
                geometryId) [0..<numMultiTapSamples]"
  using assms by (simp add: ElementTapNodes_def)

lemma MeshElements_nth:
  assumes "k < length (MeshElements chart)"
  shows "staticModel' (MeshElements chart ! k) \<noteq> None"
proof -
  have "MeshElements chart ! k \<in> set (MeshElements chart)" using assms by simp
  then show ?thesis unfolding MeshElements_def by simp
qed

lemma scene_nodes_of_chart:
  assumes defined: "SceneInputsDefined eng chart settings"
    and k: "k < length (MeshElements chart)"
  obtains material node staticModel where
    "GetMaterial eng (materialName' settings) = Some material"
    "node' (MeshElements chart ! k) = Some node"
    "staticModel' (MeshElements chart ! k) = Some staticModel"
    "ElementTapNodes chart (GetMaterial eng (materialName' settings)) geometryId (MeshElements chart ! k) =
       map (TapNode chart material node (GetModel staticModel)
              (GetScaleOffset (region' (MeshElements chart ! k))) geometryId) [0..<numMultiTapSamples]"
proof -
  from k have ne: "MeshElements chart \<noteq> []" by auto
  with defined obtain material where m: "GetMaterial eng (materialName' settings) = Some material"
    by (auto simp: SceneInputsDefined_def)
  from defined k obtain node where n: "node' (MeshElements chart ! k) = Some node"
    by (auto simp: SceneInputsDefined_def list_all_length)
  from MeshElements_nth[OF k] obtain staticModel where
    s: "staticModel' (MeshElements chart ! k) = Some staticModel" by auto
  show ?thesis
    by (rule that[OF m n s]) (rule ElementTapNodes_defined[OF m n s])
qed

lemma scene_length:
  assumes defined: "SceneInputsDefined eng chart settings"
  shows "length (concat (map (\<lambda>k. ElementTapNodes chart (GetMaterial eng (materialName' settings))
                                (1 + of_nat k) (MeshElements chart ! k))
                       [0..<length (MeshElements chart)]))
         = length (MeshElements chart) * numMultiTapSamples"
proof (rule concat_blocks_length)
  fix k assume k: "k < length (MeshElements chart)"
  show "length (ElementTapNodes chart (GetMaterial eng (materialName' settings)) (1 + of_nat k)
                  (MeshElements chart ! k)) = numMultiTapSamples"
    by (rule scene_nodes_of_chart[OF defined k, of "1 + of_nat k"]) simp
qed

lemma scene_nth:
  assumes defined: "SceneInputsDefined eng chart settings"
    and k: "k < length (MeshElements chart)"
    and tap: "tap < numMultiTapSamples"
    and m: "GetMaterial eng (materialName' settings) = Some material"
    and n: "node' (MeshElements chart ! k) = Some node"
    and s: "staticModel' (MeshElements chart ! k) = Some staticModel"
  shows "concat (map (\<lambda>k. ElementTapNodes chart (GetMaterial eng (materialName' settings))
                                (1 + of_nat k) (MeshElements chart ! k))
                       [0..<length (MeshElements chart)]) ! (k * numMultiTapSamples + tap)
         = TapNode chart material node (GetModel staticModel)
              (GetScaleOffset (region' (MeshElements chart ! k))) (1 + of_nat k) tap"
proof -
  have len: "length (ElementTapNodes chart (GetMaterial eng (materialName' settings)) (1 + of_nat j)
                  (MeshElements chart ! j)) = numMultiTapSamples"
    if "j < length (MeshElements chart)" for j
    by (rule scene_nodes_of_chart[OF defined that, of "1 + of_nat j"]) simp
  have "concat (map (\<lambda>k. ElementTapNodes chart (GetMaterial eng (materialName' settings))
                                (1 + of_nat k) (MeshElements chart ! k))
                       [0..<length (MeshElements chart)]) ! (k * numMultiTapSamples + tap)
        = ElementTapNodes chart (GetMaterial eng (materialName' settings)) (1 + of_nat k)
            (MeshElements chart ! k) ! tap"
    by (rule concat_blocks_nth[OF len k tap])
  also have "\<dots> = TapNode chart material node (GetModel staticModel)
              (GetScaleOffset (region' (MeshElements chart ! k))) (1 + of_nat k) tap"
    using tap by (simp add: ElementTapNodes_defined[OF m n s])
  finally show ?thesis .
qed

lemma TapNode_explicit:
  "TapNode chart bakingMaterial node model scaleOffset geometryId tap =
     \<lparr> position'' = GetWorldPosition node,
       rotation'' = GetWorldRotation node,
       scale'' = GetWorldScale node,
       model'' = model,
       material'' = bakingMaterial\<lparr> shaderParameters := (shaderParameters bakingMaterial)
          (''LMOffset'' \<mapsto> VariantVector4 (Vector4_add scaleOffset
              (Vector4 0 0 (v2_x (multiTapOffsets ! tap) * v2_x (GetTexelSize chart))
                           (v2_y (multiTapOffsets ! tap) * v2_y (GetTexelSize chart)))),
           ''LightmapLayer'' \<mapsto> VariantFloat (1 - of_nat tap / 24),
           ''LightmapGeometry'' \<mapsto> VariantFloat (FloatFromUnsigned geometryId)) \<rparr> \<rparr>"
  by (simp add: TapNode_def Let_def SetShaderParameter_def Clone_def Vector2_mul_def numMultiTapSamples_def)

lemma FloatFromUnsigned_exact:
  assumes "unat u < 2 ^ 24"
  shows "FloatFromUnsigned u = of_nat (unat u)"
proof -
  have "[0..<9] = 0 # [1..<9]" by (simp add: upt_conv_Cons)
  then have "takeWhile (\<lambda>e. 2 ^ 24 \<le> unat u div 2 ^ e) [0..<9] = []"
    using assms by simp
  then show ?thesis by (simp add: FloatFromUnsigned_def Let_def)
qed

lemma example_mesh_elements:
  "MeshElements exampleChart = [exampleElement (Some 0) (1/4), exampleElement (Some 1) (1/2)]"
  by (simp add: MeshElements_def exampleChart_def exampleElement_def)

lemma example_used_models: "UsedModels exampleChart = [Some 0, Some 1]"
  by (simp add: UsedModels_remdups example_mesh_elements ElementModel_def exampleElement_def)

lemma example_seams_failed_import:
  "model \<noteq> 0 \<Longrightarrow> CollectModelSeams exampleEngine trace (Some model) uvChannel =
     Inr ([], trace\<lparr> traceLog := traceLog trace @
                         [LogError (''Failed to import model '' @ [CHR 0x22] @ ''{}'' @ [CHR 0x22])
                            [''Models/Box.mdl'']],
                     traceCalls := traceCalls trace @ [Some model] \<rparr>)"
  by (simp add: CollectModelSeams_def exampleEngine_def)

lemma example_model_seams:
  "ModelSeams exampleEngine 0 (Some 0) =
     [\<lparr> positions' = (Vector2 0 0, Vector2 1 0), otherPositions' = (Vector2 0 3, Vector2 1 3) \<rparr>,
      \<lparr> positions' = (Vector2 0 3, Vector2 1 3), otherPositions' = (Vector2 0 0, Vector2 1 0) \<rparr>]"
  "model \<noteq> 0 \<Longrightarrow> ModelSeams exampleEngine 0 (Some model) = []"
  by (simp_all add: ModelSeams_def example_seams example_seams_failed_import)

lemma example_scene_defined: "SceneInputsDefined exampleEngine exampleChart exampleSettings"
proof -
  have a: "case CollectModelSeams exampleEngine emptyTrace (Some 0) (uvChannel' exampleSettings) of
             Inl e \<Rightarrow> False | Inr r \<Rightarrow> True"
    by (simp add: exampleSettings_def example_seams)
  have b: "case CollectModelSeams exampleEngine emptyTrace (Some 1) (uvChannel' exampleSettings) of
             Inl e \<Rightarrow> False | Inr r \<Rightarrow> True"
    by (simp add: exampleSettings_def example_seams_failed_import)
  have mat: "GetMaterial exampleEngine (materialName' exampleSettings) \<noteq> None"
    by (simp add: exampleEngine_def exampleSettings_def)
  have nodes: "list_all (\<lambda>element. node' element \<noteq> None)
                 [exampleElement (Some 0) (1/4), exampleElement (Some 1) (1/2)]"
    by (simp add: exampleElement_def)
  show ?thesis
    unfolding SceneInputsDefined_def example_used_models example_mesh_elements
    using a b mat nodes by simp
qed

lemma example_material:
  "GetMaterial exampleEngine (materialName' exampleSettings) = Some \<lparr> shaderParameters = Map.empty \<rparr>"
  by (simp add: exampleEngine_def exampleSettings_def)

lemma example_element_fields:
  "node' (exampleElement model offset) = Some exampleNode"
  "staticModel' (exampleElement (Some m) offset) = Some \<lparr> GetModel = Some m \<rparr>"
  "staticModel' (exampleElement None offset) = None"
  "region' (exampleElement model offset) =
     \<lparr> GetScale = Vector2 (1/2) (1/2), GetOffset = Vector2 offset 0,
       GetScaleOffset = Vector4 (1/2) (1/2) offset 0 \<rparr>"
  by (simp_all add: exampleElement_def)

section \<open>A batch of charts in closed form\<close>

lemma GenerateScene_assembled:
  assumes "SceneInputsDefined eng chart settings"
  shows "GenerateLightmapGeometryBakingScene eng chart settings renderPath =
         Inr (AssembledScene eng chart settings renderPath)"
  unfolding AssembledScene_def by (rule GenerateScene_closed[OF assms])

lemma GenerateScenesLoop_assembled:
  assumes "\<forall>chart \<in> set charts. SceneInputsDefined eng chart settings"
  shows "GenerateScenesLoop eng settings renderPath charts =
         Inr (map (\<lambda>chart. AssembledScene eng chart settings renderPath) charts)"
  using assms by (induction charts) (simp_all add: GenerateScene_assembled)

lemma GenerateScenes_assembled:
  assumes "LoadRenderPath eng (renderPathName' settings) = Some renderPath"
    and "\<forall>chart \<in> set charts. SceneInputsDefined eng chart settings"
  shows "GenerateLightmapGeometryBakingScenes eng charts settings =
         Inr \<lparr> batchScenes = map (\<lambda>chart. generatedScene (AssembledScene eng chart settings renderPath)) charts,
               batchLog = concat (map (\<lambda>chart. generatedLog (AssembledScene eng chart settings renderPath)) charts),
               batchCalls = concat (map UsedModels charts) \<rparr>"
  using assms
  by (simp add: GenerateLightmapGeometryBakingScenes_def GenerateScenesLoop_assembled o_def)
     (simp add: AssembledScene_def)

lemma count_list_concat_distinct:
  assumes "\<And>x. x \<in> set xs \<Longrightarrow> distinct (f x)"
  shows "count_list (concat (map f xs)) y = length (filter (\<lambda>x. y \<in> set (f x)) xs)"
  using assms by (induction xs) (simp_all add: count_list_distinct)

lemma example_render_path:
  "LoadRenderPath exampleEngine (renderPathName' exampleSettings) = Some exampleRenderPath"
  by (simp add: LoadRenderPath_def exampleEngine_def exampleSettings_def exampleRenderPath_def)


lemma shared_mesh_elements:
  "MeshElements sharedChart =
     [exampleElement (Some 0) 0, exampleElement (Some 1) (1/4), exampleElement (Some 0) (1/2)]"
  by (simp add: MeshElements_def sharedChart_def exampleElement_def)

lemma shared_used_models: "UsedModels sharedChart = [Some 1, Some 0]"
  by (simp add: UsedModels_remdups shared_mesh_elements ElementModel_def exampleElement_def)

lemma shared_scene_defined: "SceneInputsDefined exampleEngine sharedChart exampleSettings"
proof -
  have a: "case CollectModelSeams exampleEngine emptyTrace (Some 0) (uvChannel' exampleSettings) of
             Inl e \<Rightarrow> False | Inr r \<Rightarrow> True"
    by (simp add: exampleSettings_def example_seams)
  have b: "case CollectModelSeams exampleEngine emptyTrace (Some 1) (uvChannel' exampleSettings) of
             Inl e \<Rightarrow> False | Inr r \<Rightarrow> True"
    by (simp add: exampleSettings_def example_seams_failed_import)
  have mat: "GetMaterial exampleEngine (materialName' exampleSettings) \<noteq> None"
    by (simp add: exampleEngine_def exampleSettings_def)
  have nodes: "list_all (\<lambda>element. node' element \<noteq> None)
                 [exampleElement (Some 0) 0, exampleElement (Some 1) (1/4), exampleElement (Some 0) (1/2)]"
    by (simp add: exampleElement_def)
  show ?thesis
    unfolding SceneInputsDefined_def shared_used_models shared_mesh_elements
    using a b mat nodes by simp
qed
section \<open>Geometry buffer baking in closed form\<close>

lemma transform_total:
  assumes "length xs \<le> length dest"
  shows "transform (\<lambda>data. Inr (f data)) xs dest = Inr (map f xs @ drop (length xs) dest)"
  using assms
proof (induction xs arbitrary: dest)
  case Nil
  then show ?case by simp
next
  case (Cons x xs)
  then obtain d ds where "dest = d # ds" by (cases dest) auto
  with Cons show ?case by simp
qed

lemma transform_ids:
  assumes "length xs \<le> length dest"
    and "list_all (\<lambda>data. 0 \<le> TruncateFloat (v4_w data) \<and> TruncateFloat (v4_w data) < 2 ^ 32) xs"
  shows "transform ExtractUintFromVector4 xs dest =
         Inr (map (\<lambda>data. word_of_int (TruncateFloat (v4_w data))) xs @ drop (length xs) dest)"
  using assms
proof (induction xs arbitrary: dest)
  case Nil
  then show ?case by simp
next
  case (Cons x xs)
  then obtain d ds where "dest = d # ds" by (cases dest) auto
  with Cons show ?case by (simp add: ExtractUintFromVector4_def)
qed

lemma transform_error:
  assumes "transform op xs dest = Inl e"
  shows "e = OutOfBounds \<or> (\<exists>x \<in> set xs. op x = Inl e)"
  using assms
proof (induction xs arbitrary: dest)
  case Nil
  then show ?case by simp
next
  case (Cons x xs)
  then show ?case by (auto split: sum.splits list.splits)
qed

lemma transform_total_error:
  "transform (\<lambda>data. Inr (f data)) xs dest = Inl e \<Longrightarrow> e \<noteq> NullDereference"
  using transform_error[of "\<lambda>data. Inr (f data)" xs dest e] by auto

lemma transform_ids_error:
  "transform ExtractUintFromVector4 xs dest = Inl e \<Longrightarrow> e \<noteq> NullDereference"
  using transform_error[of ExtractUintFromVector4 xs dest e]
  by (auto simp: ExtractUintFromVector4_def split: if_splits)

lemma drop_replicate_StoredOver:
  "length stored \<le> n \<Longrightarrow> stored @ drop (length stored) (replicate n initial) = StoredOver stored n initial"
  by (simp add: StoredOver_def)

lemma ReadTexture_ok:
  assumes "GetExtraRenderTarget eng k bakingScene name = Some texture" "IsTexture2D texture"
  shows "ReadTextureRGBA32Float (GetExtraRenderTarget eng k bakingScene name) =
         Inr (OutputData eng k bakingScene name)"
  using assms by (simp add: ReadTextureRGBA32Float_def OutputData_def)

lemma RenderOutputsExist_read:
  assumes "RenderOutputsExist eng k bakingScene" "name \<in> set renderOutputNames"
  shows "ReadTextureRGBA32Float (GetExtraRenderTarget eng k bakingScene name) =
         Inr (OutputData eng k bakingScene name)"
proof -
  from assms have "case GetExtraRenderTarget eng k bakingScene name of
                        None \<Rightarrow> False | Some texture \<Rightarrow> IsTexture2D texture"
    by (simp add: RenderOutputsExist_def list_all_iff)
  then show ?thesis
    by (auto simp: ReadTextureRGBA32Float_def OutputData_def split: option.splits)
qed

lemma Bake_frame_failed:
  assumes "\<not> BeginFrame eng (frameNumber state)"
  shows "BakeLightmapGeometryBuffer eng state bakingScene =
         Inr (DefaultGeometryBuffer,
              state\<lparr> bakerLog := bakerLog state @ [FrameFailedEntry],
                     frameNumber := Suc (frameNumber state) \<rparr>)"
  using assms by (simp add: BakeLightmapGeometryBuffer_def FrameFailedEntry_def)

lemma Bake_ok:
  assumes frame: "BeginFrame eng (frameNumber state)"
    and exist: "RenderOutputsExist eng (frameNumber state) bakingScene"
    and fit: "RenderOutputsFit eng (frameNumber state) bakingScene"
  shows "BakeLightmapGeometryBuffer eng state bakingScene =
         Inr (BakedBuffer eng (frameNumber state) bakingScene,
              state\<lparr> frameNumber := Suc (frameNumber state) \<rparr>)"
proof -
  let ?n = "LightmapGeometryBakingScene.width' bakingScene * LightmapGeometryBakingScene.height' bakingScene"
  let ?k = "frameNumber state"
  have read: "ReadTextureRGBA32Float (GetExtraRenderTarget eng ?k bakingScene name) =
         Inr (OutputData eng ?k bakingScene name)" if "name \<in> set renderOutputNames" for name
    by (rule RenderOutputsExist_read[OF exist that])
  have len: "length (OutputData eng ?k bakingScene name) \<le> ?n" if "name \<in> set renderOutputNames" for name
    using fit that by (simp add: RenderOutputsFit_def list_all_iff)
  have w: "list_all (\<lambda>data. 0 \<le> TruncateFloat (v4_w data) \<and> TruncateFloat (v4_w data) < 2 ^ 32)
       (OutputData eng ?k bakingScene ''position'')"
    using fit by (simp add: RenderOutputsFit_def)
  have names: "''position'' \<in> set renderOutputNames" "''smoothposition'' \<in> set renderOutputNames"
    "''facenormal'' \<in> set renderOutputNames" "''smoothnormal'' \<in> set renderOutputNames"
    by (simp_all add: renderOutputNames_def)
  have t3: "transform (\<lambda>data. Inr (ExtractVector3FromVector4 data)) (OutputData eng ?k bakingScene name)
              (replicate ?n (Vector3 0 0 0)) =
            Inr (StoredOver (map ExtractVector3FromVector4 (OutputData eng ?k bakingScene name)) ?n (Vector3 0 0 0))"
    if "name \<in> set renderOutputNames" for name
    using len[OF that] by (simp add: transform_total StoredOver_def)
  have tid: "transform ExtractUintFromVector4 (OutputData eng ?k bakingScene ''position'') (replicate ?n 0) =
            Inr (StoredOver (map (\<lambda>data. word_of_int (TruncateFloat (v4_w data)))
                          (OutputData eng ?k bakingScene ''position'')) ?n 0)"
    using len[OF names(1)] w by (simp add: transform_ids StoredOver_def)
  show ?thesis
    unfolding BakeLightmapGeometryBuffer_def Let_def
    using frame
    by (simp add: read[OF names(1)] read[OF names(2)] read[OF names(3)] read[OF names(4)]
        MakeGeometryBuffer_def t3[OF names(1)] t3[OF names(2)] t3[OF names(3)] t3[OF names(4)] tid
        BakedBuffer_def Let_def)
qed

lemma ReadTexture_Inr_iff:
  "(\<exists>data. ReadTextureRGBA32Float texture = Inr data) \<longleftrightarrow>
   (case texture of None \<Rightarrow> False | Some t \<Rightarrow> IsTexture2D t)"
  by (auto simp: ReadTextureRGBA32Float_def split: option.splits)

lemma ReadTexture_error:
  "ReadTextureRGBA32Float texture = Inl e \<Longrightarrow> e = NullDereference"
  by (auto simp: ReadTextureRGBA32Float_def split: option.splits if_splits)

lemma Bake_Inr_reads:
  assumes "BeginFrame eng (frameNumber state)"
    and "BakeLightmapGeometryBuffer eng state bakingScene = Inr r"
  shows "RenderOutputsExist eng (frameNumber state) bakingScene"
proof -
  from assms have
    "\<exists>data. ReadTextureRGBA32Float (GetExtraRenderTarget eng (frameNumber state) bakingScene ''position'') = Inr data"
    "\<exists>data. ReadTextureRGBA32Float (GetExtraRenderTarget eng (frameNumber state) bakingScene ''smoothposition'') = Inr data"
    "\<exists>data. ReadTextureRGBA32Float (GetExtraRenderTarget eng (frameNumber state) bakingScene ''facenormal'') = Inr data"
    "\<exists>data. ReadTextureRGBA32Float (GetExtraRenderTarget eng (frameNumber state) bakingScene ''smoothnormal'') = Inr data"
    by (simp_all add: BakeLightmapGeometryBuffer_def Let_def split: sum.splits)
  then show ?thesis
    unfolding ReadTexture_Inr_iff by (simp add: RenderOutputsExist_def renderOutputNames_def)
qed

lemma Bake_not_null:
  assumes frame: "BeginFrame eng (frameNumber state)"
    and exist: "RenderOutputsExist eng (frameNumber state) bakingScene"
  shows "BakeLightmapGeometryBuffer eng state bakingScene \<noteq> Inl NullDereference"
proof -
  have names: "''position'' \<in> set renderOutputNames" "''smoothposition'' \<in> set renderOutputNames"
    "''facenormal'' \<in> set renderOutputNames" "''smoothnormal'' \<in> set renderOutputNames"
    by (simp_all add: renderOutputNames_def)
  note read = RenderOutputsExist_read[OF exist]
  show ?thesis
    unfolding BakeLightmapGeometryBuffer_def Let_def
    using frame
    by (simp add: read[OF names(1)] read[OF names(2)] read[OF names(3)] read[OF names(4)]
        split: sum.splits)
       (auto dest: transform_total_error transform_ids_error)
qed

lemma map_upt_Suc_shift:
  "map g [0..<Suc n] = g 0 # map (\<lambda>i. g (Suc i)) [0..<n]"
proof -
  have "[0..<Suc n] = 0 # map Suc [0..<n]"
    by (simp add: upt_conv_Cons map_Suc_upt del: upt_Suc)
  then show ?thesis by (simp add: o_def del: upt_Suc)
qed

lemma BakeBuffers_closed:
  assumes "\<forall>i < length bakingScenes. BeginFrame eng (frameNumber state + i) \<longrightarrow>
             RenderOutputsExist eng (frameNumber state + i) (bakingScenes ! i) \<and>
             RenderOutputsFit eng (frameNumber state + i) (bakingScenes ! i)"
  shows "BakeLightmapGeometryBuffers eng state bakingScenes =
     Inr (map (\<lambda>i. if BeginFrame eng (frameNumber state + i)
                    then BakedBuffer eng (frameNumber state + i) (bakingScenes ! i)
                    else DefaultGeometryBuffer) [0..<length bakingScenes],
          state\<lparr> bakerLog := bakerLog state @
                    concat (map (\<lambda>i. if BeginFrame eng (frameNumber state + i) then [] else [FrameFailedEntry])
                              [0..<length bakingScenes]),
                 frameNumber := frameNumber state + length bakingScenes \<rparr>)"
  using assms
proof (induction bakingScenes arbitrary: state)
  case Nil
  then show ?case by simp
next
  case (Cons bakingScene rest)
  show ?case
  proof (cases "BeginFrame eng (frameNumber state)")
    case True
    with Cons.prems have ok: "RenderOutputsExist eng (frameNumber state) bakingScene"
      "RenderOutputsFit eng (frameNumber state) bakingScene" by auto
    let ?s1 = "state\<lparr> frameNumber := Suc (frameNumber state) \<rparr>"
    have rest: "\<forall>i < length rest. BeginFrame eng (frameNumber ?s1 + i) \<longrightarrow>
             RenderOutputsExist eng (frameNumber ?s1 + i) (rest ! i) \<and>
             RenderOutputsFit eng (frameNumber ?s1 + i) (rest ! i)"
      using Cons.prems by auto
    show ?thesis
      using True
      by (simp add: Bake_ok[OF True ok] Cons.IH[OF rest] map_upt_Suc_shift del: upt_Suc)
  next
    case False
    let ?s1 = "state\<lparr> bakerLog := bakerLog state @ [FrameFailedEntry],
                     frameNumber := Suc (frameNumber state) \<rparr>"
    have rest: "\<forall>i < length rest. BeginFrame eng (frameNumber ?s1 + i) \<longrightarrow>
             RenderOutputsExist eng (frameNumber ?s1 + i) (rest ! i) \<and>
             RenderOutputsFit eng (frameNumber ?s1 + i) (rest ! i)"
      using Cons.prems by auto
    show ?thesis
      using False
      by (simp add: Bake_frame_failed[OF False] Cons.IH[OF rest] map_upt_Suc_shift del: upt_Suc)
  qed
qed

lemma example_outputs_exist: "RenderOutputsExist exampleEngine k bakingScene"
  by (simp add: RenderOutputsExist_def renderOutputNames_def exampleEngine_def exampleTexture_def)

lemma example_output_data:
  "name \<in> set renderOutputNames \<Longrightarrow>
   OutputData exampleEngine k bakingScene name =
     [Vector4 0 0 0 0, Vector4 (1/2) 0 0 1, Vector4 1 (1/4) 0 2, Vector4 0 0 0 0]"
  by (auto simp: OutputData_def renderOutputNames_def exampleEngine_def exampleTexture_def)

lemma example_outputs_fit:
  assumes "4 \<le> LightmapGeometryBakingScene.width' bakingScene * LightmapGeometryBakingScene.height' bakingScene"
  shows "RenderOutputsFit exampleEngine k bakingScene"
proof -
  have pos: "''position'' \<in> set renderOutputNames" by (simp add: renderOutputNames_def)
  show ?thesis
    unfolding RenderOutputsFit_def example_output_data[OF pos]
    using assms by (simp add: list_all_iff example_output_data TruncateFloat_def)
qed

lemma example_chart_fields:
  "LightmapChart.index' exampleChart = 7" "LightmapChart.width' exampleChart = 2"
  "LightmapChart.height' exampleChart = 2"
  by (simp_all add: exampleChart_def)

lemma example_baked_ids:
  "geometryIds' (BakedBuffer exampleEngine k exampleBakingScene) = [0, 1, 2, 0]"
proof -
  have pos: "''position'' \<in> set renderOutputNames" by (simp add: renderOutputNames_def)
  show ?thesis
    by (simp add: BakedBuffer_def Let_def example_output_data[OF pos] StoredOver_def
        exampleBakingScene_def TruncateFloat_def)
qed

lemma GenerateScene_fields:
  assumes "GenerateLightmapGeometryBakingScene eng chart settings renderPath = Inr generated"
  shows "LightmapGeometryBakingScene.index' (generatedScene generated) = LightmapChart.index' chart"
    and "LightmapGeometryBakingScene.width' (generatedScene generated) = LightmapChart.width' chart"
    and "LightmapGeometryBakingScene.height' (generatedScene generated) = LightmapChart.height' chart"
  using assms
  by (auto simp: GenerateLightmapGeometryBakingScene_def Let_def split: sum.splits prod.splits)

lemma GenerateScenesLoop_fields:
  assumes "GenerateScenesLoop eng settings renderPath charts = Inr result"
  shows "length result = length charts \<and>
         (\<forall>i < length charts.
            LightmapGeometryBakingScene.index' (generatedScene (result ! i)) = LightmapChart.index' (charts ! i) \<and>
            LightmapGeometryBakingScene.width' (generatedScene (result ! i)) = LightmapChart.width' (charts ! i) \<and>
            LightmapGeometryBakingScene.height' (generatedScene (result ! i)) = LightmapChart.height' (charts ! i))"
  using assms
proof (induction charts arbitrary: result)
  case Nil
  then show ?case by simp
next
  case (Cons chart charts)
  from Cons.prems obtain generated rest where
    g: "GenerateLightmapGeometryBakingScene eng chart settings renderPath = Inr generated" and
    r: "GenerateScenesLoop eng settings renderPath charts = Inr rest" and
    res: "result = generated # rest"
    by (auto split: sum.splits)
  from Cons.IH[OF r] GenerateScene_fields[OF g] show ?case
    by (auto simp: res nth_Cons split: nat.splits)
qed

lemma GenerateScenes_fields:
  assumes "LoadRenderPath eng (renderPathName' settings) = Some renderPath"
    and "GenerateLightmapGeometryBakingScenes eng charts settings = Inr batch"
  shows "length (batchScenes batch) = length charts \<and>
         (\<forall>i < length charts.
            LightmapGeometryBakingScene.index' (batchScenes batch ! i) = LightmapChart.index' (charts ! i) \<and>
            LightmapGeometryBakingScene.width' (batchScenes batch ! i) = LightmapChart.width' (charts ! i) \<and>
            LightmapGeometryBakingScene.height' (batchScenes batch ! i) = LightmapChart.height' (charts ! i))"
proof -
  from assms obtain result where
    loop: "GenerateScenesLoop eng settings renderPath charts = Inr result" and
    scenes: "batchScenes batch = map generatedScene result"
    by (auto simp: GenerateLightmapGeometryBakingScenes_def split: sum.splits)
  from GenerateScenesLoop_fields[OF loop] show ?thesis by (simp add: scenes)
qed

lemma StoredOver_length: "length stored \<le> n \<Longrightarrow> length (StoredOver stored n initial) = n"
  by (simp add: StoredOver_def)

lemma BakedBuffer_lengths:
  assumes "RenderOutputsFit eng k bakingScene"
  shows "length (geometryPositions' (BakedBuffer eng k bakingScene)) =
           width' (BakedBuffer eng k bakingScene) * height' (BakedBuffer eng k bakingScene)"
    and "length (smoothPositions' (BakedBuffer eng k bakingScene)) =
           width' (BakedBuffer eng k bakingScene) * height' (BakedBuffer eng k bakingScene)"
    and "length (faceNormals' (BakedBuffer eng k bakingScene)) =
           width' (BakedBuffer eng k bakingScene) * height' (BakedBuffer eng k bakingScene)"
    and "length (smoothNormals' (BakedBuffer eng k bakingScene)) =
           width' (BakedBuffer eng k bakingScene) * height' (BakedBuffer eng k bakingScene)"
    and "length (geometryIds' (BakedBuffer eng k bakingScene)) =
           width' (BakedBuffer eng k bakingScene) * height' (BakedBuffer eng k bakingScene)"
  using assms
  by (simp_all add: BakedBuffer_def Let_def RenderOutputsFit_def renderOutputNames_def StoredOver_length)

lemma BakedBuffer_fields:
  "index' (BakedBuffer eng k bakingScene) = LightmapGeometryBakingScene.index' bakingScene"
  "width' (BakedBuffer eng k bakingScene) = LightmapGeometryBakingScene.width' bakingScene"
  "height' (BakedBuffer eng k bakingScene) = LightmapGeometryBakingScene.height' bakingScene"
  by (simp_all add: BakedBuffer_def Let_def)

lemma ArraysSized_default: "ArraysSized DefaultGeometryBuffer"
  by (simp add: ArraysSized_def DefaultGeometryBuffer_def)

lemma ArraysSized_baked: "RenderOutputsFit eng k bakingScene \<Longrightarrow> ArraysSized (BakedBuffer eng k bakingScene)"
  unfolding ArraysSized_def by (intro conjI BakedBuffer_lengths)

section \<open>Geometry ids\<close>

lemma upt_9: "[0..<9] = [0, 1, 2, 3, 4, 5, 6, 7, 8]"
  by (simp add: upt_conv_Cons)

lemma FloatFromUnsigned_16777216: "FloatFromUnsigned 16777216 = 16777216"
  by (simp add: FloatFromUnsigned_def Let_def upt_9)

lemma FloatFromUnsigned_16777217: "FloatFromUnsigned 16777217 = 16777216"
  by (simp add: FloatFromUnsigned_def Let_def upt_9)

lemma FloatFromUnsigned_small:
  assumes "n \<le> 2 ^ 24"
  shows "FloatFromUnsigned (of_nat n) = of_nat n"
proof (cases "n = 2 ^ 24")
  case True
  then show ?thesis using FloatFromUnsigned_16777216 by simp
next
  case False
  with assms have n: "n < 2 ^ 24" by simp
  then have "n < 2 ^ 32" by (rule less_le_trans) simp
  then have u: "unat (of_nat n :: 32 word) = n" by (simp add: unsigned_of_nat take_bit_nat_eq_self)
  show ?thesis using FloatFromUnsigned_exact[of "of_nat n"] n by (simp add: u)
qed

lemma GeometryParameter_TapNode:
  "GeometryParameter (TapNode chart bakingMaterial node model scaleOffset geometryId tap) =
     Some (VariantFloat (FloatFromUnsigned geometryId))"
  by (simp add: GeometryParameter_def TapNode_explicit)

lemma scene_geometry_parameter:
  assumes defined: "SceneInputsDefined eng chart settings"
    and k: "k < length (MeshElements chart)"
    and tap: "tap < 25"
  shows "GeometryParameter (scene' (generatedScene (AssembledScene eng chart settings renderPath)) ! (k * 25 + tap)) =
         Some (VariantFloat (FloatFromUnsigned (of_nat (k + 1))))"
proof -
  have tap': "tap < numMultiTapSamples" using tap by (simp add: numMultiTapSamples_def)
  have one: "(1 :: 32 word) + of_nat k = of_nat (k + 1)" by simp
  from scene_nodes_of_chart[OF defined k, of 0] obtain material node staticModel where
    m: "GetMaterial eng (materialName' settings) = Some material" and
    n: "node' (MeshElements chart ! k) = Some node" and
    s: "staticModel' (MeshElements chart ! k) = Some staticModel"
    by blast
  show ?thesis
    using scene_nth[OF defined k tap' m n s]
    by (simp add: AssembledScene_def numMultiTapSamples_def GeometryParameter_TapNode one
        del: of_nat_Suc of_nat_add)
qed

lemma scene_geometry_parameter_index:
  assumes defined: "SceneInputsDefined eng chart settings"
    and j: "j < 25 * length (MeshElements chart)"
  shows "GeometryParameter (scene' (generatedScene (AssembledScene eng chart settings renderPath)) ! j) =
         Some (VariantFloat (FloatFromUnsigned (of_nat (j div 25 + 1))))"
proof -
  have k: "j div 25 < length (MeshElements chart)" using j by (simp add: less_mult_imp_div_less mult.commute)
  have tap: "j mod 25 < 25" by simp
  have "j = j div 25 * 25 + j mod 25" by simp
  with scene_geometry_parameter[OF defined k tap, of renderPath] show ?thesis by simp
qed

lemma transform_Inr:
  assumes "transform op xs dest = Inr r"
  shows "length xs \<le> length dest \<and> (\<forall>x \<in> set xs. \<exists>y. op x = Inr y)"
  using assms
proof (induction xs arbitrary: dest r)
  case Nil
  then show ?case by simp
next
  case (Cons x xs)
  then show ?case by (auto split: sum.splits list.splits)
qed

lemma ExtractUint_Inr:
  "ExtractUintFromVector4 data = Inr y \<Longrightarrow>
   0 \<le> TruncateFloat (v4_w data) \<and> TruncateFloat (v4_w data) < 2 ^ 32"
  by (auto simp: ExtractUintFromVector4_def split: if_splits)

lemma Bake_Inr_fit:
  assumes frame: "BeginFrame eng (frameNumber state)"
    and bake: "BakeLightmapGeometryBuffer eng state bakingScene = Inr r"
  shows "RenderOutputsFit eng (frameNumber state) bakingScene"
proof -
  let ?k = "frameNumber state"
  let ?n = "LightmapGeometryBakingScene.width' bakingScene * LightmapGeometryBakingScene.height' bakingScene"
  note exist = Bake_Inr_reads[OF frame bake]
  have names: "''position'' \<in> set renderOutputNames" "''smoothposition'' \<in> set renderOutputNames"
    "''facenormal'' \<in> set renderOutputNames" "''smoothnormal'' \<in> set renderOutputNames"
    by (simp_all add: renderOutputNames_def)
  note read = RenderOutputsExist_read[OF exist]
  from bake frame have
    t1: "\<exists>r. transform (\<lambda>data. Inr (ExtractVector3FromVector4 data)) (OutputData eng ?k bakingScene ''position'')
              (replicate ?n (Vector3 0 0 0)) = Inr r" and
    t2: "\<exists>r. transform ExtractUintFromVector4 (OutputData eng ?k bakingScene ''position'')
              (replicate ?n 0) = Inr r" and
    t3: "\<exists>r. transform (\<lambda>data. Inr (ExtractVector3FromVector4 data)) (OutputData eng ?k bakingScene ''smoothposition'')
              (replicate ?n (Vector3 0 0 0)) = Inr r" and
    t4: "\<exists>r. transform (\<lambda>data. Inr (ExtractVector3FromVector4 data)) (OutputData eng ?k bakingScene ''facenormal'')
              (replicate ?n (Vector3 0 0 0)) = Inr r" and
    t5: "\<exists>r. transform (\<lambda>data. Inr (ExtractVector3FromVector4 data)) (OutputData eng ?k bakingScene ''smoothnormal'')
              (replicate ?n (Vector3 0 0 0)) = Inr r"
    by (simp_all add: BakeLightmapGeometryBuffer_def Let_def MakeGeometryBuffer_def
        read[OF names(1)] read[OF names(2)] read[OF names(3)] read[OF names(4)] split: sum.splits)
  from t1 t3 t4 t5 have lens:
    "length (OutputData eng ?k bakingScene ''position'') \<le> ?n"
    "length (OutputData eng ?k bakingScene ''smoothposition'') \<le> ?n"
    "length (OutputData eng ?k bakingScene ''facenormal'') \<le> ?n"
    "length (OutputData eng ?k bakingScene ''smoothnormal'') \<le> ?n"
    using transform_Inr by fastforce+
  from t2 have "\<forall>data \<in> set (OutputData eng ?k bakingScene ''position'').
                  0 \<le> TruncateFloat (v4_w data) \<and> TruncateFloat (v4_w data) < 2 ^ 32"
    using transform_Inr[of ExtractUintFromVector4] ExtractUint_Inr by blast
  with lens show ?thesis
    by (simp add: RenderOutputsFit_def renderOutputNames_def list_all_iff)
qed

lemma Bake_Inr_buffer:
  assumes frame: "BeginFrame eng (frameNumber state)"
    and bake: "BakeLightmapGeometryBuffer eng state bakingScene = Inr (buffer, state')"
  shows "buffer = BakedBuffer eng (frameNumber state) bakingScene"
  using Bake_ok[OF frame Bake_Inr_reads[OF frame bake] Bake_Inr_fit[OF frame bake]] bake by simp

lemma StoredOver_set: "x \<in> set (StoredOver stored n initial) \<Longrightarrow> x \<in> set stored \<or> x = initial"
  by (auto simp: StoredOver_def)

lemma unat_of_nat_32: "n < 2 ^ 32 \<Longrightarrow> unat (of_nat n :: 32 word) = n"
  by (simp add: unsigned_of_nat take_bit_nat_eq_self)

lemma TruncateFloat_of_nat: "TruncateFloat (of_nat n) = int n"
  by (simp add: TruncateFloat_def)

lemma example_assembled_fields:
  "LightmapGeometryBakingScene.width' (generatedScene (AssembledScene eng exampleChart settings renderPath)) = 2"
  "LightmapGeometryBakingScene.height' (generatedScene (AssembledScene eng exampleChart settings renderPath)) = 2"
  by (simp_all add: AssembledScene_def exampleChart_def)

lemma bigChart_mesh_elements:
  "MeshElements bigChart = replicate 16777217 (exampleElement (Some 0) 0)"
  by (simp add: MeshElements_def bigChart_def example_element_fields)

lemma bigChart_defined: "SceneInputsDefined exampleEngine bigChart exampleSettings"
proof -
  have mat: "GetMaterial exampleEngine (materialName' exampleSettings) \<noteq> None"
    by (simp add: example_material)
  have nodes: "list_all (\<lambda>element. node' element \<noteq> None) (MeshElements bigChart)"
    by (simp add: bigChart_mesh_elements list_all_iff example_element_fields)
  have "\<forall>model \<in> set (UsedModels bigChart).
          case CollectModelSeams exampleEngine emptyTrace model (uvChannel' exampleSettings) of
            Inl e \<Rightarrow> False | Inr r \<Rightarrow> True"
    by (auto simp: UsedModels_set bigChart_mesh_elements ElementModel_def example_element_fields
        exampleSettings_def example_seams)
  then show ?thesis
    using mat nodes by (simp add: SceneInputsDefined_def list_all_iff)
qed


text \<open>The example chart with the renderer that writes numbers of its own into W.\<close>

lemma stray_fields:
  "ImportModel strayEngine = ImportModel exampleEngine"
  "GetMaterial strayEngine = GetMaterial exampleEngine"
  "BeginFrame strayEngine = BeginFrame exampleEngine"
  by (simp_all add: strayEngine_def)

lemma stray_scene_defined: "SceneInputsDefined strayEngine exampleChart exampleSettings"
proof -
  have import: "ImportModel strayEngine 0 = Some exampleView"
    by (simp add: stray_fields exampleEngine_def)
  have range: "list_all (\<lambda>lod. EdgesInRange (vertices' lod) 0 (GeometryEdges lod))
                 (concat (map lods' (geometries' exampleView)))"
    by (simp add: exampleView_def example_range)
  have a: "case CollectModelSeams strayEngine emptyTrace (Some 0) (uvChannel' exampleSettings) of
             Inl e \<Rightarrow> False | Inr r \<Rightarrow> True"
    by (simp add: exampleSettings_def CollectModelSeams_closed[OF import range])
  have none: "ImportModel strayEngine 1 = None"
    by (simp add: stray_fields exampleEngine_def)
  have b: "case CollectModelSeams strayEngine emptyTrace (Some 1) (uvChannel' exampleSettings) of
             Inl e \<Rightarrow> False | Inr r \<Rightarrow> True"
    using CollectModelSeams_failed_import[OF none, of emptyTrace "uvChannel' exampleSettings"] by simp
  have mat: "GetMaterial strayEngine (materialName' exampleSettings) \<noteq> None"
    by (simp add: stray_fields example_material)
  have nodes: "list_all (\<lambda>element. node' element \<noteq> None)
                 [exampleElement (Some 0) (1/4), exampleElement (Some 1) (1/2)]"
    by (simp add: exampleElement_def)
  show ?thesis
    unfolding SceneInputsDefined_def example_used_models example_mesh_elements
    using a b mat nodes by simp
qed

lemma stray_outputs_exist: "RenderOutputsExist strayEngine k bakingScene"
  by (simp add: RenderOutputsExist_def renderOutputNames_def strayEngine_def strayTexture_def)

lemma stray_output_data:
  "name \<in> set renderOutputNames \<Longrightarrow>
   OutputData strayEngine k bakingScene name =
     [Vector4 0 0 0 7, Vector4 (1/2) 0 0 (3/2), Vector4 1 (1/4) 0 0, Vector4 0 0 0 0]"
  by (auto simp: OutputData_def renderOutputNames_def strayEngine_def strayTexture_def)

lemma stray_outputs_fit:
  assumes "4 \<le> LightmapGeometryBakingScene.width' bakingScene * LightmapGeometryBakingScene.height' bakingScene"
  shows "RenderOutputsFit strayEngine k bakingScene"
proof -
  have pos: "''position'' \<in> set renderOutputNames" by (simp add: renderOutputNames_def)
  show ?thesis
    unfolding RenderOutputsFit_def stray_output_data[OF pos]
    using assms by (simp add: list_all_iff stray_output_data TruncateFloat_def)
qed

lemma stray_baked_ids:
  assumes "LightmapGeometryBakingScene.width' bakingScene = 2"
    and "LightmapGeometryBakingScene.height' bakingScene = 2"
  shows "BakeLightmapGeometryBuffer strayEngine exampleState bakingScene =
           Inr (BakedBuffer strayEngine 0 bakingScene, exampleState\<lparr> frameNumber := Suc 0 \<rparr>)"
    and "geometryIds' (BakedBuffer strayEngine 0 bakingScene) = [7, 1, 0, 0]"
proof -
  have frame: "BeginFrame strayEngine (frameNumber exampleState)"
    by (simp add: stray_fields exampleEngine_def exampleState_def)
  have fit: "RenderOutputsFit strayEngine (frameNumber exampleState) bakingScene"
    by (rule stray_outputs_fit) (simp add: assms)
  from Bake_ok[OF frame stray_outputs_exist fit]
  show "BakeLightmapGeometryBuffer strayEngine exampleState bakingScene =
           Inr (BakedBuffer strayEngine 0 bakingScene, exampleState\<lparr> frameNumber := Suc 0 \<rparr>)"
    by (simp add: exampleState_def)
  have pos: "''position'' \<in> set renderOutputNames" by (simp add: renderOutputNames_def)
  have floor: "\<lfloor>3 / 2 :: rat\<rfloor> = 1" by (rule floor_unique) simp_all
  show "geometryIds' (BakedBuffer strayEngine 0 bakingScene) = [7, 1, 0, 0]"
    by (simp add: BakedBuffer_def Let_def stray_output_data[OF pos] StoredOver_def assms
        TruncateFloat_def floor)
qed
section \<open>Claims about seam detection\<close>

text \<open>
  Claim C2. \<^verbatim>\<open>CollectModelSeams\<close>, for a model that imports and whose edges are in
  range, returns these seams and no other: LOD by LOD, edge by edge and, for an edge,
  candidate by candidate of its candidates buffer, one seam for the edge and the
  candidate when the candidate is not the edge itself and, once it is oriented (its
  endpoints are swapped when its first endpoint is within the position tolerance of the
  edge's second endpoint), both endpoint positions and both endpoint normals match within
  the squared tolerance, the UV endpoint pairs do not both match, and the two cross
  products of the edge's UV delta with the deltas to the candidate's UV endpoints do not
  both have a squared length below the squared tolerance. The seam holds the UV of the
  edge and the UV of the oriented candidate. No edge is visited twice and no candidate is
  twice in the buffer of an edge, so a seam is pushed at most once for an edge and a
  candidate. The call is recorded in the trace and logs nothing.
\<close>

theorem seam_pushed_iff_condition:
  assumes "ImportModel eng model = Some modelView"
    and "list_all (\<lambda>geometryLod.
             EdgesInRange (vertices' geometryLod) uvChannel (GeometryEdges geometryLod))
           (concat (map lods' (geometries' modelView)))"
  shows "CollectModelSeams eng trace (Some model) uvChannel =
           Inr (concat (map (\<lambda>geometryLod.
                  concat (map (\<lambda>edge.
                    concat (map (\<lambda>candidate.
                      if candidate \<noteq> edge \<and>
                         SpecSeamCondition eng (vertices' geometryLod) uvChannel edge
                           (SpecOrientedCandidate eng (vertices' geometryLod) edge candidate)
                      then [\<lparr> positions' =
                                (VertexUv (vertices' geometryLod) uvChannel (fst edge),
                                 VertexUv (vertices' geometryLod) uvChannel (snd edge)),
                              otherPositions' =
                                (VertexUv (vertices' geometryLod) uvChannel
                                   (fst (SpecOrientedCandidate eng (vertices' geometryLod) edge candidate)),
                                 VertexUv (vertices' geometryLod) uvChannel
                                   (snd (SpecOrientedCandidate eng (vertices' geometryLod) edge candidate))) \<rparr>]
                      else [])
                     (CandidatesBuffer eng (CalculateBoundingBox eng modelView) geometryLod edge)))
                   (GeometryEdges geometryLod)))
                 (concat (map lods' (geometries' modelView)))),
                trace\<lparr> traceCalls := traceCalls trace @ [Some model] \<rparr>) \<and>
         (\<forall>geometryLod edge.
            distinct (GeometryEdges geometryLod) \<and>
            distinct (CandidatesBuffer eng (CalculateBoundingBox eng modelView) geometryLod edge))"
proof (intro conjI allI)
  show "CollectModelSeams eng trace (Some model) uvChannel =
           Inr (concat (map (\<lambda>geometryLod.
                  concat (map (\<lambda>edge.
                    concat (map (\<lambda>candidate.
                      if candidate \<noteq> edge \<and>
                         SpecSeamCondition eng (vertices' geometryLod) uvChannel edge
                           (SpecOrientedCandidate eng (vertices' geometryLod) edge candidate)
                      then [\<lparr> positions' =
                                (VertexUv (vertices' geometryLod) uvChannel (fst edge),
                                 VertexUv (vertices' geometryLod) uvChannel (snd edge)),
                              otherPositions' =
                                (VertexUv (vertices' geometryLod) uvChannel
                                   (fst (SpecOrientedCandidate eng (vertices' geometryLod) edge candidate)),
                                 VertexUv (vertices' geometryLod) uvChannel
                                   (snd (SpecOrientedCandidate eng (vertices' geometryLod) edge candidate))) \<rparr>]
                      else [])
                     (CandidatesBuffer eng (CalculateBoundingBox eng modelView) geometryLod edge)))
                   (GeometryEdges geometryLod)))
                 (concat (map lods' (geometries' modelView)))),
                trace\<lparr> traceCalls := traceCalls trace @ [Some model] \<rparr>)"
    unfolding CollectModelSeams_closed[OF assms] PushedSeams_of_lod ..
next
  fix geometryLod :: GeometryLODView
  show "distinct (GeometryEdges geometryLod)" by (rule GeometryEdges_distinct)
next
  fix geometryLod :: GeometryLODView and edge :: OrderedIndexPair
  show "distinct (CandidatesBuffer eng (CalculateBoundingBox eng modelView) geometryLod edge)"
    by (rule CandidatesBuffer_distinct)
qed

theorem seam_pushed_iff_condition_witness:
  "ImportModel exampleEngine 0 = Some exampleView \<and>
   list_all (\<lambda>geometryLod. EdgesInRange (vertices' geometryLod) 0 (GeometryEdges geometryLod))
     (concat (map lods' (geometries' exampleView))) \<and>
   concat (map (\<lambda>edge.
     concat (map (\<lambda>candidate.
       if candidate \<noteq> edge \<and>
          SpecSeamCondition exampleEngine (vertices' exampleLod) 0 edge
            (SpecOrientedCandidate exampleEngine (vertices' exampleLod) edge candidate)
       then [\<lparr> positions' =
                 (VertexUv (vertices' exampleLod) 0 (fst edge), VertexUv (vertices' exampleLod) 0 (snd edge)),
               otherPositions' =
                 (VertexUv (vertices' exampleLod) 0
                    (fst (SpecOrientedCandidate exampleEngine (vertices' exampleLod) edge candidate)),
                  VertexUv (vertices' exampleLod) 0
                    (snd (SpecOrientedCandidate exampleEngine (vertices' exampleLod) edge candidate))) \<rparr>]
       else [])
      (CandidatesBuffer exampleEngine exampleBox exampleLod edge)))
    (GeometryEdges exampleLod)) =
   [\<lparr> positions' = (Vector2 0 0, Vector2 1 0), otherPositions' = (Vector2 0 3, Vector2 1 3) \<rparr>,
    \<lparr> positions' = (Vector2 0 3, Vector2 1 3), otherPositions' = (Vector2 0 0, Vector2 1 0) \<rparr>]"
proof -
  have import: "ImportModel exampleEngine 0 = Some exampleView"
    by (simp add: exampleEngine_def)
  have range: "list_all (\<lambda>geometryLod. EdgesInRange (vertices' geometryLod) 0 (GeometryEdges geometryLod))
                 (concat (map lods' (geometries' exampleView)))"
    by (simp add: exampleView_def example_range)
  have box: "CalculateBoundingBox exampleEngine exampleView = exampleBox"
    by (simp add: exampleEngine_def)
  from seam_pushed_iff_condition[OF import range, of emptyTrace]
  show ?thesis
    unfolding example_seams box using import range by (simp add: exampleView_def)
qed




section \<open>Claims about scene assembly\<close>

text \<open>
  Claim C7. For every chart element that carries a mesh, the scene assembler creates
  exactly 25 scene nodes with that mesh at the element's world position, rotation and
  scale, one for each tap; the node of a tap holds a clone of the baking material with
  the shader parameters \<^verbatim>\<open>LMOffset\<close> (the element's UV scale-offset plus the tap's
  offset, in texels, in the last two components), \<^verbatim>\<open>LightmapLayer\<close> (a depth that
  falls linearly from 1 at tap 0 to 0 at tap 24) and \<^verbatim>\<open>LightmapGeometry\<close> (the
  element's geometry id, as a float). The scene has no other nodes: the nodes of the
  \<open>k\<close>-th element that carries a mesh are the nodes \<open>25 k\<close> to \<open>25 k + 24\<close>.
\<close>

theorem scene_has_25_instances_per_element:
  assumes "SceneInputsDefined eng chart settings"
    and "GetMaterial eng (materialName' settings) = Some bakingMaterial"
  shows "\<exists>generated.
     GenerateLightmapGeometryBakingScene eng chart settings renderPath = Inr generated \<and>
     length (scene' (generatedScene generated)) = 25 * length (MeshElements chart) \<and>
     (\<forall>k < length (MeshElements chart). \<forall>tap < 25.
        \<exists>node staticModel.
          node' (MeshElements chart ! k) = Some node \<and>
          staticModel' (MeshElements chart ! k) = Some staticModel \<and>
          scene' (generatedScene generated) ! (k * 25 + tap) =
            \<lparr> position'' = GetWorldPosition node,
              rotation'' = GetWorldRotation node,
              scale'' = GetWorldScale node,
              model'' = GetModel staticModel,
              material'' = bakingMaterial\<lparr> shaderParameters := (shaderParameters bakingMaterial)
                (''LMOffset'' \<mapsto> VariantVector4
                    (Vector4_add (GetScaleOffset (region' (MeshElements chart ! k)))
                       (Vector4 0 0 (v2_x (multiTapOffsets ! tap) * v2_x (GetTexelSize chart))
                                    (v2_y (multiTapOffsets ! tap) * v2_y (GetTexelSize chart)))),
                 ''LightmapLayer'' \<mapsto> VariantFloat (1 - of_nat tap / 24),
                 ''LightmapGeometry'' \<mapsto> VariantFloat (FloatFromUnsigned (of_nat (k + 1)))) \<rparr> \<rparr>)"
proof -
  let ?nodes = "concat (map (\<lambda>k. ElementTapNodes chart (GetMaterial eng (materialName' settings))
                                (1 + of_nat k) (MeshElements chart ! k))
                       [0..<length (MeshElements chart)])"
  from GenerateScene_closed[OF assms(1), of renderPath] obtain generated where
    gen: "GenerateLightmapGeometryBakingScene eng chart settings renderPath = Inr generated" and
    nodes: "scene' (generatedScene generated) = ?nodes"
    by simp
  have len: "length (scene' (generatedScene generated)) = 25 * length (MeshElements chart)"
    unfolding nodes using scene_length[OF assms(1)] by (simp add: numMultiTapSamples_def)
  have each: "\<exists>node staticModel.
          node' (MeshElements chart ! k) = Some node \<and>
          staticModel' (MeshElements chart ! k) = Some staticModel \<and>
          scene' (generatedScene generated) ! (k * 25 + tap) =
            \<lparr> position'' = GetWorldPosition node,
              rotation'' = GetWorldRotation node,
              scale'' = GetWorldScale node,
              model'' = GetModel staticModel,
              material'' = bakingMaterial\<lparr> shaderParameters := (shaderParameters bakingMaterial)
                (''LMOffset'' \<mapsto> VariantVector4
                    (Vector4_add (GetScaleOffset (region' (MeshElements chart ! k)))
                       (Vector4 0 0 (v2_x (multiTapOffsets ! tap) * v2_x (GetTexelSize chart))
                                    (v2_y (multiTapOffsets ! tap) * v2_y (GetTexelSize chart)))),
                 ''LightmapLayer'' \<mapsto> VariantFloat (1 - of_nat tap / 24),
                 ''LightmapGeometry'' \<mapsto> VariantFloat (FloatFromUnsigned (of_nat (k + 1)))) \<rparr> \<rparr>"
    if k: "k < length (MeshElements chart)" and tap: "tap < 25" for k tap
  proof -
    from scene_nodes_of_chart[OF assms(1) k, of 0] obtain node staticModel where
      n: "node' (MeshElements chart ! k) = Some node" and
      s: "staticModel' (MeshElements chart ! k) = Some staticModel"
      by blast
    have tap': "tap < numMultiTapSamples" using tap by (simp add: numMultiTapSamples_def)
    have one: "(1 :: 32 word) + of_nat k = of_nat (k + 1)" by simp
    have "scene' (generatedScene generated) ! (k * 25 + tap) =
          TapNode chart bakingMaterial node (GetModel staticModel)
              (GetScaleOffset (region' (MeshElements chart ! k))) (of_nat (k + 1)) tap"
      unfolding nodes one[symmetric]
      using scene_nth[OF assms(1) k tap' assms(2) n s] by (simp add: numMultiTapSamples_def)
    then show ?thesis using n s by (simp only: TapNode_explicit) simp
  qed
  from gen len each show ?thesis by blast
qed


theorem scene_has_25_instances_per_element_witness:
  "\<exists>generated.
     GenerateLightmapGeometryBakingScene exampleEngine exampleChart exampleSettings exampleRenderPath =
       Inr generated \<and>
     length (scene' (generatedScene generated)) = 50 \<and>
     scene' (generatedScene generated) ! 49 =
       \<lparr> position'' = Vector3 1 2 3, rotation'' = Quaternion 1 0 0 0, scale'' = Vector3 1 1 1,
         model'' = Some 1,
         material'' = \<lparr> shaderParameters = Map.empty
            (''LMOffset'' \<mapsto> VariantVector4 (Vector4 (1/2) (1/2) (1/2) 0),
             ''LightmapLayer'' \<mapsto> VariantFloat 0,
             ''LightmapGeometry'' \<mapsto> VariantFloat 2) \<rparr> \<rparr>"
proof -
  from scene_has_25_instances_per_element[OF example_scene_defined example_material, of exampleRenderPath]
  obtain generated where
    gen: "GenerateLightmapGeometryBakingScene exampleEngine exampleChart exampleSettings exampleRenderPath =
            Inr generated" and
    len: "length (scene' (generatedScene generated)) = 25 * length (MeshElements exampleChart)" and
    each: "\<forall>k < length (MeshElements exampleChart). \<forall>tap < 25.
        \<exists>node staticModel.
          node' (MeshElements exampleChart ! k) = Some node \<and>
          staticModel' (MeshElements exampleChart ! k) = Some staticModel \<and>
          scene' (generatedScene generated) ! (k * 25 + tap) =
            \<lparr> position'' = GetWorldPosition node,
              rotation'' = GetWorldRotation node,
              scale'' = GetWorldScale node,
              model'' = GetModel staticModel,
              material'' = \<lparr> shaderParameters = Map.empty \<rparr>\<lparr> shaderParameters :=
                (shaderParameters \<lparr> shaderParameters = Map.empty \<rparr>)
                (''LMOffset'' \<mapsto> VariantVector4
                    (Vector4_add (GetScaleOffset (region' (MeshElements exampleChart ! k)))
                       (Vector4 0 0 (v2_x (multiTapOffsets ! tap) * v2_x (GetTexelSize exampleChart))
                                    (v2_y (multiTapOffsets ! tap) * v2_y (GetTexelSize exampleChart)))),
                 ''LightmapLayer'' \<mapsto> VariantFloat (1 - of_nat tap / 24),
                 ''LightmapGeometry'' \<mapsto> VariantFloat (FloatFromUnsigned (of_nat (k + 1)))) \<rparr> \<rparr>"
    by blast
  have tap: "multiTapOffsets ! 24 = Vector2 0 0" by (simp add: multiTapOffsets_def)
  have two: "FloatFromUnsigned 2 = 2"
    by (simp add: FloatFromUnsigned_exact)
  from each[rule_format, of 1 24]
  have "scene' (generatedScene generated) ! 49 =
       \<lparr> position'' = Vector3 1 2 3, rotation'' = Quaternion 1 0 0 0, scale'' = Vector3 1 1 1,
         model'' = Some 1,
         material'' = \<lparr> shaderParameters = Map.empty
            (''LMOffset'' \<mapsto> VariantVector4 (Vector4 (1/2) (1/2) (1/2) 0),
             ''LightmapLayer'' \<mapsto> VariantFloat 0,
             ''LightmapGeometry'' \<mapsto> VariantFloat 2) \<rparr> \<rparr>"
    unfolding example_mesh_elements
    by (simp add: example_element_fields exampleNode_def tap two Vector4_add_def)
  with gen len show ?thesis by (simp add: example_mesh_elements)
qed

text \<open>
  Claim C8. A transformed seam has the endpoints of the seam, multiplied by the scale
  component by component and moved by the offset, in \<^verbatim>\<open>positions_\<close> and in
  \<^verbatim>\<open>otherPositions_\<close>; and the seam list of a chart's baking scene is the
  concatenation, in chart-element order, of the seams that \<^verbatim>\<open>CollectModelSeams\<close>
  returned for the model of each element that carries a mesh, transformed by the scale
  and the offset of that element's region.
\<close>

theorem chart_seams_are_transformed_model_seams:
  assumes "SceneInputsDefined eng chart settings"
  shows "(\<forall>i \<in> {0, 1}.
            at2 (positions' (Transformed seam scale offset)) i = Vector2_add (Vector2_mul (at2 (positions' seam) i) scale) offset \<and>
            at2 (otherPositions' (Transformed seam scale offset)) i =
              Vector2_add (Vector2_mul (at2 (otherPositions' seam) i) scale) offset) \<and>
         (\<exists>generated.
            GenerateLightmapGeometryBakingScene eng chart settings renderPath = Inr generated \<and>
            seams' (generatedScene generated) =
              concat (map (\<lambda>element.
                        map (\<lambda>seam. Transformed seam (GetScale (region' element)) (GetOffset (region' element)))
                          (ModelSeams eng (uvChannel' settings) (ElementModel element)))
                      (MeshElements chart)) \<and>
            (\<forall>element \<in> set (MeshElements chart). \<forall>trace.
               \<exists>traced. CollectModelSeams eng trace (ElementModel element) (uvChannel' settings) =
                          Inr (ModelSeams eng (uvChannel' settings) (ElementModel element), traced)))"
proof (intro conjI)
  show "\<forall>i \<in> {0, 1}.
            at2 (positions' (Transformed seam scale offset)) i = Vector2_add (Vector2_mul (at2 (positions' seam) i) scale) offset \<and>
            at2 (otherPositions' (Transformed seam scale offset)) i =
              Vector2_add (Vector2_mul (at2 (otherPositions' seam) i) scale) offset"
    by (simp add: Transformed_def at2_def)
next
  from GenerateScene_closed[OF assms, of renderPath] obtain generated where
    gen: "GenerateLightmapGeometryBakingScene eng chart settings renderPath = Inr generated" and
    seams: "seams' (generatedScene generated) =
              concat (map (ElementSeams (ModelSeams eng (uvChannel' settings))) (MeshElements chart))"
    by simp
  have cached: "\<exists>traced. CollectModelSeams eng trace (ElementModel element) (uvChannel' settings) =
                          Inr (ModelSeams eng (uvChannel' settings) (ElementModel element), traced)"
    if "element \<in> set (MeshElements chart)" for element trace
  proof -
    from that have "ElementModel element \<in> set (UsedModels chart)" by (simp add: UsedModels_set)
    with assms have "case CollectModelSeams eng emptyTrace (ElementModel element) (uvChannel' settings) of
                       Inl e \<Rightarrow> False | Inr r \<Rightarrow> True"
      by (simp add: SceneInputsDefined_def list_all_iff)
    from CollectModelSeams_defined[OF this, of trace] show ?thesis by blast
  qed
  have "seams' (generatedScene generated) =
              concat (map (\<lambda>element.
                        map (\<lambda>seam. Transformed seam (GetScale (region' element)) (GetOffset (region' element)))
                          (ModelSeams eng (uvChannel' settings) (ElementModel element)))
                      (MeshElements chart))"
    unfolding seams by (simp add: ElementSeams_def[abs_def])
  with gen cached show "\<exists>generated.
            GenerateLightmapGeometryBakingScene eng chart settings renderPath = Inr generated \<and>
            seams' (generatedScene generated) =
              concat (map (\<lambda>element.
                        map (\<lambda>seam. Transformed seam (GetScale (region' element)) (GetOffset (region' element)))
                          (ModelSeams eng (uvChannel' settings) (ElementModel element)))
                      (MeshElements chart)) \<and>
            (\<forall>element \<in> set (MeshElements chart). \<forall>trace.
               \<exists>traced. CollectModelSeams eng trace (ElementModel element) (uvChannel' settings) =
                          Inr (ModelSeams eng (uvChannel' settings) (ElementModel element), traced))"
    by blast
qed

theorem chart_seams_are_transformed_model_seams_witness:
  "\<exists>generated.
     GenerateLightmapGeometryBakingScene exampleEngine exampleChart exampleSettings exampleRenderPath =
       Inr generated \<and>
     seams' (generatedScene generated) =
       [\<lparr> positions' = (Vector2 (1/4) 0, Vector2 (3/4) 0),
          otherPositions' = (Vector2 (1/4) (3/2), Vector2 (3/4) (3/2)) \<rparr>,
        \<lparr> positions' = (Vector2 (1/4) (3/2), Vector2 (3/4) (3/2)),
          otherPositions' = (Vector2 (1/4) 0, Vector2 (3/4) 0) \<rparr>]"
proof -
  from chart_seams_are_transformed_model_seams[OF example_scene_defined, of _ _ _ exampleRenderPath]
  obtain generated where
    gen: "GenerateLightmapGeometryBakingScene exampleEngine exampleChart exampleSettings exampleRenderPath =
            Inr generated" and
    seams: "seams' (generatedScene generated) =
              concat (map (\<lambda>element.
                        map (\<lambda>seam. Transformed seam (GetScale (region' element)) (GetOffset (region' element)))
                          (ModelSeams exampleEngine (uvChannel' exampleSettings) (ElementModel element)))
                      (MeshElements exampleChart))"
    by blast
  have m0: "ModelSeams exampleEngine 0 (Some 0) =
       [\<lparr> positions' = (Vector2 0 0, Vector2 1 0), otherPositions' = (Vector2 0 3, Vector2 1 3) \<rparr>,
        \<lparr> positions' = (Vector2 0 3, Vector2 1 3), otherPositions' = (Vector2 0 0, Vector2 1 0) \<rparr>]"
    by (rule example_model_seams)
  have m1: "ModelSeams exampleEngine 0 (Some (Suc 0)) = []"
    by (simp add: example_model_seams)
  have "seams' (generatedScene generated) =
       [\<lparr> positions' = (Vector2 (1/4) 0, Vector2 (3/4) 0),
          otherPositions' = (Vector2 (1/4) (3/2), Vector2 (3/4) (3/2)) \<rparr>,
        \<lparr> positions' = (Vector2 (1/4) (3/2), Vector2 (3/4) (3/2)),
          otherPositions' = (Vector2 (1/4) 0, Vector2 (3/4) 0) \<rparr>]"
    unfolding seams example_mesh_elements
    by (simp add: ElementModel_def example_element_fields exampleSettings_def m0 m1 Transformed_def
        Vector2_add_def Vector2_mul_def)
  with gen show ?thesis by blast
qed

text \<open>
  Claim C4, as amended. Within the assembly of one chart's scene, \<^verbatim>\<open>CollectModelSeams\<close>
  is called exactly once for every distinct mesh that an element of the chart refers to,
  and its result is cached by mesh identity and used for every element of that chart
  with that mesh. Across one call of \<^verbatim>\<open>GenerateLightmapGeometryBakingScenes\<close> this
  happens for every chart: the number of calls for a mesh, counted in the trace that
  \<^verbatim>\<open>CollectModelSeams\<close> extends every time it is entered, is the number of charts of
  the list with an element that refers to it, however many elements of a chart refer to
  it.
\<close>

theorem seam_detection_runs_once_per_chart_and_mesh:
  assumes "LoadRenderPath eng (renderPathName' settings) = Some renderPath"
    and "\<forall>chart \<in> set charts. SceneInputsDefined eng chart settings"
  shows "\<exists>batch.
     GenerateLightmapGeometryBakingScenes eng charts settings = Inr batch \<and>
     (\<forall>model. count_list (batchCalls batch) model =
        length (filter (\<lambda>chart. model \<in> ElementModel ` set (MeshElements chart)) charts)) \<and>
     length (batchScenes batch) = length charts \<and>
     (\<forall>i < length charts.
        seams' (batchScenes batch ! i) =
          concat (map (\<lambda>element.
                    map (\<lambda>seam. Transformed seam (GetScale (region' element)) (GetOffset (region' element)))
                      (ModelSeams eng (uvChannel' settings) (ElementModel element)))
                  (MeshElements (charts ! i))))"
proof -
  let ?batch = "\<lparr> batchScenes = map (\<lambda>chart. generatedScene (AssembledScene eng chart settings renderPath)) charts,
               batchLog = concat (map (\<lambda>chart. generatedLog (AssembledScene eng chart settings renderPath)) charts),
               batchCalls = concat (map UsedModels charts) \<rparr>"
  have gen: "GenerateLightmapGeometryBakingScenes eng charts settings = Inr ?batch"
    by (rule GenerateScenes_assembled[OF assms])
  have calls: "count_list (batchCalls ?batch) model =
        length (filter (\<lambda>chart. model \<in> ElementModel ` set (MeshElements chart)) charts)" for model
    by (simp add: count_list_concat_distinct UsedModels_distinct UsedModels_set)
  have seams: "seams' (batchScenes ?batch ! i) =
          concat (map (\<lambda>element.
                    map (\<lambda>seam. Transformed seam (GetScale (region' element)) (GetOffset (region' element)))
                      (ModelSeams eng (uvChannel' settings) (ElementModel element)))
                  (MeshElements (charts ! i)))" if "i < length charts" for i
    using that by (simp add: AssembledScene_def ElementSeams_def[abs_def])
  have len: "length (batchScenes ?batch) = length charts" by simp
  from gen calls len seams show ?thesis by blast
qed

text \<open>The witness is a batch of two charts; in the first, two elements refer to the model
  0, which is then collected once for that chart and once for the other, and whose two
  seams are in the first scene twice, once for each of the two elements.\<close>

theorem seam_detection_runs_once_per_chart_and_mesh_witness:
  "\<exists>batch.
     GenerateLightmapGeometryBakingScenes exampleEngine [sharedChart, exampleChart] exampleSettings =
       Inr batch \<and>
     count_list (batchCalls batch) (Some 0) = 2 \<and>
     count_list (batchCalls batch) (Some 1) = 2 \<and>
     count_list (batchCalls batch) (Some 5) = 0 \<and>
     seams' (batchScenes batch ! 0) =
       [\<lparr> positions' = (Vector2 0 0, Vector2 (1/2) 0),
          otherPositions' = (Vector2 0 (3/2), Vector2 (1/2) (3/2)) \<rparr>,
        \<lparr> positions' = (Vector2 0 (3/2), Vector2 (1/2) (3/2)),
          otherPositions' = (Vector2 0 0, Vector2 (1/2) 0) \<rparr>,
        \<lparr> positions' = (Vector2 (1/2) 0, Vector2 1 0),
          otherPositions' = (Vector2 (1/2) (3/2), Vector2 1 (3/2)) \<rparr>,
        \<lparr> positions' = (Vector2 (1/2) (3/2), Vector2 1 (3/2)),
          otherPositions' = (Vector2 (1/2) 0, Vector2 1 0) \<rparr>]"
proof -
  have all: "\<forall>chart \<in> set [sharedChart, exampleChart]. SceneInputsDefined exampleEngine chart exampleSettings"
    by (simp add: example_scene_defined shared_scene_defined)
  from seam_detection_runs_once_per_chart_and_mesh[OF example_render_path all] obtain batch where
    gen: "GenerateLightmapGeometryBakingScenes exampleEngine [sharedChart, exampleChart] exampleSettings =
            Inr batch" and
    calls: "\<forall>model. count_list (batchCalls batch) model =
        length (filter (\<lambda>chart. model \<in> ElementModel ` set (MeshElements chart))
                  [sharedChart, exampleChart])" and
    seams: "\<forall>i < length [sharedChart, exampleChart].
        seams' (batchScenes batch ! i) =
          concat (map (\<lambda>element.
                    map (\<lambda>seam. Transformed seam (GetScale (region' element)) (GetOffset (region' element)))
                      (ModelSeams exampleEngine (uvChannel' exampleSettings) (ElementModel element)))
                  (MeshElements ([sharedChart, exampleChart] ! i)))"
    by blast
  have "count_list (batchCalls batch) (Some 0) = 2" "count_list (batchCalls batch) (Some 1) = 2"
    "count_list (batchCalls batch) (Some 5) = 0"
    unfolding calls[rule_format]
    by (simp_all add: example_mesh_elements shared_mesh_elements ElementModel_def example_element_fields)
  moreover have "seams' (batchScenes batch ! 0) =
       [\<lparr> positions' = (Vector2 0 0, Vector2 (1/2) 0),
          otherPositions' = (Vector2 0 (3/2), Vector2 (1/2) (3/2)) \<rparr>,
        \<lparr> positions' = (Vector2 0 (3/2), Vector2 (1/2) (3/2)),
          otherPositions' = (Vector2 0 0, Vector2 (1/2) 0) \<rparr>,
        \<lparr> positions' = (Vector2 (1/2) 0, Vector2 1 0),
          otherPositions' = (Vector2 (1/2) (3/2), Vector2 1 (3/2)) \<rparr>,
        \<lparr> positions' = (Vector2 (1/2) (3/2), Vector2 1 (3/2)),
          otherPositions' = (Vector2 (1/2) 0, Vector2 1 0) \<rparr>]"
    using seams[rule_format, of 0]
    by (simp add: shared_mesh_elements ElementModel_def example_element_fields exampleSettings_def
        example_model_seams Transformed_def Vector2_add_def Vector2_mul_def)
  ultimately show ?thesis using gen by blast
qed

text \<open>
  Claim C4 as the specification states it promises one call for every distinct mesh of
  the whole batch. The cache is a local variable of
  \<^verbatim>\<open>GenerateLightmapGeometryBakingScene\<close>: for a batch of two charts that both refer to
  the models 0 and 1, \<^verbatim>\<open>CollectModelSeams\<close> is called twice for the model 0.
\<close>

theorem batch_collects_shared_mesh_twice_counterexample:
  "map_sum id (\<lambda>batch. count_list (batchCalls batch) (Some 0))
     (GenerateLightmapGeometryBakingScenes exampleEngine [exampleChart, exampleChart] exampleSettings) =
   Inr 2"
proof -
  have all: "\<forall>chart \<in> set [exampleChart, exampleChart]. SceneInputsDefined exampleEngine chart exampleSettings"
    by (simp add: example_scene_defined)
  show ?thesis
    unfolding GenerateScenes_assembled[OF example_render_path all]
    by (simp add: example_used_models)
qed

text \<open>
  Claim C5. When the render path named in the settings fails to load,
  \<^verbatim>\<open>GenerateLightmapGeometryBakingScenes\<close> returns an empty list of scenes whatever the
  charts are and logs one error, whose argument is the name of the render path; no scene
  is generated, so \<^verbatim>\<open>CollectModelSeams\<close> is not called and nothing of a chart is
  read.
\<close>

theorem render_path_failure_returns_no_scene:
  assumes "LoadRenderPath eng (renderPathName' settings) = None"
  shows "GenerateLightmapGeometryBakingScenes eng charts settings =
           Inr \<lparr> batchScenes = [],
                 batchLog = [LogError (''Failed to load render path '' @ [CHR 0x22] @ ''{}'' @ [CHR 0x22])
                               [renderPathName' settings]],
                 batchCalls = [] \<rparr>"
  using assms by (simp add: GenerateLightmapGeometryBakingScenes_def)

theorem render_path_failure_returns_no_scene_witness:
  "LoadRenderPath exampleEngine (renderPathName' (exampleSettings\<lparr> renderPathName' := ''RenderPaths/Missing.xml'' \<rparr>)) = None \<and>
   GenerateLightmapGeometryBakingScenes exampleEngine [exampleChart, exampleChart]
       (exampleSettings\<lparr> renderPathName' := ''RenderPaths/Missing.xml'' \<rparr>) =
     Inr \<lparr> batchScenes = [],
           batchLog = [LogError (''Failed to load render path '' @ [CHR 0x22] @ ''{}'' @ [CHR 0x22])
                         [''RenderPaths/Missing.xml'']],
           batchCalls = [] \<rparr>"
proof -
  have none: "LoadRenderPath exampleEngine
                (renderPathName' (exampleSettings\<lparr> renderPathName' := ''RenderPaths/Missing.xml'' \<rparr>)) = None"
    by (simp add: LoadRenderPath_def exampleEngine_def)
  from render_path_failure_returns_no_scene[OF none, of "[exampleChart, exampleChart]"] none
  show ?thesis by simp
qed

section \<open>Claims about geometry buffer baking\<close>

text \<open>
  Claim C6. When \<^verbatim>\<open>Graphics::BeginFrame\<close> fails, \<^verbatim>\<open>BakeLightmapGeometryBuffer\<close>
  logs the failure and returns the default (empty) geometry buffer; and
  \<^verbatim>\<open>BakeLightmapGeometryBuffers\<close> goes on: it returns one buffer for every scene of the
  list, in order, the default buffer for a scene whose frame failed and the baked buffer
  for every scene whose frame began, with one log entry for every failed frame. (The
  renderer is taken to deliver, in every frame that begins, the four outputs as 2-D
  textures that fit the buffer.)
\<close>

theorem failed_frame_gives_default_buffer_and_batch_continues:
  assumes renderer: "\<forall>i < length bakingScenes. BeginFrame eng (frameNumber state + i) \<longrightarrow>
             RenderOutputsExist eng (frameNumber state + i) (bakingScenes ! i) \<and>
             RenderOutputsFit eng (frameNumber state + i) (bakingScenes ! i)"
    and j: "j < length bakingScenes"
    and failed: "\<not> BeginFrame eng (frameNumber state + j)"
  shows "(\<forall>state0 bakingScene. \<not> BeginFrame eng (frameNumber state0) \<longrightarrow>
            BakeLightmapGeometryBuffer eng state0 bakingScene =
              Inr (DefaultGeometryBuffer,
                   state0\<lparr> bakerLog := bakerLog state0 @
                              [LogError (''Failed to begin lightmap geometry buffer rendering '' @
                                         [CHR 0x22] @ ''{}'' @ [CHR 0x22]) []],
                           frameNumber := Suc (frameNumber state0) \<rparr>)) \<and>
         (\<exists>buffers state'.
            BakeLightmapGeometryBuffers eng state bakingScenes = Inr (buffers, state') \<and>
            length buffers = length bakingScenes \<and>
            buffers ! j = DefaultGeometryBuffer \<and>
            (\<forall>i < length bakingScenes. BeginFrame eng (frameNumber state + i) \<longrightarrow>
               buffers ! i = BakedBuffer eng (frameNumber state + i) (bakingScenes ! i)) \<and>
            bakerLog state' = bakerLog state @
              concat (map (\<lambda>i. if BeginFrame eng (frameNumber state + i) then []
                              else [LogError (''Failed to begin lightmap geometry buffer rendering '' @
                                              [CHR 0x22] @ ''{}'' @ [CHR 0x22]) []])
                        [0..<length bakingScenes]))"
proof (intro conjI allI impI)
  fix state0 :: BakerState and bakingScene
  assume "\<not> BeginFrame eng (frameNumber state0)"
  then show "BakeLightmapGeometryBuffer eng state0 bakingScene =
              Inr (DefaultGeometryBuffer,
                   state0\<lparr> bakerLog := bakerLog state0 @
                              [LogError (''Failed to begin lightmap geometry buffer rendering '' @
                                         [CHR 0x22] @ ''{}'' @ [CHR 0x22]) []],
                           frameNumber := Suc (frameNumber state0) \<rparr>)"
    using Bake_frame_failed[of eng state0 bakingScene] by (simp add: FrameFailedEntry_def)
next
  define buffers where
    "buffers = map (\<lambda>i. if BeginFrame eng (frameNumber state + i)
                    then BakedBuffer eng (frameNumber state + i) (bakingScenes ! i)
                    else DefaultGeometryBuffer) [0..<length bakingScenes]"
  from BakeBuffers_closed[OF renderer] obtain state' where
    bake: "BakeLightmapGeometryBuffers eng state bakingScenes = Inr (buffers, state')" and
    log: "bakerLog state' = bakerLog state @
              concat (map (\<lambda>i. if BeginFrame eng (frameNumber state + i) then [] else [FrameFailedEntry])
                        [0..<length bakingScenes])"
    by (simp add: buffers_def)
  have len: "length buffers = length bakingScenes" by (simp add: buffers_def)
  have dflt: "buffers ! j = DefaultGeometryBuffer" using j failed by (simp add: buffers_def)
  have ok: "\<forall>i < length bakingScenes. BeginFrame eng (frameNumber state + i) \<longrightarrow>
               buffers ! i = BakedBuffer eng (frameNumber state + i) (bakingScenes ! i)"
    by (simp add: buffers_def)
  from bake len dflt ok log
  show "\<exists>buffers state'.
            BakeLightmapGeometryBuffers eng state bakingScenes = Inr (buffers, state') \<and>
            length buffers = length bakingScenes \<and>
            buffers ! j = DefaultGeometryBuffer \<and>
            (\<forall>i < length bakingScenes. BeginFrame eng (frameNumber state + i) \<longrightarrow>
               buffers ! i = BakedBuffer eng (frameNumber state + i) (bakingScenes ! i)) \<and>
            bakerLog state' = bakerLog state @
              concat (map (\<lambda>i. if BeginFrame eng (frameNumber state + i) then []
                              else [LogError (''Failed to begin lightmap geometry buffer rendering '' @
                                              [CHR 0x22] @ ''{}'' @ [CHR 0x22]) []])
                        [0..<length bakingScenes])"
    unfolding FrameFailedEntry_def by blast
qed

theorem failed_frame_gives_default_buffer_and_batch_continues_witness:
  "\<exists>buffers state'.
     BakeLightmapGeometryBuffers exampleEngine exampleState
         [exampleBakingScene, exampleBakingScene, exampleBakingScene] = Inr (buffers, state') \<and>
     length buffers = 3 \<and>
     buffers ! 1 = DefaultGeometryBuffer \<and>
     geometryIds' (buffers ! 2) = [0, 1, 2, 0] \<and>
     bakerLog state' =
       [LogError (''Failed to begin lightmap geometry buffer rendering '' @ [CHR 0x22] @ ''{}'' @ [CHR 0x22]) []]"
proof -
  let ?scenes = "[exampleBakingScene, exampleBakingScene, exampleBakingScene]"
  have fit: "RenderOutputsFit exampleEngine k exampleBakingScene" for k
    by (rule example_outputs_fit) (simp add: exampleBakingScene_def)
  have renderer: "\<forall>i < length ?scenes. BeginFrame exampleEngine (frameNumber exampleState + i) \<longrightarrow>
             RenderOutputsExist exampleEngine (frameNumber exampleState + i) (?scenes ! i) \<and>
             RenderOutputsFit exampleEngine (frameNumber exampleState + i) (?scenes ! i)"
    by (auto simp: example_outputs_exist fit nth_Cons split: nat.splits)
  have j: "1 < length ?scenes" by simp
  have failed: "\<not> BeginFrame exampleEngine (frameNumber exampleState + 1)"
    by (simp add: exampleEngine_def exampleState_def)
  from failed_frame_gives_default_buffer_and_batch_continues[OF renderer j failed]
  obtain buffers state' where
    bake: "BakeLightmapGeometryBuffers exampleEngine exampleState ?scenes = Inr (buffers, state')" and
    len: "length buffers = length ?scenes" and
    dflt: "buffers ! 1 = DefaultGeometryBuffer" and
    ok: "\<forall>i < length ?scenes. BeginFrame exampleEngine (frameNumber exampleState + i) \<longrightarrow>
               buffers ! i = BakedBuffer exampleEngine (frameNumber exampleState + i) (?scenes ! i)" and
    log: "bakerLog state' = bakerLog exampleState @
              concat (map (\<lambda>i. if BeginFrame exampleEngine (frameNumber exampleState + i) then []
                              else [LogError (''Failed to begin lightmap geometry buffer rendering '' @
                                              [CHR 0x22] @ ''{}'' @ [CHR 0x22]) []])
                        [0..<length ?scenes])"
    by blast
  have frame2: "BeginFrame exampleEngine (frameNumber exampleState + 2)"
    by (simp add: exampleEngine_def exampleState_def)
  from ok[rule_format, of 2] frame2 have "geometryIds' (buffers ! 2) = [0, 1, 2, 0]"
    by (simp add: example_baked_ids)
  moreover have "bakerLog state' =
       [LogError (''Failed to begin lightmap geometry buffer rendering '' @ [CHR 0x22] @ ''{}'' @ [CHR 0x22]) []]"
    unfolding log by (simp add: exampleState_def exampleEngine_def upt_conv_Cons)
  ultimately show ?thesis using bake len dflt by simp
qed

text \<open>
  Claim C9. With a render path that loads, the pipeline of
  \<^verbatim>\<open>GenerateLightmapGeometryBakingScenes\<close> and \<^verbatim>\<open>BakeLightmapGeometryBuffers\<close>
  produces exactly one geometry buffer for every chart, in chart order (the buffer of a
  frame that began carries the index, width and height of its chart), and in every
  buffer each of the five per-texel arrays has width times height entries. (The renderer
  is taken to deliver, in every frame that begins, the four outputs as 2-D textures that
  fit the buffer.)
\<close>

theorem one_buffer_per_chart_with_sized_arrays:
  assumes rp: "LoadRenderPath eng (renderPathName' settings) = Some renderPath"
    and gen: "GenerateLightmapGeometryBakingScenes eng charts settings = Inr batch"
    and renderer: "\<forall>i < length (batchScenes batch). BeginFrame eng (frameNumber state + i) \<longrightarrow>
             RenderOutputsExist eng (frameNumber state + i) (batchScenes batch ! i) \<and>
             RenderOutputsFit eng (frameNumber state + i) (batchScenes batch ! i)"
  shows "\<exists>buffers state'.
     BakeLightmapGeometryBuffers eng state (batchScenes batch) = Inr (buffers, state') \<and>
     length buffers = length charts \<and>
     (\<forall>i < length charts. BeginFrame eng (frameNumber state + i) \<longrightarrow>
        index' (buffers ! i) = LightmapChart.index' (charts ! i) \<and>
        width' (buffers ! i) = LightmapChart.width' (charts ! i) \<and>
        height' (buffers ! i) = LightmapChart.height' (charts ! i)) \<and>
     (\<forall>buffer \<in> set buffers.
        length (geometryPositions' buffer) = width' buffer * height' buffer \<and>
        length (smoothPositions' buffer) = width' buffer * height' buffer \<and>
        length (faceNormals' buffer) = width' buffer * height' buffer \<and>
        length (smoothNormals' buffer) = width' buffer * height' buffer \<and>
        length (geometryIds' buffer) = width' buffer * height' buffer)"
proof -
  define scenes where "scenes = batchScenes batch"
  define buffers where
    "buffers = map (\<lambda>i. if BeginFrame eng (frameNumber state + i)
                    then BakedBuffer eng (frameNumber state + i) (scenes ! i)
                    else DefaultGeometryBuffer) [0..<length scenes]"
  note fields = GenerateScenes_fields[OF rp gen, folded scenes_def]
  have renderer': "\<forall>i < length scenes. BeginFrame eng (frameNumber state + i) \<longrightarrow>
             RenderOutputsExist eng (frameNumber state + i) (scenes ! i) \<and>
             RenderOutputsFit eng (frameNumber state + i) (scenes ! i)"
    using renderer by (simp add: scenes_def)
  from BakeBuffers_closed[OF renderer'] obtain state' where
    bake: "BakeLightmapGeometryBuffers eng state scenes = Inr (buffers, state')"
    by (simp add: buffers_def)
  have len: "length buffers = length charts"
    using fields by (simp add: buffers_def)
  have ids: "index' (buffers ! i) = LightmapChart.index' (charts ! i) \<and>
        width' (buffers ! i) = LightmapChart.width' (charts ! i) \<and>
        height' (buffers ! i) = LightmapChart.height' (charts ! i)"
    if "i < length charts" "BeginFrame eng (frameNumber state + i)" for i
    using that fields by (simp add: buffers_def BakedBuffer_fields)
  have sized: "ArraysSized buffer" if "buffer \<in> set buffers" for buffer
  proof -
    from that obtain i where i: "i < length scenes" and
      b: "buffer = (if BeginFrame eng (frameNumber state + i)
                    then BakedBuffer eng (frameNumber state + i) (scenes ! i)
                    else DefaultGeometryBuffer)"
      by (auto simp: buffers_def)
    show ?thesis
      using renderer' i by (auto simp: b ArraysSized_default ArraysSized_baked)
  qed
  from bake len ids sized show ?thesis
    unfolding scenes_def ArraysSized_def by blast
qed

theorem one_buffer_per_chart_with_sized_arrays_witness:
  "\<exists>batch buffers state'.
     GenerateLightmapGeometryBakingScenes exampleEngine [exampleChart, exampleChart] exampleSettings =
       Inr batch \<and>
     BakeLightmapGeometryBuffers exampleEngine exampleState (batchScenes batch) = Inr (buffers, state') \<and>
     length buffers = 2 \<and>
     index' (buffers ! 0) = 7 \<and> width' (buffers ! 0) = 2 \<and> height' (buffers ! 0) = 2 \<and>
     length (geometryIds' (buffers ! 0)) = 4 \<and> length (smoothNormals' (buffers ! 0)) = 4"
proof -
  have all: "\<forall>chart \<in> set [exampleChart, exampleChart]. SceneInputsDefined exampleEngine chart exampleSettings"
    by (simp add: example_scene_defined)
  from GenerateScenes_assembled[OF example_render_path all] obtain batch where
    gen: "GenerateLightmapGeometryBakingScenes exampleEngine [exampleChart, exampleChart] exampleSettings =
            Inr batch"
    by blast
  note fields = GenerateScenes_fields[OF example_render_path gen]
  have renderer: "\<forall>i < length (batchScenes batch). BeginFrame exampleEngine (frameNumber exampleState + i) \<longrightarrow>
             RenderOutputsExist exampleEngine (frameNumber exampleState + i) (batchScenes batch ! i) \<and>
             RenderOutputsFit exampleEngine (frameNumber exampleState + i) (batchScenes batch ! i)"
  proof (intro allI impI)
    fix i assume "i < length (batchScenes batch)"
    with fields have "4 \<le> LightmapGeometryBakingScene.width' (batchScenes batch ! i) *
                          LightmapGeometryBakingScene.height' (batchScenes batch ! i)"
      by (auto simp: example_chart_fields nth_Cons split: nat.splits)
    then show "RenderOutputsExist exampleEngine (frameNumber exampleState + i) (batchScenes batch ! i) \<and>
             RenderOutputsFit exampleEngine (frameNumber exampleState + i) (batchScenes batch ! i)"
      by (simp add: example_outputs_exist example_outputs_fit)
  qed
  from one_buffer_per_chart_with_sized_arrays[OF example_render_path gen renderer]
  obtain buffers state' where
    bake: "BakeLightmapGeometryBuffers exampleEngine exampleState (batchScenes batch) = Inr (buffers, state')" and
    len: "length buffers = length [exampleChart, exampleChart]" and
    ids: "\<forall>i < length [exampleChart, exampleChart]. BeginFrame exampleEngine (frameNumber exampleState + i) \<longrightarrow>
        index' (buffers ! i) = LightmapChart.index' ([exampleChart, exampleChart] ! i) \<and>
        width' (buffers ! i) = LightmapChart.width' ([exampleChart, exampleChart] ! i) \<and>
        height' (buffers ! i) = LightmapChart.height' ([exampleChart, exampleChart] ! i)" and
    sized: "\<forall>buffer \<in> set buffers.
        length (geometryPositions' buffer) = width' buffer * height' buffer \<and>
        length (smoothPositions' buffer) = width' buffer * height' buffer \<and>
        length (faceNormals' buffer) = width' buffer * height' buffer \<and>
        length (smoothNormals' buffer) = width' buffer * height' buffer \<and>
        length (geometryIds' buffer) = width' buffer * height' buffer"
    by blast
  have frame0: "BeginFrame exampleEngine (frameNumber exampleState + 0)"
    by (simp add: exampleEngine_def exampleState_def)
  from ids[rule_format, of 0] frame0 have
    f0: "index' (buffers ! 0) = 7" "width' (buffers ! 0) = 2" "height' (buffers ! 0) = 2"
    by (simp_all add: example_chart_fields)
  from len have "buffers ! 0 \<in> set buffers" by simp
  with sized f0 have "length (geometryIds' (buffers ! 0)) = 4" "length (smoothNormals' (buffers ! 0)) = 4"
    by simp_all
  with gen bake len f0 show ?thesis by simp
qed

section \<open>Claims about geometry ids\<close>

text \<open>
  Claim C1, as amended. For a chart with at most \<open>2^24\<close> elements that carry a mesh, its
  baking scene and a geometry buffer baked from it in a frame that begins: the \<open>k\<close>-th
  element that carries a mesh (counted from 0 in chart order; elements without a mesh are
  skipped and take no id) has the geometry id \<open>k + 1\<close>, which all 25 of its tap instances
  carry in \<^verbatim>\<open>LightmapGeometry\<close> and no other node does; the geometry ids of the buffer
  are the W components of the texels of the "position" output, truncated to unsigned
  integers (entries behind the last texel keep the initial 0). What W holds is written by
  the renderer, which is not part of the code: a texel whose W is 0 gets the id 0, and a
  texel whose W is the \<^verbatim>\<open>LightmapGeometry\<close> of a node of the scene gets the id of
  exactly one chart element, the element of that node. For any other W the id is the
  truncated W and need not be the id of an element.
\<close>

theorem geometry_ids_identify_elements:
  assumes defined: "SceneInputsDefined eng chart settings"
    and bound: "length (MeshElements chart) \<le> 2 ^ 24"
    and gen: "GenerateLightmapGeometryBakingScene eng chart settings renderPath = Inr generated"
    and frame: "BeginFrame eng (frameNumber state)"
    and bake: "BakeLightmapGeometryBuffer eng state (generatedScene generated) = Inr (buffer, state')"
  shows "length (scene' (generatedScene generated)) = 25 * length (MeshElements chart) \<and>
         (\<forall>k < length (MeshElements chart). \<forall>tap < 25.
            GeometryParameter (scene' (generatedScene generated) ! (k * 25 + tap)) =
              Some (VariantFloat (of_nat (k + 1)))) \<and>
         (\<forall>j < length (scene' (generatedScene generated)). \<forall>k.
            GeometryParameter (scene' (generatedScene generated) ! j) = Some (VariantFloat (of_nat (k + 1)))
              \<longleftrightarrow> j div 25 = k) \<and>
         geometryIds' buffer =
           map (\<lambda>data. word_of_int (TruncateFloat (v4_w data)))
             (OutputData eng (frameNumber state) (generatedScene generated) ''position'') @
           replicate (width' buffer * height' buffer -
                      length (OutputData eng (frameNumber state) (generatedScene generated) ''position'')) 0 \<and>
         (\<forall>texel < length (OutputData eng (frameNumber state) (generatedScene generated) ''position'').
            (v4_w (OutputData eng (frameNumber state) (generatedScene generated) ''position'' ! texel) = 0 \<longrightarrow>
               geometryIds' buffer ! texel = 0) \<and>
            (\<forall>node \<in> set (scene' (generatedScene generated)).
               GeometryParameter node =
                 Some (VariantFloat
                   (v4_w (OutputData eng (frameNumber state) (generatedScene generated) ''position'' ! texel))) \<longrightarrow>
               (\<exists>k < length (MeshElements chart).
                  geometryIds' buffer ! texel = of_nat (k + 1) \<and>
                  unat (geometryIds' buffer ! texel) = k + 1 \<and>
                  (\<forall>j < length (scene' (generatedScene generated)).
                     scene' (generatedScene generated) ! j = node \<longrightarrow> j div 25 = k))))"
proof -
  define N where "N = length (MeshElements chart)"
  define nodes where "nodes = scene' (generatedScene generated)"
  define data where "data = OutputData eng (frameNumber state) (generatedScene generated) ''position''"
  have assembled: "generated = AssembledScene eng chart settings renderPath"
    using gen GenerateScene_assembled[OF defined, of renderPath] by simp
  have len: "length nodes = 25 * N"
    unfolding nodes_def N_def assembled
    using scene_length[OF defined] by (simp add: AssembledScene_def numMultiTapSamples_def)
  have param: "GeometryParameter (nodes ! j) = Some (VariantFloat (of_nat (j div 25 + 1)))"
    if "j < 25 * N" for j
  proof -
    have "j div 25 < N" using that by (simp add: less_mult_imp_div_less mult.commute)
    then have "j div 25 + 1 \<le> 2 ^ 24" using bound by (simp add: N_def)
    then have "FloatFromUnsigned (of_nat (j div 25 + 1)) = of_nat (j div 25 + 1)"
      by (rule FloatFromUnsigned_small)
    with scene_geometry_parameter_index[OF defined that[unfolded N_def], of renderPath]
    show ?thesis by (simp add: nodes_def assembled)
  qed
  have taps: "GeometryParameter (nodes ! (k * 25 + tap)) = Some (VariantFloat (of_nat (k + 1)))"
    if "k < N" "tap < 25" for k tap
  proof -
    have "k * 25 + tap < Suc k * 25" using that(2) by simp
    also have "\<dots> \<le> N * 25" using that(1) by (intro mult_le_mono1) simp
    finally have "k * 25 + tap < 25 * N" by (simp add: mult.commute)
    from param[OF this] that(2) show ?thesis by simp
  qed
  have only: "GeometryParameter (nodes ! j) = Some (VariantFloat (of_nat (k + 1))) \<longleftrightarrow> j div 25 = k"
    if "j < length nodes" for j k
  proof -
    from that len have "j < 25 * N" by simp
    from param[OF this] show ?thesis by simp
  qed
  have buffer: "buffer = BakedBuffer eng (frameNumber state) (generatedScene generated)"
    by (rule Bake_Inr_buffer[OF frame bake])
  have ids: "geometryIds' buffer =
           map (\<lambda>data. word_of_int (TruncateFloat (v4_w data))) data @
           replicate (width' buffer * height' buffer - length data) 0"
    unfolding buffer data_def by (simp add: BakedBuffer_def Let_def StoredOver_def)
  have decoded: "geometryIds' buffer ! texel = word_of_int (TruncateFloat (v4_w (data ! texel)))"
    if "texel < length data" for texel
    unfolding ids using that by (simp add: nth_append)
  have zero: "geometryIds' buffer ! texel = 0"
    if "texel < length data" "v4_w (data ! texel) = 0" for texel
    using decoded[OF that(1)] that(2) by (simp add: TruncateFloat_def)
  have each: "\<exists>k < N. geometryIds' buffer ! texel = of_nat (k + 1) \<and>
                unat (geometryIds' buffer ! texel) = k + 1 \<and>
                (\<forall>j < length nodes. nodes ! j = node \<longrightarrow> j div 25 = k)"
    if t: "texel < length data" and n: "node \<in> set nodes"
      and w: "GeometryParameter node = Some (VariantFloat (v4_w (data ! texel)))" for texel node
  proof -
    from n obtain i where i: "i < length nodes" "node = nodes ! i"
      by (auto simp: in_set_conv_nth)
    let ?k = "i div 25"
    have i': "i < 25 * N" using i(1) len by simp
    then have k: "?k < N" by (simp add: less_mult_imp_div_less mult.commute)
    from param[OF i'] w i(2) have wk: "v4_w (data ! texel) = of_nat (?k + 1)" by simp
    have gid: "geometryIds' buffer ! texel = of_nat (?k + 1)"
      unfolding decoded[OF t] wk TruncateFloat_of_nat by simp
    have "?k + 1 < 2 ^ 32"
      using k bound unfolding N_def by (intro le_less_trans[of "?k + 1" "2 ^ 24"]) simp_all
    then have u: "unat (geometryIds' buffer ! texel) = ?k + 1"
      unfolding gid by (rule unat_of_nat_32)
    have "j div 25 = ?k" if "j < length nodes" "nodes ! j = node" for j
    proof -
      from that len have "j < 25 * N" by simp
      from param[OF this] that(2) w wk show ?thesis by simp
    qed
    with k gid u show ?thesis by blast
  qed
  from len taps only ids zero each show ?thesis
    unfolding N_def nodes_def data_def by blast
qed

theorem geometry_ids_identify_elements_witness:
  "\<exists>generated buffer state'.
     GenerateLightmapGeometryBakingScene exampleEngine exampleChart exampleSettings exampleRenderPath =
       Inr generated \<and>
     BakeLightmapGeometryBuffer exampleEngine exampleState (generatedScene generated) = Inr (buffer, state') \<and>
     length (scene' (generatedScene generated)) = 50 \<and>
     GeometryParameter (scene' (generatedScene generated) ! 49) = Some (VariantFloat 2) \<and>
     geometryIds' buffer = [0, 1, 2, 0]"
proof -
  define generated where "generated = AssembledScene exampleEngine exampleChart exampleSettings exampleRenderPath"
  define buffer where "buffer = BakedBuffer exampleEngine (frameNumber exampleState) (generatedScene generated)"
  have gen: "GenerateLightmapGeometryBakingScene exampleEngine exampleChart exampleSettings exampleRenderPath =
               Inr generated"
    unfolding generated_def by (rule GenerateScene_assembled[OF example_scene_defined])
  have bound: "length (MeshElements exampleChart) \<le> 2 ^ 24"
    by (simp add: example_mesh_elements)
  have frame: "BeginFrame exampleEngine (frameNumber exampleState)"
    by (simp add: exampleEngine_def exampleState_def)
  have fit: "RenderOutputsFit exampleEngine (frameNumber exampleState) (generatedScene generated)"
    by (rule example_outputs_fit) (simp add: generated_def example_assembled_fields)
  have bake: "BakeLightmapGeometryBuffer exampleEngine exampleState (generatedScene generated) =
                Inr (buffer, exampleState\<lparr> frameNumber := Suc (frameNumber exampleState) \<rparr>)"
    unfolding buffer_def by (rule Bake_ok[OF frame example_outputs_exist fit])
  have pos: "''position'' \<in> set renderOutputNames" by (simp add: renderOutputNames_def)
  from geometry_ids_identify_elements[OF example_scene_defined bound gen frame bake]
  have len: "length (scene' (generatedScene generated)) = 25 * length (MeshElements exampleChart)"
    and taps: "\<forall>k < length (MeshElements exampleChart). \<forall>tap < 25.
            GeometryParameter (scene' (generatedScene generated) ! (k * 25 + tap)) =
              Some (VariantFloat (of_nat (k + 1)))"
    and ids: "geometryIds' buffer =
           map (\<lambda>data. word_of_int (TruncateFloat (v4_w data)))
             (OutputData exampleEngine (frameNumber exampleState) (generatedScene generated) ''position'') @
           replicate (width' buffer * height' buffer -
                      length (OutputData exampleEngine (frameNumber exampleState) (generatedScene generated) ''position'')) 0"
    by blast+
  from taps[rule_format, of 1 24]
  have p49: "GeometryParameter (scene' (generatedScene generated) ! 49) = Some (VariantFloat 2)"
    by (simp add: example_mesh_elements)
  have "geometryIds' buffer = [0, 1, 2, 0]"
    unfolding ids example_output_data[OF pos]
    by (simp add: TruncateFloat_def buffer_def BakedBuffer_fields generated_def example_assembled_fields)
  with gen bake len p49 show ?thesis by (simp add: example_mesh_elements)
qed

text \<open>
  Claim C1 as the specification states it has no bound on the chart and no condition on
  the renderer. The id reaches the shader through \<^verbatim>\<open>static_cast<float>(geometryId)\<close>,
  and a float has 24 significant bits: in a chart of \<open>2^24 + 1\<close> elements with a mesh, the
  element with the id \<open>16777216\<close> and the element with the id \<open>16777217\<close> give their
  instances the same \<^verbatim>\<open>LightmapGeometry\<close>, \<open>16777216\<close>, so this id of a buffer does not
  identify one element. And the ids of a buffer are whatever the "position" output holds
  in W: for the chart of two elements with a mesh and a renderer that delivers the W
  values 7, 3/2, 0 and 0, the buffer has the ids 7, which is the id of no element, and 1,
  which no instance wrote.
\<close>

theorem two_elements_share_a_geometry_id_counterexample:
  "map_sum id
     (\<lambda>generated. (GeometryParameter (scene' (generatedScene generated) ! (16777215 * 25)),
                   GeometryParameter (scene' (generatedScene generated) ! (16777216 * 25))))
     (GenerateLightmapGeometryBakingScene exampleEngine bigChart exampleSettings exampleRenderPath) =
   Inr (Some (VariantFloat 16777216), Some (VariantFloat 16777216)) \<and>
   (case GenerateLightmapGeometryBakingScene strayEngine exampleChart exampleSettings exampleRenderPath of
      Inl e \<Rightarrow> Inl e
    | Inr generated \<Rightarrow>
        map_sum id (\<lambda>baked. (length (MeshElements exampleChart), geometryIds' (fst baked)))
          (BakeLightmapGeometryBuffer strayEngine exampleState (generatedScene generated))) =
   Inr (2, [7, 1, 0, 0])"
proof -
  have k1: "16777215 < length (MeshElements bigChart)" and k2: "16777216 < length (MeshElements bigChart)"
    by (simp_all add: bigChart_mesh_elements)
  have w1: "(of_nat (16777215 + 1) :: 32 word) = 16777216" and w2: "(of_nat (16777216 + 1) :: 32 word) = 16777217"
    by simp_all
  have p1: "GeometryParameter (scene' (generatedScene
              (AssembledScene exampleEngine bigChart exampleSettings exampleRenderPath)) ! (16777215 * 25)) =
            Some (VariantFloat 16777216)"
    using scene_geometry_parameter[OF bigChart_defined k1, of 0 exampleRenderPath]
    unfolding w1 FloatFromUnsigned_16777216 by simp
  have p2: "GeometryParameter (scene' (generatedScene
              (AssembledScene exampleEngine bigChart exampleSettings exampleRenderPath)) ! (16777216 * 25)) =
            Some (VariantFloat 16777216)"
    using scene_geometry_parameter[OF bigChart_defined k2, of 0 exampleRenderPath]
    unfolding w2 FloatFromUnsigned_16777217 by simp
  have big: "map_sum id
     (\<lambda>generated. (GeometryParameter (scene' (generatedScene generated) ! (16777215 * 25)),
                   GeometryParameter (scene' (generatedScene generated) ! (16777216 * 25))))
     (GenerateLightmapGeometryBakingScene exampleEngine bigChart exampleSettings exampleRenderPath) =
   Inr (Some (VariantFloat 16777216), Some (VariantFloat 16777216))"
    unfolding GenerateScene_assembled[OF bigChart_defined] using p1 p2 by simp
  have stray: "(case GenerateLightmapGeometryBakingScene strayEngine exampleChart exampleSettings exampleRenderPath of
      Inl e \<Rightarrow> Inl e
    | Inr generated \<Rightarrow>
        map_sum id (\<lambda>baked. (length (MeshElements exampleChart), geometryIds' (fst baked)))
          (BakeLightmapGeometryBuffer strayEngine exampleState (generatedScene generated))) =
   Inr (2, [7, 1, 0, 0])"
    unfolding GenerateScene_assembled[OF stray_scene_defined]
    by (simp add: stray_baked_ids example_assembled_fields example_mesh_elements)
  from big stray show ?thesis by (rule conjI)
qed

text \<open>
  Claim C10. \<^verbatim>\<open>ReadTextureRGBA32Float\<close> dereferences the texture it is given and the
  result of its dynamic cast to \<^verbatim>\<open>Texture2D\<close> without a check: it is undefined exactly
  for a null texture and for a texture of another type. So, in a frame that begins,
  \<^verbatim>\<open>BakeLightmapGeometryBuffer\<close> returns a buffer only if each of the four named render
  outputs exists and is a 2-D texture; and when they all are, each of the four readbacks
  returns the texels of its output and no null pointer is dereferenced. (The stores of
  \<^verbatim>\<open>ea::transform\<close> are a separate matter: the bake as a whole is defined when, in
  addition, no output has more texels than the buffer has entries and every W of the
  "position" output converts to an \<^verbatim>\<open>unsigned\<close>.)
\<close>

theorem readback_needs_the_four_2d_outputs:
  assumes "BeginFrame eng (frameNumber state)"
  shows "((\<exists>result. BakeLightmapGeometryBuffer eng state bakingScene = Inr result) \<longrightarrow>
            RenderOutputsExist eng (frameNumber state) bakingScene) \<and>
         (RenderOutputsExist eng (frameNumber state) bakingScene \<longrightarrow>
            (\<forall>name \<in> set renderOutputNames.
               ReadTextureRGBA32Float (GetExtraRenderTarget eng (frameNumber state) bakingScene name) =
                 Inr (OutputData eng (frameNumber state) bakingScene name)) \<and>
            BakeLightmapGeometryBuffer eng state bakingScene \<noteq> Inl NullDereference) \<and>
         (RenderOutputsExist eng (frameNumber state) bakingScene \<and>
          RenderOutputsFit eng (frameNumber state) bakingScene \<longrightarrow>
            BakeLightmapGeometryBuffer eng state bakingScene =
              Inr (BakedBuffer eng (frameNumber state) bakingScene,
                   state\<lparr> frameNumber := Suc (frameNumber state) \<rparr>)) \<and>
         (\<forall>texture. ReadTextureRGBA32Float texture = Inl NullDereference \<longleftrightarrow>
            (case texture of None \<Rightarrow> True | Some t \<Rightarrow> \<not> IsTexture2D t))"
proof (intro conjI impI allI ballI)
  assume "\<exists>result. BakeLightmapGeometryBuffer eng state bakingScene = Inr result"
  then show "RenderOutputsExist eng (frameNumber state) bakingScene"
    using Bake_Inr_reads[OF assms] by blast
next
  fix name
  assume "RenderOutputsExist eng (frameNumber state) bakingScene" "name \<in> set renderOutputNames"
  then show "ReadTextureRGBA32Float (GetExtraRenderTarget eng (frameNumber state) bakingScene name) =
                 Inr (OutputData eng (frameNumber state) bakingScene name)"
    by (rule RenderOutputsExist_read)
next
  assume "RenderOutputsExist eng (frameNumber state) bakingScene"
  then show "BakeLightmapGeometryBuffer eng state bakingScene \<noteq> Inl NullDereference"
    by (rule Bake_not_null[OF assms])
next
  assume "RenderOutputsExist eng (frameNumber state) bakingScene \<and>
          RenderOutputsFit eng (frameNumber state) bakingScene"
  then show "BakeLightmapGeometryBuffer eng state bakingScene =
              Inr (BakedBuffer eng (frameNumber state) bakingScene,
                   state\<lparr> frameNumber := Suc (frameNumber state) \<rparr>)"
    using Bake_ok[OF assms] by blast
next
  fix texture
  show "ReadTextureRGBA32Float texture = Inl NullDereference \<longleftrightarrow>
            (case texture of None \<Rightarrow> True | Some t \<Rightarrow> \<not> IsTexture2D t)"
    by (auto simp: ReadTextureRGBA32Float_def split: option.splits)
qed

theorem readback_needs_the_four_2d_outputs_witness:
  "BeginFrame exampleEngine (frameNumber exampleState) \<and>
   RenderOutputsExist exampleEngine (frameNumber exampleState) exampleBakingScene \<and>
   BakeLightmapGeometryBuffer exampleEngine exampleState exampleBakingScene \<noteq> Inl NullDereference \<and>
   ReadTextureRGBA32Float (GetExtraRenderTarget exampleEngine (frameNumber exampleState)
       exampleBakingScene ''facenormal'') =
     Inr [Vector4 0 0 0 0, Vector4 (1/2) 0 0 1, Vector4 1 (1/4) 0 2, Vector4 0 0 0 0] \<and>
   ReadTextureRGBA32Float None = Inl NullDereference"
proof -
  have frame: "BeginFrame exampleEngine (frameNumber exampleState)"
    by (simp add: exampleEngine_def exampleState_def)
  have name: "''facenormal'' \<in> set renderOutputNames" by (simp add: renderOutputNames_def)
  from readback_needs_the_four_2d_outputs[OF frame, of exampleBakingScene]
    example_outputs_exist[of "frameNumber exampleState" exampleBakingScene] frame
  show ?thesis
    using name example_output_data[OF name, of "frameNumber exampleState" exampleBakingScene]
    by auto
qed

end
